theory Spec2Isabelle
  imports
    Complex_Main
    "HOL-Library.Sublist"
    "HOL-Library.AList"
    "HOL-Library.Char_ord"
    "HOL-Library.List_Lexorder"
    "HOL-Library.Product_Lexorder"
begin

section \<open>pyPheWAS core (pyPhewasCorev2.py): shallow embedding\<close>

text \<open>
  The embedding follows \<^verbatim>\<open>src/pyPheWAS/pyPhewasCorev2.py\<close>. Floating-point numbers are
  modelled by the reals extended with the three non-finite values numpy knows
  (\<open>inf\<close>, \<open>-inf\<close>, \<open>nan\<close>); rounding is not modelled. Python exceptions are values of
  the type \<open>py_error\<close>, and a function that may raise returns \<open>py_error + 'a\<close>.
\<close>

subsection \<open>Floats and exceptions\<close>

datatype fl = Fin real | PInf | NInf | NaN

fun isfinite :: "fl \<Rightarrow> bool" where
  "isfinite (Fin r) = True"
| "isfinite PInf = False"
| "isfinite NInf = False"
| "isfinite NaN = False"

fun fin_val :: "fl \<Rightarrow> real" where
  "fin_val (Fin r) = r"
| "fin_val PInf = 0"
| "fin_val NInf = 0"
| "fin_val NaN = 0"

datatype py_error =
    UnboundLocalError
  | ZeroDivisionError
  | KeyError string
  | IndexError
  | ValueError string
  | AttributeError string
  | OtherException string

subsection \<open>Multiple-comparison thresholds\<close>

text \<open>
  \<^verbatim>\<open>np.sort\<close> orders \<open>-inf\<close> first, then the finite values, then \<open>inf\<close>, and puts
  every \<open>nan\<close> at the end.
\<close>

fun np_sort_key :: "fl \<Rightarrow> nat \<times> real" where
  "np_sort_key NInf = (0, 0)"
| "np_sort_key (Fin r) = (1, r)"
| "np_sort_key PInf = (2, 0)"
| "np_sort_key NaN = (3, 0)"

definition np_sort :: "fl list \<Rightarrow> fl list" where
  "np_sort p_values = sort_key np_sort_key p_values"

text \<open>
  \<^verbatim>\<open>sn = np.sort(p_values); sn = sn[np.isfinite(sn)]\<close>
\<close>

definition finite_sorted :: "fl list \<Rightarrow> real list" where
  "finite_sorted p_values = map fin_val (filter isfinite (np_sort p_values))"

text \<open>
  \<^verbatim>\<open>alpha / sum(np.isfinite(p_values))\<close>. The builtin \<open>sum\<close> of an empty array is the
  Python integer 0, and dividing a float by it raises; the sum of a non-empty array is a
  numpy integer, and numpy's division by zero yields a non-finite float.
\<close>

definition get_bon_thresh :: "fl list \<Rightarrow> real \<Rightarrow> py_error + fl" where
  "get_bon_thresh p_values alpha =
     (let n = length (filter isfinite p_values) in
      if p_values = [] then Inl ZeroDivisionError
      else if n = 0 then
        Inr (if alpha > 0 then PInf else if alpha < 0 then NInf else NaN)
      else Inr (Fin (alpha / real n)))"

text \<open>
  The loop of \<^verbatim>\<open>get_fdr_thresh\<close> and \<^verbatim>\<open>get_bhy_thresh\<close>:
  \<^verbatim>\<open>
  for i in range(len(sn)):
      p_crit = ...
      if sn[i] <= p_crit: continue
      else: break
  return sn[i]
  \<close>
  \<open>stepup_scan p_crit sn i\<close> is the value of the loop variable when the loop is left,
  started at iteration \<open>i\<close>. The critical value of iteration \<open>i\<close> is \<open>p_crit i\<close>.
\<close>

function stepup_scan :: "(nat \<Rightarrow> real) \<Rightarrow> real list \<Rightarrow> nat \<Rightarrow> nat" where
  "stepup_scan p_crit sn i =
     (if sn ! i \<le> p_crit i \<and> Suc i < length sn
      then stepup_scan p_crit sn (Suc i)
      else i)"
  by pat_completeness auto
termination
  by (relation "measure (\<lambda>(p_crit, sn, i). length sn - i)") auto

declare stepup_scan.simps [simp del]

definition stepup_thresh :: "(nat \<Rightarrow> real) \<Rightarrow> real list \<Rightarrow> py_error + real" where
  "stepup_thresh p_crit sn =
     (if sn = [] then Inl UnboundLocalError
      else Inr (sn ! stepup_scan p_crit sn 0))"

definition fdr_crit :: "real \<Rightarrow> nat \<Rightarrow> nat \<Rightarrow> real" where
  "fdr_crit alpha m i = alpha * real (i + 1) / real m"

definition bhy_crit :: "real \<Rightarrow> nat \<Rightarrow> nat \<Rightarrow> real" where
  "bhy_crit alpha m i = alpha * real (i + 1) / (8.1 * real m)"

definition get_fdr_thresh :: "fl list \<Rightarrow> real \<Rightarrow> py_error + real" where
  "get_fdr_thresh p_values alpha =
     (let sn = finite_sorted p_values
      in stepup_thresh (fdr_crit alpha (length sn)) sn)"

definition get_bhy_thresh :: "fl list \<Rightarrow> real \<Rightarrow> py_error + real" where
  "get_bhy_thresh p_values alpha =
     (let sn = finite_sorted p_values
      in stepup_thresh (bhy_crit alpha (length sn)) sn)"

text \<open>
  The step-up rule in the words of the specification: the p-value at the last rank whose
  sorted p-value is at most its critical value, the scan going up from the smallest rank
  and stopping at the first rank whose value exceeds its critical value. There is no such
  rank when the smallest p-value already exceeds its critical value.
\<close>

definition spec_stepup_thresh :: "(nat \<Rightarrow> real) \<Rightarrow> real list \<Rightarrow> real option" where
  "spec_stepup_thresh p_crit sn =
     (case takeWhile (\<lambda>i. sn ! i \<le> p_crit i) [0..<length sn] of
        [] \<Rightarrow> None
      | i # is \<Rightarrow> Some (sn ! last (i # is)))"

subsection \<open>Strings\<close>

text \<open>
  \<^verbatim>\<open>s.split(sep)\<close> for a non-empty separator: the occurrences of \<open>sep\<close> are found from
  the left and do not overlap. \<open>acc\<close> holds the current piece, reversed.
\<close>

function py_split_acc :: "string \<Rightarrow> string \<Rightarrow> string \<Rightarrow> string list" where
  "py_split_acc sep acc [] = [rev acc]"
| "py_split_acc sep acc (c # cs) =
     (if sep \<noteq> [] \<and> prefix sep (c # cs)
      then rev acc # py_split_acc sep [] (drop (length sep) (c # cs))
      else py_split_acc sep (c # acc) cs)"
  by pat_completeness auto
termination
  by (relation "measure (\<lambda>(sep, acc, s). length s)") auto

definition py_split :: "string \<Rightarrow> string \<Rightarrow> string list" where
  "py_split s sep = py_split_acc sep [] s"

text \<open>
  \<^verbatim>\<open>s.strip()\<close> removes the white space at both ends; the ASCII white space of Python
  is the characters 9 to 13, 28 to 31 and the blank.
\<close>

definition py_isspace :: "char \<Rightarrow> bool" where
  "py_isspace c =
     (let n = of_char c :: nat in (9 \<le> n \<and> n \<le> 13) \<or> (28 \<le> n \<and> n \<le> 32))"

definition py_strip :: "string \<Rightarrow> string" where
  "py_strip s = rev (dropWhile py_isspace (rev (dropWhile py_isspace s)))"

subsection \<open>Data frames as the regression reads them\<close>

text \<open>
  A pandas data frame is a list of named columns; a column holds numbers or strings.
  \<^verbatim>\<open>data[name]\<close> raises \<open>KeyError\<close> for a name that is not a column, and
  \<^verbatim>\<open>data[name] = v\<close> replaces the column or appends it, raising \<open>ValueError\<close> when the
  length of \<open>v\<close> is not the number of rows.
\<close>

datatype column = NumCol "real list" | StrCol "string list"

type_synonym dataframe = "(string \<times> column) list"

fun col_len :: "column \<Rightarrow> nat" where
  "col_len (NumCol v) = length v"
| "col_len (StrCol v) = length v"

definition df_get :: "dataframe \<Rightarrow> string \<Rightarrow> py_error + column" where
  "df_get data colname =
     (case map_of data colname of None \<Rightarrow> Inl (KeyError colname) | Some c \<Rightarrow> Inr c)"

fun df_get_list :: "dataframe \<Rightarrow> string list \<Rightarrow> py_error + (string \<times> column) list" where
  "df_get_list data [] = Inr []"
| "df_get_list data (n # ns) =
     (case df_get data n of
        Inl e \<Rightarrow> Inl e
      | Inr c \<Rightarrow>
          (case df_get_list data ns of
             Inl e \<Rightarrow> Inl e
           | Inr cs \<Rightarrow> Inr ((n, c) # cs)))"

definition df_set :: "string \<Rightarrow> real list \<Rightarrow> dataframe \<Rightarrow> py_error + dataframe" where
  "df_set colname v data =
     (case data of
        [] \<Rightarrow> Inr [(colname, NumCol v)]
      | (_, c) # _ \<Rightarrow>
          if col_len c = length v then Inr (AList.update colname (NumCol v) data)
          else Inl (ValueError ''Length of values does not match length of index''))"

subsection \<open>The regression of one phenotype: \<^verbatim>\<open>calculate_odds_ratio\<close>\<close>

text \<open>
  The statsmodels calls are outside the repository. A call is a value of \<open>fit_call\<close>,
  and the library is a parameter \<open>fitter\<close> that maps a call to the statistics of the
  term \<open>y\<close> of the fitted model, or to the exception the call (or reading the statistics
  off the result) raises. Only exceptions derived from \<^verbatim>\<open>Exception\<close> are modelled.
\<close>

datatype fit_call =
    Smf_logit_fit string dataframe
  | Sm_Logit_fit_regularized column "(string \<times> column) list" real
  | Smf_logit_fit_bfgs string dataframe

record fit_stats =
  pvalues_y :: fl
  params_y :: fl
  conf_int_y :: "fl \<times> fl"
  bse_y :: fl

type_synonym fitter = "fit_call \<Rightarrow> py_error + fit_stats"

text \<open>
  The list \<^verbatim>\<open>od = [-math.log10(p), p, beta, '[lo,hi]', stderr]\<close>; the confidence
  interval is \<open>None\<close> where the code stores \<open>nan\<close> in its place.
\<close>

record od_row =
  neg_log_p :: fl
  od_p :: fl
  od_beta :: fl
  od_conf :: "(fl \<times> fl) option"
  od_stderr :: fl

text \<open>The tuple \<^verbatim>\<open>(odds, p, od, stderr)\<close>.\<close>

type_synonym odds_result = "int \<times> fl \<times> od_row \<times> fl"

definition nan_result :: odds_result where
  "nan_result =
     (0, NaN,
      \<lparr>neg_log_p = NaN, od_p = NaN, od_beta = NaN, od_conf = None, od_stderr = NaN\<rparr>,
      NaN)"

text \<open>What the function prints: \<^verbatim>\<open>print(e)\<close> and \<^verbatim>\<open>print('lr = % d' %lr)\<close>.\<close>

datatype diagnostic = Print_exception py_error | Print_lr int

text \<open>\<^verbatim>\<open>-math.log10(p)\<close>: \<open>math.log10\<close> raises \<open>ValueError\<close> outside its domain.\<close>

fun neg_log10 :: "fl \<Rightarrow> py_error + fl" where
  "neg_log10 (Fin r) =
     (if r \<le> 0 then Inl (ValueError ''math domain error'') else Inr (Fin (- log 10 r)))"
| "neg_log10 PInf = Inr NInf"
| "neg_log10 NInf = Inl (ValueError ''math domain error'')"
| "neg_log10 NaN = Inr NaN"

definition make_od :: "fit_stats \<Rightarrow> py_error + odds_result" where
  "make_od st =
     (case neg_log10 (pvalues_y st) of
        Inl e \<Rightarrow> Inl e
      | Inr l \<Rightarrow>
          Inr (0, pvalues_y st,
               \<lparr>neg_log_p = l, od_p = pvalues_y st, od_beta = params_y st,
                od_conf = Some (conf_int_y st), od_stderr = bse_y st\<rparr>,
               bse_y st))"

definition build_formula :: "string \<Rightarrow> string \<Rightarrow> bool \<Rightarrow> string" where
  "build_formula response covariates has_phe =
     (let covariates1 = (if covariates \<noteq> [] then ''+'' @ covariates else covariates) in
      if response \<noteq> [] then
        (if has_phe then response @ ''~ y + phe + genotype'' @ covariates1
         else response @ ''~ y + genotype'' @ covariates1)
      else
        (if has_phe then ''genotype ~ y + phe'' @ covariates1
         else ''genotype ~ y'' @ covariates1))"

text \<open>The body of the \<^verbatim>\<open>try\<close> block.\<close>

definition try_fit :: "fitter \<Rightarrow> string \<Rightarrow> dataframe \<Rightarrow> int \<Rightarrow> py_error + odds_result" where
  "try_fit fit f data lr =
     (if lr = 0 then
        (case fit (Smf_logit_fit f data) of Inl e \<Rightarrow> Inl e | Inr st \<Rightarrow> make_od st)
      else if lr = 1 then
        (let f1 = py_split f '' ~ '' in
         if length f1 < 2 then Inl IndexError
         else
           (let f1_1 = filter (\<lambda>c. c \<noteq> CHR '' '') (f1 ! 1) in
            case df_get data (py_strip (f1 ! 0)) of
              Inl e \<Rightarrow> Inl e
            | Inr endog \<Rightarrow>
                (case df_get_list data (py_split f1_1 ''+'') of
                   Inl e \<Rightarrow> Inl e
                 | Inr exog \<Rightarrow>
                     (case fit (Sm_Logit_fit_regularized endog exog 0.1) of
                        Inl e \<Rightarrow> Inl e
                      | Inr st \<Rightarrow> make_od st))))
      else
        (case fit (Smf_logit_fit_bfgs f data) of Inl e \<Rightarrow> Inl e | Inr st \<Rightarrow> make_od st))"

text \<open>The two \<^verbatim>\<open>except\<close> clauses: \<open>ValueError\<close> first, then any other exception.\<close>

fun handle_fit :: "int \<Rightarrow> py_error + odds_result \<Rightarrow> diagnostic list \<times> odds_result" where
  "handle_fit lr (Inr r) = ([], r)"
| "handle_fit lr (Inl (ValueError m)) =
     ([Print_exception (ValueError m), Print_lr lr], nan_result)"
| "handle_fit lr (Inl e) = ([Print_exception e], nan_result)"

definition any_nonzero :: "real list \<Rightarrow> bool" where
  "any_nonzero v = list_ex (\<lambda>x. x \<noteq> 0) v"

text \<open>
  The function returns the data frame too: \<^verbatim>\<open>data = genotypes\<close> is an alias, so the
  columns it sets stay in the caller's frame. The three assignments are outside the
  \<^verbatim>\<open>try\<close> block, and an exception they raise leaves the function.
\<close>

definition calculate_odds_ratio ::
  "fitter \<Rightarrow> dataframe \<Rightarrow> real list \<Rightarrow> real list \<Rightarrow> string \<Rightarrow> int \<Rightarrow> string \<Rightarrow> real list
     \<Rightarrow> py_error + (dataframe \<times> diagnostic list \<times> odds_result)" where
  "calculate_odds_ratio fit genotypes phen_vector1 phen_vector2 covariates lr response
       phen_vector3 =
     (case df_set ''y'' phen_vector1 genotypes of
        Inl e \<Rightarrow> Inl e
      | Inr data1 \<Rightarrow>
          (case df_set ''MaxAgeAtICD'' phen_vector2 data1 of
             Inl e \<Rightarrow> Inl e
           | Inr data2 \<Rightarrow>
               (case (if any_nonzero phen_vector3 then df_set ''phe'' phen_vector3 data2
                      else Inr data2) of
                  Inl e \<Rightarrow> Inl e
                | Inr data \<Rightarrow>
                    (let f = build_formula response covariates (any_nonzero phen_vector3) in
                     case handle_fit lr (try_fit fit f data lr) of
                       (out, res) \<Rightarrow> Inr (data, out, res)))))"

text \<open>
  Two libraries for concrete runs: one whose every fit succeeds with the same statistics,
  and one whose every fit raises the same exception.
\<close>

definition constant_fitter :: "fit_stats \<Rightarrow> fitter" where
  "constant_fitter st call = Inr st"

definition raising_fitter :: "py_error \<Rightarrow> fitter" where
  "raising_fitter e call = Inl e"

text \<open>
  A library that accepts some calls only: a call that the predicate rejects raises \<open>e\<close>,
  an accepted call succeeds with the statistics \<open>st\<close>. Three predicates on calls: the
  ordinary fit, the L1-regularized fit with a given penalty, and the check that
  statsmodels' \<^verbatim>\<open>Logit\<close> makes on the response it is given, which must lie in the
  unit interval (\<^verbatim>\<open>ValueError: endog must be in the unit interval.\<close>).
\<close>

definition selective_fitter :: "(fit_call \<Rightarrow> bool) \<Rightarrow> py_error \<Rightarrow> fit_stats \<Rightarrow> fitter" where
  "selective_fitter accepts e st call = (if accepts call then Inr st else Inl e)"

fun is_ordinary_call :: "fit_call \<Rightarrow> bool" where
  "is_ordinary_call (Smf_logit_fit f data) = True"
| "is_ordinary_call (Sm_Logit_fit_regularized endog exog a) = False"
| "is_ordinary_call (Smf_logit_fit_bfgs f data) = False"

fun is_regularized_call :: "real \<Rightarrow> fit_call \<Rightarrow> bool" where
  "is_regularized_call penalty (Smf_logit_fit f data) = False"
| "is_regularized_call penalty (Sm_Logit_fit_regularized endog exog a) = (a = penalty)"
| "is_regularized_call penalty (Smf_logit_fit_bfgs f data) = False"

fun unit_interval_column :: "column \<Rightarrow> bool" where
  "unit_interval_column (NumCol v) = list_all (\<lambda>x. 0 \<le> x \<and> x \<le> 1) v"
| "unit_interval_column (StrCol v) = False"

fun endog_in_unit_interval :: "fit_call \<Rightarrow> bool" where
  "endog_in_unit_interval (Smf_logit_fit f data) = True"
| "endog_in_unit_interval (Sm_Logit_fit_regularized endog exog a) = unit_interval_column endog"
| "endog_in_unit_interval (Smf_logit_fit_bfgs f data) = True"

subsection \<open>The regression loop: \<^verbatim>\<open>run_phewas\<close>\<close>

text \<open>
  The feature matrix is the numpy array of shape \<open>(3, N, P)\<close>; each layer is a list of
  \<open>N\<close> rows of \<open>P\<close> numbers.
\<close>

record feature_matrix =
  layer0 :: "real list list"
  layer1 :: "real list list"
  layer2 :: "real list list"

text \<open>
  The code tables are module-level globals loaded from the resource files, which are not
  part of the sources; they are parameters here. \<open>phewas_codes\<close> and \<open>prowas_codes\<close> hold
  the code and its name per row, \<open>icd9_codes\<close> and \<open>icd10_codes\<close> the raw code and the
  PheCode it maps to.
\<close>

record code_tables =
  phewas_codes :: "(string \<times> string) list"
  prowas_codes :: "(string \<times> string) list"
  icd9_codes :: "(string \<times> string) list"
  icd10_codes :: "(string \<times> string) list"

fun py_join :: "string \<Rightarrow> string list \<Rightarrow> string" where
  "py_join sep [] = []"
| "py_join sep [x] = x"
| "py_join sep (x # y # ys) = x @ sep @ py_join sep (y # ys)"

text \<open>\<^verbatim>\<open>get_phewas_info\<close>: \<^verbatim>\<open>phewas_codes.loc[p_index, ...]\<close> raises for a missing row.\<close>

definition get_phewas_info :: "code_tables \<Rightarrow> nat \<Rightarrow> py_error + string list" where
  "get_phewas_info tables p_index =
     (if p_index < length (phewas_codes tables) then
        (let p_code = fst (phewas_codes tables ! p_index);
             p_name = snd (phewas_codes tables ! p_index);
             p_icd9_rollup =
               py_join ''/'' (map fst (filter (\<lambda>r. snd r = p_code) (icd9_codes tables)));
             p_icd10_rollup =
               py_join ''/'' (map fst (filter (\<lambda>r. snd r = p_code) (icd10_codes tables)))
         in Inr [p_code, p_name, p_icd9_rollup, p_icd10_rollup])
      else Inl (KeyError ''p_index''))"

text \<open>
  \<^verbatim>\<open>genotypes.sort_values(by='id', inplace=True); genotypes.reset_index(...)\<close>: the rows of
  every column are permuted by the order of the column \<open>by\<close>.
\<close>

fun take_rows :: "nat list \<Rightarrow> column \<Rightarrow> column" where
  "take_rows perm (NumCol v) = NumCol (map (\<lambda>i. v ! i) perm)"
| "take_rows perm (StrCol v) = StrCol (map (\<lambda>i. v ! i) perm)"

fun sort_perm :: "column \<Rightarrow> nat list" where
  "sort_perm (NumCol v) = sort_key (\<lambda>i. v ! i) [0..<length v]"
| "sort_perm (StrCol v) = sort_key (\<lambda>i. v ! i) [0..<length v]"

definition sort_values :: "string \<Rightarrow> dataframe \<Rightarrow> py_error + dataframe" where
  "sort_values by data =
     (case map_of data by of
        None \<Rightarrow> Inl (KeyError by)
      | Some c \<Rightarrow> Inr (map (\<lambda>(n, col). (n, take_rows (sort_perm c) col)) data))"

text \<open>\<^verbatim>\<open>genotypes.genotype == g\<close>\<close>

definition genotype_eq :: "dataframe \<Rightarrow> real \<Rightarrow> py_error + bool list" where
  "genotype_eq genotypes g =
     (case map_of genotypes ''genotype'' of
        None \<Rightarrow> Inl (AttributeError ''genotype'')
      | Some (NumCol v) \<Rightarrow> Inr (map (\<lambda>x. x = g) v)
      | Some (StrCol v) \<Rightarrow> Inr (map (\<lambda>x. False) v))"

text \<open>\<^verbatim>\<open>fm[0][mask, :]\<close>: the rows where the mask holds; the lengths must agree.\<close>

definition mask_rows :: "real list list \<Rightarrow> bool list \<Rightarrow> py_error + real list list" where
  "mask_rows rows bmask =
     (if length bmask \<noteq> length rows then Inl IndexError
      else Inr (map fst (filter snd (zip rows bmask))))"

text \<open>\<^verbatim>\<open>a.any(axis=0)\<close> for an array of \<open>P\<close> columns.\<close>

definition any_axis0 :: "nat \<Rightarrow> real list list \<Rightarrow> bool list" where
  "any_axis0 P rows = map (\<lambda>j. list_ex (\<lambda>row. row ! j \<noteq> 0) rows) [0..<P]"

text \<open>
  \<^verbatim>\<open>inds = np.where((control.any(axis=0) & ~disease.any(axis=0)) |
                    (~control.any(axis=0) & disease.any(axis=0)))[0]\<close>
\<close>

definition separated_inds :: "nat \<Rightarrow> real list list \<Rightarrow> real list list \<Rightarrow> nat list" where
  "separated_inds P control disease =
     (let c = any_axis0 P control; d = any_axis0 P disease
      in filter (\<lambda>j. (c ! j \<and> \<not> d ! j) \<or> (\<not> c ! j \<and> d ! j)) [0..<P])"

text \<open>
  Lines 423 to 426 of \<^verbatim>\<open>run_phewas\<close>: the rows of the controls and of the diseased,
  and the phenotype columns present in one of the two groups only.
\<close>

definition find_inds :: "feature_matrix \<Rightarrow> dataframe \<Rightarrow> nat \<Rightarrow> py_error + nat list" where
  "find_inds fm genotypes num_phecodes =
     (case genotype_eq genotypes 0 of
        Inl e \<Rightarrow> Inl e
      | Inr mask0 \<Rightarrow>
          (case mask_rows (layer0 fm) mask0 of
             Inl e \<Rightarrow> Inl e
           | Inr control \<Rightarrow>
               (case genotype_eq genotypes 1 of
                  Inl e \<Rightarrow> Inl e
                | Inr mask1 \<Rightarrow>
                    (case mask_rows (layer0 fm) mask1 of
                       Inl e \<Rightarrow> Inl e
                     | Inr disease \<Rightarrow> Inr (separated_inds num_phecodes control disease)))))"

text \<open>\<^verbatim>\<open>fm[k][:, index]\<close>\<close>

definition column_of :: "real list list \<Rightarrow> nat \<Rightarrow> real list" where
  "column_of rows index = map (\<lambda>row. row ! index) rows"

text \<open>
  The branch taken for one phenotype column (lines 432 to 449): \<open>Some lr\<close> when
  \<^verbatim>\<open>calculate_odds_ratio\<close> is called with that \<open>lr\<close>, \<open>None\<close> when the column is skipped
  and the default values are stored.
\<close>

definition phewas_route :: "nat list \<Rightarrow> real list \<Rightarrow> nat \<Rightarrow> int option" where
  "phewas_route inds phen_vector1 index =
     (if length (filter (\<lambda>x. x > 0) phen_vector1) > 5
      then (if index \<in> set inds then Some 1 else Some 0)
      else None)"

definition phewas_res ::
  "fitter \<Rightarrow> nat list \<Rightarrow> feature_matrix \<Rightarrow> dataframe \<Rightarrow> string \<Rightarrow> string \<Rightarrow> nat
     \<Rightarrow> py_error + (dataframe \<times> diagnostic list \<times> odds_result)" where
  "phewas_res fit inds fm genotypes covariates response index =
     (let phen_vector1 = column_of (layer0 fm) index;
          phen_vector2 = column_of (layer1 fm) index;
          phen_vector3 = column_of (layer2 fm) index
      in case phewas_route inds phen_vector1 index of
           Some lr \<Rightarrow>
             calculate_odds_ratio fit genotypes phen_vector1 phen_vector2 covariates lr
               response phen_vector3
         | None \<Rightarrow> Inr (genotypes, [], nan_result))"

text \<open>
  A row of the table \<^verbatim>\<open>regressions\<close>:
  \<^verbatim>\<open>info = phewas_info[0:2] + stat_info + [phewas_info[2]] + [phewas_info[3]]\<close>.
\<close>

record regression_row =
  PheWAS_Code :: string
  PheWAS_Name :: string
  stat_info :: od_row
  ICD_9 :: string
  ICD_10 :: string

fun phewas_loop ::
  "fitter \<Rightarrow> code_tables \<Rightarrow> nat list \<Rightarrow> feature_matrix \<Rightarrow> string \<Rightarrow> string \<Rightarrow> nat list
     \<Rightarrow> dataframe \<times> diagnostic list \<times> regression_row list
     \<Rightarrow> py_error + (dataframe \<times> diagnostic list \<times> regression_row list)" where
  "phewas_loop fit tables inds fm covariates response [] st = Inr st"
| "phewas_loop fit tables inds fm covariates response (index # rest) (genotypes, out, regressions) =
     (case phewas_res fit inds fm genotypes covariates response index of
        Inl e \<Rightarrow> Inl e
      | Inr (genotypes1, out1, res) \<Rightarrow>
          (case get_phewas_info tables index of
             Inl e \<Rightarrow> Inl e
           | Inr phewas_info \<Rightarrow>
               phewas_loop fit tables inds fm covariates response rest
                 (genotypes1, out @ out1,
                  regressions @
                    [\<lparr>PheWAS_Code = phewas_info ! 0, PheWAS_Name = phewas_info ! 1,
                      stat_info = fst (snd (snd res)),
                      ICD_9 = phewas_info ! 2, ICD_10 = phewas_info ! 3\<rparr>])))"

text \<open>
  \<^verbatim>\<open>run_phewas\<close>. The parameters \<open>reg_type\<close> and \<open>phewas_cov\<close> are not used by the body.
  \<^verbatim>\<open>len(fm[0, 0])\<close> raises when the matrix has no row. The result is the printed
  diagnostics and the table after
  \<^verbatim>\<open>regressions.dropna(subset=['p-val']).sort_values(by='PheWAS Code')\<close>.
\<close>

definition run_phewas ::
  "fitter \<Rightarrow> code_tables \<Rightarrow> feature_matrix \<Rightarrow> dataframe \<Rightarrow> string \<Rightarrow> int \<Rightarrow> string \<Rightarrow> string
     \<Rightarrow> py_error + (diagnostic list \<times> regression_row list)" where
  "run_phewas fit tables fm genotypes0 covariates reg_type response phewas_cov =
     (case sort_values ''id'' genotypes0 of
        Inl e \<Rightarrow> Inl e
      | Inr genotypes \<Rightarrow>
          (case layer0 fm of
             [] \<Rightarrow> Inl IndexError
           | row0 # _ \<Rightarrow>
               (let num_phecodes = length row0 in
                case find_inds fm genotypes num_phecodes of
                  Inl e \<Rightarrow> Inl e
                | Inr inds \<Rightarrow>
                    (case phewas_loop fit tables inds fm covariates response
                            [0..<num_phecodes] (genotypes, [], []) of
                       Inl e \<Rightarrow> Inl e
                     | Inr (_, out, regressions) \<Rightarrow>
                         Inr (out,
                              sort_key PheWAS_Code
                                (filter (\<lambda>r. od_p (stat_info r) \<noteq> NaN) regressions))))))"

subsection \<open>The phenotype table: \<^verbatim>\<open>get_icd_codes\<close>\<close>

text \<open>
  A row of the phenotype table after the merge with the code map: the subject's
  identifier (column \<open>id\<close>), the PheWAS code and the age at the event. Identifiers and
  codes are strings; ages are real numbers (no \<open>nan\<close>).
\<close>

record phe_row =
  event_id :: string
  PheCode :: string
  AgeAtICD :: real

text \<open>The columns \<open>MaxAgeAtICD\<close> and, for \<open>reg_type = 2\<close> only, \<open>duration\<close>.\<close>

record event = phe_row +
  MaxAgeAtICD :: real
  duration :: "real option"

text \<open>The ages of the group \<^verbatim>\<open>groupby(['id', 'PheCode'])['AgeAtICD']\<close> of a row.\<close>

definition group_ages :: "phe_row list \<Rightarrow> string \<Rightarrow> string \<Rightarrow> real list" where
  "group_ages phenotypes i c =
     map AgeAtICD (filter (\<lambda>r. event_id r = i \<and> PheCode r = c) phenotypes)"

text \<open>
  Lines 140 to 147 of \<^verbatim>\<open>get_icd_codes\<close> (and the same lines of \<^verbatim>\<open>get_cpt_codes\<close>), on
  the merged table \<open>phenotypes\<close>; reading the file and merging it with the code map are
  outside the model.
\<close>

definition get_icd_codes :: "int \<Rightarrow> phe_row list \<Rightarrow> event list" where
  "get_icd_codes reg_type phenotypes =
     map (\<lambda>r.
        let ages = group_ages phenotypes (event_id r) (PheCode r)
        in \<lparr>event_id = event_id r, PheCode = PheCode r, AgeAtICD = AgeAtICD r,
            MaxAgeAtICD = Max (set ages),
            duration = (if reg_type = 2 then Some (Max (set ages) - Min (set ages) + 1)
                        else None)\<rparr>)
       phenotypes"

subsection \<open>The feature matrix: \<^verbatim>\<open>generate_feature_matrix\<close>\<close>

text \<open>A row of the group table, as the builder reads it.\<close>

record subject =
  roster_id :: string
  MaxAgeAtVisit :: real

text \<open>
  A numpy index into an axis of length \<open>n\<close>: a negative index counts from the end, and an
  index outside \<open>[-n, n)\<close> raises.
\<close>

definition np_axis_index :: "nat \<Rightarrow> int \<Rightarrow> py_error + nat" where
  "np_axis_index n i =
     (if 0 \<le> i \<and> i < int n then Inr (nat i)
      else if - int n \<le> i \<and> i < 0 then Inr (nat (int n + i))
      else Inl IndexError)"

text \<open>\<^verbatim>\<open>a[count] = v\<close>: the scalar is broadcast over the row.\<close>

definition set_row :: "real list list \<Rightarrow> int \<Rightarrow> real \<Rightarrow> py_error + real list list" where
  "set_row rows i v =
     (case np_axis_index (length rows) i of
        Inl e \<Rightarrow> Inl e
      | Inr k \<Rightarrow> Inr (rows[k := replicate (length (rows ! k)) v]))"

text \<open>\<^verbatim>\<open>a[count][ix]\<close> and \<^verbatim>\<open>a[count][ix] = v\<close>\<close>

definition get_cell :: "real list list \<Rightarrow> int \<Rightarrow> nat \<Rightarrow> py_error + real" where
  "get_cell rows i j =
     (case np_axis_index (length rows) i of
        Inl e \<Rightarrow> Inl e
      | Inr k \<Rightarrow> if j < length (rows ! k) then Inr (rows ! k ! j) else Inl IndexError)"

definition set_cell :: "real list list \<Rightarrow> int \<Rightarrow> nat \<Rightarrow> real \<Rightarrow> py_error + real list list" where
  "set_cell rows i j v =
     (case np_axis_index (length rows) i of
        Inl e \<Rightarrow> Inl e
      | Inr k \<Rightarrow>
          if j < length (rows ! k) then Inr (rows[k := (rows ! k)[j := v]])
          else Inl IndexError)"

text \<open>The variables of the loop over the events.\<close>

record loop_state =
  fmat :: feature_matrix
  exclude :: "string list"
  last_id :: string
  count :: int

text \<open>
  The \<^verbatim>\<open>while\<close> loop of lines 262 to 265: the subjects from \<open>count\<close> up to the one
  whose id is \<open>curr_id\<close> have no event, and their rows of layer 1 are filled with their
  \<open>MaxAgeAtVisit\<close>. \<^verbatim>\<open>genotypes_df.loc[count, 'id']\<close> raises \<open>KeyError\<close> when \<open>count\<close> is
  not a row label.
\<close>

function skip_empty ::
  "subject list \<Rightarrow> (string \<rightharpoonup> subject) \<Rightarrow> string \<Rightarrow> int \<Rightarrow> real list list
     \<Rightarrow> py_error + (int \<times> real list list)" where
  "skip_empty genotypes_df genotypes curr_id cnt l1 =
     (if cnt < 0 \<or> int (length genotypes_df) \<le> cnt then Inl (KeyError ''count'')
      else
        (let empty_id = roster_id (genotypes_df ! nat cnt) in
         if curr_id \<noteq> empty_id then
           (case genotypes empty_id of
              None \<Rightarrow> Inl (KeyError empty_id)
            | Some subj \<Rightarrow>
                (case set_row l1 cnt (MaxAgeAtVisit subj) of
                   Inl e \<Rightarrow> Inl e
                 | Inr l1a \<Rightarrow> skip_empty genotypes_df genotypes curr_id (cnt + 1) l1a))
         else Inr (cnt, l1)))"
  by pat_completeness auto
termination
  by (relation "measure (\<lambda>(genotypes_df, genotypes, curr_id, cnt, l1).
        nat (int (length genotypes_df) - cnt))") auto

declare skip_empty.simps [simp del]

text \<open>The block \<^verbatim>\<open>if last_id != curr_id:\<close> of lines 260 to 267.\<close>

definition new_subject ::
  "subject list \<Rightarrow> (string \<rightharpoonup> subject) \<Rightarrow> string \<Rightarrow> loop_state \<Rightarrow> py_error + loop_state" where
  "new_subject genotypes_df genotypes curr_id s =
     (case skip_empty genotypes_df genotypes curr_id (count s + 1) (layer1 (fmat s)) of
        Inl e \<Rightarrow> Inl e
      | Inr (cnt, l1) \<Rightarrow>
          (case genotypes curr_id of
             None \<Rightarrow> Inl (KeyError curr_id)
           | Some subj \<Rightarrow>
               (case set_row l1 cnt (MaxAgeAtVisit subj) of
                  Inl e \<Rightarrow> Inl e
                | Inr l1a \<Rightarrow>
                    Inr (s\<lparr>fmat := (fmat s)\<lparr>layer1 := l1a\<rparr>, last_id := curr_id, count := cnt\<rparr>))))"

text \<open>Lines 277 to 285: the update of layer 0 for the regression type.\<close>

definition aggregate ::
  "int \<Rightarrow> real list list \<Rightarrow> int \<Rightarrow> nat \<Rightarrow> event \<Rightarrow> py_error + real list list" where
  "aggregate reg_type l0 cnt phecode_ix ev =
     (if reg_type = 0 then set_cell l0 cnt phecode_ix 1
      else if reg_type = 1 then
        (case get_cell l0 cnt phecode_ix of
           Inl e \<Rightarrow> Inl e
         | Inr v \<Rightarrow> set_cell l0 cnt phecode_ix (v + 1))
      else
        (case duration ev of
           None \<Rightarrow> Inl (KeyError ''duration'')
         | Some d \<Rightarrow> set_cell l0 cnt phecode_ix d))"

text \<open>
  The body of the loop over the events (lines 253 to 285). An event whose id is not in
  \<open>genotypes\<close> is skipped by \<^verbatim>\<open>continue\<close>; its id is printed and appended to
  \<open>exclude\<close> unless it is there already.
\<close>

definition process_event ::
  "subject list \<Rightarrow> (string \<rightharpoonup> subject) \<Rightarrow> (string \<rightharpoonup> nat) \<Rightarrow> int \<Rightarrow> string option
     \<Rightarrow> event \<Rightarrow> loop_state \<Rightarrow> py_error + loop_state" where
  "process_event genotypes_df genotypes np_index reg_type pheno_cov ev s =
     (let curr_id = event_id ev in
      if genotypes curr_id = None then
        Inr (if curr_id \<in> set (exclude s) then s
             else s\<lparr>exclude := exclude s @ [curr_id]\<rparr>)
      else
        (case (if last_id s \<noteq> curr_id then new_subject genotypes_df genotypes curr_id s
               else Inr s) of
           Inl e \<Rightarrow> Inl e
         | Inr s1 \<Rightarrow>
             (case np_index (PheCode ev) of
                None \<Rightarrow> Inl (KeyError (PheCode ev))
              | Some phecode_ix \<Rightarrow>
                  (case set_cell (layer1 (fmat s1)) (count s1) phecode_ix (MaxAgeAtICD ev) of
                     Inl e \<Rightarrow> Inl e
                   | Inr l1 \<Rightarrow>
                       (case (if pheno_cov = Some (PheCode ev)
                              then set_row (layer2 (fmat s1)) (count s1) 1
                              else Inr (layer2 (fmat s1))) of
                          Inl e \<Rightarrow> Inl e
                        | Inr l2 \<Rightarrow>
                            (case aggregate reg_type (layer0 (fmat s1)) (count s1) phecode_ix ev of
                               Inl e \<Rightarrow> Inl e
                             | Inr l0 \<Rightarrow>
                                 Inr (s1\<lparr>fmat := \<lparr>layer0 = l0, layer1 = l1, layer2 = l2\<rparr>\<rparr>)))))))"

text \<open>
  The loop. The first component of the result is what has been printed when the loop
  ends or is left by an exception: one message for each id in \<open>exclude\<close>.
\<close>

fun process_events ::
  "subject list \<Rightarrow> (string \<rightharpoonup> subject) \<Rightarrow> (string \<rightharpoonup> nat) \<Rightarrow> int \<Rightarrow> string option
     \<Rightarrow> event list \<Rightarrow> loop_state \<Rightarrow> string list \<times> (py_error + loop_state)" where
  "process_events genotypes_df genotypes np_index reg_type pheno_cov [] s = (exclude s, Inr s)"
| "process_events genotypes_df genotypes np_index reg_type pheno_cov (ev # evs) s =
     (case process_event genotypes_df genotypes np_index reg_type pheno_cov ev s of
        Inl e \<Rightarrow> (exclude s, Inl e)
      | Inr s1 \<Rightarrow> process_events genotypes_df genotypes np_index reg_type pheno_cov evs s1)"

text \<open>
  The header: the sorted codes of \<open>prowas_codes\<close> for the code type \<open>CPT\<close>, of
  \<open>phewas_codes\<close> otherwise.
\<close>

definition phecode_header :: "code_tables \<Rightarrow> string \<Rightarrow> string list" where
  "phecode_header tables code_type =
     sort (map fst (if code_type = ''CPT'' then prowas_codes tables else phewas_codes tables))"

text \<open>
  \<^verbatim>\<open>np_index = empty_phewas_df['np_index'].to_dict()\<close>: a code that occurs twice keeps
  its last position.
\<close>

definition make_np_index :: "string list \<Rightarrow> (string \<rightharpoonup> nat)" where
  "make_np_index header = map_of (rev (zip header [0..<length header]))"

text \<open>
  \<^verbatim>\<open>generate_feature_matrix\<close>. Both tables are sorted by id. pandas' default sort is
  not stable, so the events of one subject come in some order; the stable sort stands
  for it here (the properties of the loop proved below use only that the ids of the
  events are in ascending order). The identifiers are strings, compared
  lexicographically by character code, and the initial \<^verbatim>\<open>last_id = ''\<close> is the empty
  string. The dictionary
  \<^verbatim>\<open>genotypes_df.set_index('id').to_dict('index')\<close> raises \<open>ValueError\<close> when an id
  occurs twice. The result is the printed ids, and the matrix with the header or the
  exception that left the function.
\<close>

definition generate_feature_matrix ::
  "code_tables \<Rightarrow> subject list \<Rightarrow> event list \<Rightarrow> int \<Rightarrow> string \<Rightarrow> string option
     \<Rightarrow> string list \<times> (py_error + feature_matrix \<times> string list)" where
  "generate_feature_matrix tables genotypes_df0 phenotype0 reg_type code_type pheno_cov =
     (let phenotype = sort_key event_id phenotype0;
          genotypes_df = sort_key roster_id genotypes_df0;
          header = phecode_header tables code_type;
          np_index = make_np_index header;
          zeros = replicate (length genotypes_df) (replicate (length header) 0);
          feature_matrix = \<lparr>layer0 = zeros, layer1 = zeros, layer2 = zeros\<rparr>
      in if \<not> distinct (map roster_id genotypes_df)
         then ([], Inl (ValueError ''DataFrame index must be unique for orient=index''))
         else
           (let genotypes = map_of (map (\<lambda>subj. (roster_id subj, subj)) genotypes_df) in
            case process_events genotypes_df genotypes np_index reg_type pheno_cov phenotype
                   \<lparr>fmat = feature_matrix, exclude = [], last_id = [], count = - 1\<rparr> of
              (out, Inl e) \<Rightarrow> (out, Inl e)
            | (out, Inr s) \<Rightarrow> (out, Inr (fmat s, header))))"

subsection \<open>Invariants of the event loop\<close>

text \<open>A layer has \<open>N\<close> rows of \<open>P\<close> entries.\<close>

definition matrix_shape :: "nat \<Rightarrow> nat \<Rightarrow> real list list \<Rightarrow> bool" where
  "matrix_shape N P rows \<longleftrightarrow> length rows = N \<and> (\<forall>row\<in>set rows. length row = P)"

text \<open>
  Between two events: the layers keep their shape, and either no subject has been met
  (\<open>count = -1\<close>, \<open>last_id = ''\<close>) or \<open>count\<close> is the row of the subject \<open>last_id\<close> in
  the sorted group table \<open>G\<close>.
\<close>

definition loop_inv :: "subject list \<Rightarrow> nat \<Rightarrow> loop_state \<Rightarrow> bool" where
  "loop_inv G P s \<longleftrightarrow>
     matrix_shape (length G) P (layer0 (fmat s)) \<and>
     matrix_shape (length G) P (layer1 (fmat s)) \<and>
     matrix_shape (length G) P (layer2 (fmat s)) \<and>
     (count s = - 1 \<and> last_id s = [] \<or>
      0 \<le> count s \<and> count s < int (length G) \<and>
        last_id s = roster_id (G ! nat (count s)))"

section \<open>Properties\<close>

subsection \<open>The sorted finite p-values and the step-up scan\<close>

lemma isfinite_Fin_conv: "isfinite p \<longleftrightarrow> p = Fin (fin_val p)"
  by (cases p) auto

lemma set_finite_sorted: "set (finite_sorted ps) = {r. Fin r \<in> set ps}"
proof -
  have "set (finite_sorted ps) = fin_val ` {p \<in> set ps. isfinite p}"
    by (simp add: finite_sorted_def np_sort_def)
  also have "\<dots> = {r. Fin r \<in> set ps}"
  proof (intro set_eqI iffI)
    fix r assume "r \<in> fin_val ` {p \<in> set ps. isfinite p}"
    then obtain p where p: "p \<in> set ps" "isfinite p" "r = fin_val p" by auto
    from p(2,3) have "p = Fin r" by (cases p) auto
    with p(1) show "r \<in> {r. Fin r \<in> set ps}" by simp
  next
    fix r assume "r \<in> {r. Fin r \<in> set ps}"
    then have "Fin r \<in> {p \<in> set ps. isfinite p}" by simp
    then have "fin_val (Fin r) \<in> fin_val ` {p \<in> set ps. isfinite p}" by (rule imageI)
    then show "r \<in> fin_val ` {p \<in> set ps. isfinite p}" by simp
  qed
  finally show ?thesis .
qed

lemma length_finite_sorted: "length (finite_sorted ps) = length (filter isfinite ps)"
proof -
  have "filter isfinite (sort_key np_sort_key ps) = sort_key np_sort_key (filter isfinite ps)"
    by (rule filter_sort)
  then show ?thesis by (simp add: finite_sorted_def np_sort_def)
qed

lemma np_sort_key_mono: "isfinite p \<Longrightarrow> isfinite q \<Longrightarrow> np_sort_key p \<le> np_sort_key q \<Longrightarrow> fin_val p \<le> fin_val q"
  by (cases p; cases q) (auto simp: less_eq_prod_def)

lemma sorted_wrt_fin_val:
  "sorted_wrt (\<lambda>p q. np_sort_key p \<le> np_sort_key q) xs \<Longrightarrow> \<forall>p\<in>set xs. isfinite p \<Longrightarrow> sorted (map fin_val xs)"
  by (induction xs) (auto simp: np_sort_key_mono)

lemma sorted_finite_sorted: "sorted (finite_sorted ps)"
proof -
  have "sorted (map np_sort_key (sort_key np_sort_key ps))" by (rule sorted_sort_key)
  then have "sorted (map np_sort_key (filter isfinite (sort_key np_sort_key ps)))"
    by (rule sorted_filter)
  then have "sorted_wrt (\<lambda>p q. np_sort_key p \<le> np_sort_key q) (filter isfinite (sort_key np_sort_key ps))"
    by (simp add: sorted_wrt_map)
  then show ?thesis
    unfolding finite_sorted_def np_sort_def by (rule sorted_wrt_fin_val) simp
qed

lemma stepup_scan_ge: "i \<le> stepup_scan c sn i"
proof (induction c sn i rule: stepup_scan.induct)
  case (1 c sn i)
  show ?case
  proof (cases "sn ! i \<le> c i \<and> Suc i < length sn")
    case True
    with 1 have "Suc i \<le> stepup_scan c sn (Suc i)" by simp
    with True show ?thesis by (subst stepup_scan.simps) simp
  next
    case False
    then show ?thesis by (subst stepup_scan.simps) auto
  qed
qed

lemma stepup_scan_less: "i < length sn \<Longrightarrow> stepup_scan c sn i < length sn"
proof (induction c sn i rule: stepup_scan.induct)
  case (1 c sn i)
  show ?case
  proof (cases "sn ! i \<le> c i \<and> Suc i < length sn")
    case True
    with 1 have "stepup_scan c sn (Suc i) < length sn" by simp
    with True show ?thesis by (subst stepup_scan.simps) simp
  next
    case False
    with 1 show ?thesis by (subst stepup_scan.simps) auto
  qed
qed

lemma stepup_scan_passed:
  "i \<le> j \<Longrightarrow> j < stepup_scan c sn i \<Longrightarrow> sn ! j \<le> c j"
proof (induction c sn i rule: stepup_scan.induct)
  case (1 c sn i)
  show ?case
  proof (cases "sn ! i \<le> c i \<and> Suc i < length sn")
    case True
    then have eq: "stepup_scan c sn i = stepup_scan c sn (Suc i)"
      by (subst stepup_scan.simps) simp
    show ?thesis
    proof (cases "j = i")
      case True
      with \<open>sn ! i \<le> c i \<and> Suc i < length sn\<close> show ?thesis by simp
    next
      case False
      with 1 True eq show ?thesis by simp
    qed
  next
    case False
    then have "stepup_scan c sn i = i" by (subst stepup_scan.simps) auto
    with 1 show ?thesis by simp
  qed
qed

lemma stepup_scan_stop:
  "Suc (stepup_scan c sn i) < length sn \<Longrightarrow> c (stepup_scan c sn i) < sn ! stepup_scan c sn i"
proof (induction c sn i rule: stepup_scan.induct)
  case (1 c sn i)
  show ?case
  proof (cases "sn ! i \<le> c i \<and> Suc i < length sn")
    case True
    then have eq: "stepup_scan c sn i = stepup_scan c sn (Suc i)"
      by (subst stepup_scan.simps) simp
    with 1 True show ?thesis by simp
  next
    case False
    then have eq: "stepup_scan c sn i = i" by (subst stepup_scan.simps) auto
    with 1 False show ?thesis by auto
  qed
qed

lemma stepup_scan_all_pass:
  "i < length sn \<Longrightarrow> \<forall>j<length sn. sn ! j \<le> c j \<Longrightarrow> stepup_scan c sn i = length sn - 1"
proof (induction c sn i rule: stepup_scan.induct)
  case (1 c sn i)
  show ?case
  proof (cases "Suc i < length sn")
    case True
    with 1 have "stepup_scan c sn i = stepup_scan c sn (Suc i)"
      by (subst stepup_scan.simps) simp
    with 1 True show ?thesis by simp
  next
    case False
    then have "stepup_scan c sn i = i" by (subst stepup_scan.simps) auto
    with 1 False show ?thesis by auto
  qed
qed

lemma sorted_last_Max: "sorted xs \<Longrightarrow> xs \<noteq> [] \<Longrightarrow> xs ! (length xs - 1) = Max (set xs)"
proof (rule sym, rule Max_eqI)
  show "finite (set xs)" by simp
next
  assume "xs \<noteq> []"
  then show "xs ! (length xs - 1) \<in> set xs" by simp
next
  fix y assume s: "sorted xs" and "xs \<noteq> []" and "y \<in> set xs"
  then obtain j where j: "j < length xs" "y = xs ! j" by (auto simp: in_set_conv_nth)
  then have "xs ! j \<le> xs ! (length xs - 1)" using s by (intro sorted_nth_mono) auto
  with j show "y \<le> xs ! (length xs - 1)" by simp
qed

subsection \<open>Splitting the model formula\<close>

lemma py_split_acc_no_sep:
  "\<not> sublist sep s \<Longrightarrow> py_split_acc sep acc s = [rev acc @ s]"
proof (induction s arbitrary: acc)
  case Nil
  then show ?case by simp
next
  case (Cons c cs)
  from Cons.prems have np: "\<not> prefix sep (c # cs)" and ns: "\<not> sublist sep cs"
    by (auto simp: sublist_Cons_right)
  from np have "py_split_acc sep acc (c # cs) = py_split_acc sep (c # acc) cs" by simp
  also have "\<dots> = [rev (c # acc) @ cs]" using ns by (rule Cons.IH)
  finally show ?case by simp
qed

lemma py_split_no_sep: "\<not> sublist sep s \<Longrightarrow> py_split s sep = [s]"
  by (simp add: py_split_def py_split_acc_no_sep)

lemma sep_splits:
  "'' ~ '' = xs1 @ xs2 \<Longrightarrow>
     xs1 = [] \<and> xs2 = '' ~ '' \<or> xs1 = '' '' \<and> xs2 = ''~ '' \<or>
     xs1 = '' ~'' \<and> xs2 = '' '' \<or> xs1 = '' ~ '' \<and> xs2 = []"
  by (auto simp: Cons_eq_append_conv)

lemma no_sep_append:
  assumes "\<not> sublist '' ~ '' ys" "\<not> sublist '' ~ '' zs"
    and "\<not> (suffix '' '' ys \<and> prefix ''~ '' zs)"
    and "\<not> (suffix '' ~'' ys \<and> prefix '' '' zs)"
  shows "\<not> sublist '' ~ '' (ys @ zs)"
proof
  assume "sublist '' ~ '' (ys @ zs)"
  with assms(1,2) obtain xs1 xs2 where x: "'' ~ '' = xs1 @ xs2" "suffix xs1 ys" "prefix xs2 zs"
    by (auto simp: sublist_append)
  from sep_splits [OF x(1)] x(2,3) assms show False
    by (elim disjE conjE) auto
qed

lemma suffix_blank: "ys \<noteq> [] \<Longrightarrow> suffix '' '' ys \<Longrightarrow> last ys = CHR '' ''"
  by (auto simp: suffix_def)

lemma no_sep_covariates1:
  assumes "\<not> sublist '' ~ '' covariates"
  shows "\<not> sublist '' ~ '' (if covariates \<noteq> [] then ''+'' @ covariates else covariates)"
proof (cases "covariates = []")
  case True
  with assms show ?thesis by simp
next
  case False
  have "\<not> sublist '' ~ '' (''+'' @ covariates)"
    by (rule no_sep_append) (use assms in \<open>auto simp: sublist_code suffix_def\<close>)
  with False show ?thesis by simp
qed

lemma build_formula_no_sep:
  assumes "response \<noteq> []" "\<not> sublist '' ~ '' response" "last response \<noteq> CHR '' ''"
    and "\<not> sublist '' ~ '' covariates"
  shows "\<not> sublist '' ~ '' (build_formula response covariates has_phe)"
proof -
  let ?c = "if covariates \<noteq> [] then ''+'' @ covariates else covariates"
  have c: "\<not> sublist '' ~ '' ?c" using assms(4) by (rule no_sep_covariates1)
  have pc: "\<not> prefix ''~ '' ?c" "\<not> prefix '' '' ?c" by auto
  have m1: "\<not> sublist '' ~ '' (''~ y + genotype'' @ ?c)"
    by (rule no_sep_append) (use c pc in \<open>auto simp: sublist_code suffix_def\<close>)
  have m2: "\<not> sublist '' ~ '' (''~ y + phe + genotype'' @ ?c)"
    by (rule no_sep_append) (use c pc in \<open>auto simp: sublist_code suffix_def\<close>)
  have s1: "\<not> suffix '' '' response" using assms(1,3) suffix_blank by blast
  have r1: "\<not> sublist '' ~ '' (response @ ''~ y + genotype'' @ ?c)"
    by (rule no_sep_append) (use assms(2) m1 s1 in auto)
  have r2: "\<not> sublist '' ~ '' (response @ ''~ y + phe + genotype'' @ ?c)"
    by (rule no_sep_append) (use assms(2) m2 s1 in auto)
  from r1 r2 assms(1) show ?thesis by (simp add: build_formula_def Let_def)
qed

lemma try_fit_regularized_no_sep:
  "\<not> sublist '' ~ '' f \<Longrightarrow> try_fit fit f data 1 = Inl IndexError"
  by (simp add: try_fit_def py_split_no_sep)

subsection \<open>Data frames and the regression of one phenotype\<close>

lemma set_alist_update: "set (AList.update k v al) \<subseteq> insert (k, v) (set al)"
  by (induction al) auto

lemma df_set_ok:
  assumes "\<forall>c\<in>snd ` set data. col_len c = n" and "length v = n"
  shows "\<exists>d. df_set k v data = Inr d \<and> (\<forall>c\<in>snd ` set d. col_len c = n)"
proof (cases data)
  case Nil
  with assms(2) show ?thesis by (simp add: df_set_def)
next
  case (Cons p ps)
  obtain m c where p: "p = (m, c)" by (cases p)
  from assms Cons p have len: "col_len c = length v" by simp
  have "\<forall>c\<in>snd ` set (AList.update k (NumCol v) data). col_len c = n"
  proof
    fix c assume "c \<in> snd ` set (AList.update k (NumCol v) data)"
    then obtain m where "(m, c) \<in> set (AList.update k (NumCol v) data)" by auto
    with set_alist_update [of k "NumCol v" data]
    have "(m, c) = (k, NumCol v) \<or> (m, c) \<in> set data" by auto
    then show "col_len c = n"
    proof
      assume "(m, c) = (k, NumCol v)"
      with assms(2) show ?thesis by auto
    next
      assume "(m, c) \<in> set data"
      then have "c \<in> snd ` set data" by force
      with assms(1) show ?thesis by blast
    qed
  qed
  with Cons p len show ?thesis by (simp add: df_set_def)
qed

lemma calculate_odds_ratio_returns:
  assumes wf: "\<forall>c\<in>snd ` set genotypes. col_len c = length pv1"
    and l2: "length pv2 = length pv1" and l3: "length pv3 = length pv1"
  shows "\<exists>data. calculate_odds_ratio fit genotypes pv1 pv2 covariates lr response pv3
           = Inr (data, handle_fit lr (try_fit fit
               (build_formula response covariates (any_nonzero pv3)) data lr))"
proof -
  from df_set_ok [OF wf refl] obtain d1 where d1: "df_set ''y'' pv1 genotypes = Inr d1"
    "\<forall>c\<in>snd ` set d1. col_len c = length pv1" by blast
  from df_set_ok [OF d1(2) l2] obtain d2 where d2: "df_set ''MaxAgeAtICD'' pv2 d1 = Inr d2"
    "\<forall>c\<in>snd ` set d2. col_len c = length pv1" by blast
  from df_set_ok [OF d2(2) l3] obtain d3 where d3: "df_set ''phe'' pv3 d2 = Inr d3"
    by blast
  show ?thesis
    by (cases "any_nonzero pv3")
       (simp_all add: calculate_odds_ratio_def d1 d2 d3 Let_def split: prod.splits)
qed

subsection \<open>The separation detector\<close>

lemma mask_rows_Inr:
  "length gs = length rows \<Longrightarrow>
     mask_rows rows (map (\<lambda>x. x = g) gs)
       = Inr (map fst (filter snd (zip rows (map (\<lambda>x. x = g) gs))))"
  by (simp add: mask_rows_def)

lemma set_masked_rows:
  assumes "length gs = length rows"
  shows "set (map fst (filter snd (zip rows (map (\<lambda>x. x = g) gs))))
           = {rows ! i |i. i < length rows \<and> gs ! i = g}"
proof -
  have "set (map fst (filter snd (zip rows (map (\<lambda>x. x = g) gs))))
          = fst ` {p \<in> set (zip rows (map (\<lambda>x. x = g) gs)). snd p}" by simp
  also have "\<dots> = {rows ! i |i. i < length rows \<and> gs ! i = g}"
    using assms by (auto simp: set_zip image_iff) force
  finally show ?thesis .
qed

lemma any_axis0_nth:
  "j < P \<Longrightarrow> any_axis0 P rows ! j = (\<exists>row\<in>set rows. row ! j \<noteq> 0)"
  by (simp add: any_axis0_def list_ex_iff)

lemma separated_inds_iff:
  "j \<in> set (separated_inds P control disease) \<longleftrightarrow>
     j < P \<and> ((\<exists>row\<in>set control. row ! j \<noteq> 0) \<noteq> (\<exists>row\<in>set disease. row ! j \<noteq> 0))"
  by (auto simp: separated_inds_def Let_def any_axis0_nth)

lemma find_inds_Inr:
  assumes "map_of genotypes ''genotype'' = Some (NumCol gs)"
    and "length gs = length (layer0 fm)"
  shows "find_inds fm genotypes P =
     Inr (separated_inds P
            (map fst (filter snd (zip (layer0 fm) (map (\<lambda>x. x = 0) gs))))
            (map fst (filter snd (zip (layer0 fm) (map (\<lambda>x. x = 1) gs)))))"
  using assms by (simp add: find_inds_def genotype_eq_def mask_rows_def)

lemma find_inds_iff:
  assumes g: "map_of genotypes ''genotype'' = Some (NumCol gs)"
    and len: "length gs = length (layer0 fm)"
    and inds: "find_inds fm genotypes P = Inr inds"
  shows "j \<in> set inds \<longleftrightarrow>
     j < P \<and> ((\<exists>i<length gs. gs ! i = 0 \<and> layer0 fm ! i ! j \<noteq> 0)
               \<noteq> (\<exists>i<length gs. gs ! i = 1 \<and> layer0 fm ! i ! j \<noteq> 0))"
proof -
  have a: "(\<exists>row\<in>set (map fst (filter snd (zip (layer0 fm) (map (\<lambda>x. x = v) gs)))). row ! j \<noteq> 0)
        \<longleftrightarrow> (\<exists>i<length gs. gs ! i = v \<and> layer0 fm ! i ! j \<noteq> 0)" for v
    unfolding set_masked_rows [OF len] using len by auto
  from inds find_inds_Inr [OF g len, of P] have
    "inds = separated_inds P
            (map fst (filter snd (zip (layer0 fm) (map (\<lambda>x. x = 0) gs))))
            (map fst (filter snd (zip (layer0 fm) (map (\<lambda>x. x = 1) gs))))" by simp
  then show ?thesis by (simp only: separated_inds_iff a)
qed

lemma one_group_iff:
  fixes gs :: "real list"
  assumes "\<forall>g\<in>set gs. g = 0 \<or> g = 1"
  shows "((\<exists>i<length gs. gs ! i = 0 \<and> Q i) \<noteq> (\<exists>i<length gs. gs ! i = 1 \<and> Q i))
     \<longleftrightarrow> {i. i < length gs \<and> Q i} \<noteq> {} \<and>
         ({i. i < length gs \<and> Q i} \<subseteq> {i. gs ! i = 1} \<or>
          {i. i < length gs \<and> Q i} \<subseteq> {i. gs ! i = 0})"
proof -
  have v: "gs ! i = 0 \<or> gs ! i = 1" if "i < length gs" for i
    using assms that by (meson nth_mem)
  show ?thesis
  proof
    assume "(\<exists>i<length gs. gs ! i = 0 \<and> Q i) \<noteq> (\<exists>i<length gs. gs ! i = 1 \<and> Q i)"
    then consider (c) "\<exists>i<length gs. gs ! i = 0 \<and> Q i" "\<not> (\<exists>i<length gs. gs ! i = 1 \<and> Q i)"
      | (d) "\<not> (\<exists>i<length gs. gs ! i = 0 \<and> Q i)" "\<exists>i<length gs. gs ! i = 1 \<and> Q i"
      by blast
    then show "{i. i < length gs \<and> Q i} \<noteq> {} \<and>
         ({i. i < length gs \<and> Q i} \<subseteq> {i. gs ! i = 1} \<or>
          {i. i < length gs \<and> Q i} \<subseteq> {i. gs ! i = 0})"
    proof cases
      case c
      then have "{i. i < length gs \<and> Q i} \<subseteq> {i. gs ! i = 0}" using v by blast
      with c(1) show ?thesis by blast
    next
      case d
      then have "{i. i < length gs \<and> Q i} \<subseteq> {i. gs ! i = 1}" using v by blast
      with d(2) show ?thesis by blast
    qed
  next
    assume r: "{i. i < length gs \<and> Q i} \<noteq> {} \<and>
         ({i. i < length gs \<and> Q i} \<subseteq> {i. gs ! i = 1} \<or>
          {i. i < length gs \<and> Q i} \<subseteq> {i. gs ! i = 0})"
    then obtain i where i: "i < length gs" "Q i" by blast
    from r show "(\<exists>i<length gs. gs ! i = 0 \<and> Q i) \<noteq> (\<exists>i<length gs. gs ! i = 1 \<and> Q i)"
    proof (elim conjE disjE)
      assume s: "{i. i < length gs \<and> Q i} \<subseteq> {i. gs ! i = 1}"
      then have "gs ! i = 1" using i by blast
      moreover have "\<not> (\<exists>i<length gs. gs ! i = 0 \<and> Q i)" using s by force
      ultimately show ?thesis using i by blast
    next
      assume s: "{i. i < length gs \<and> Q i} \<subseteq> {i. gs ! i = 0}"
      then have "gs ! i = 0" using i by blast
      moreover have "\<not> (\<exists>i<length gs. gs ! i = 1 \<and> Q i)" using s by force
      ultimately show ?thesis using i by blast
    qed
  qed
qed

lemma phewas_route_Some1:
  "phewas_route inds v j = Some 1 \<longleftrightarrow> j \<in> set inds \<and> 5 < length (filter (\<lambda>x. x > 0) v)"
  by (simp add: phewas_route_def)

lemma phewas_route_Some0:
  "phewas_route inds v j = Some 0 \<longleftrightarrow> j \<notin> set inds \<and> 5 < length (filter (\<lambda>x. x > 0) v)"
  by (simp add: phewas_route_def)

lemma calculate_odds_ratio_eq:
  assumes "df_set ''y'' pv1 frame = Inr d1"
    and "df_set ''MaxAgeAtICD'' pv2 d1 = Inr d2"
    and "(if any_nonzero pv3 then df_set ''phe'' pv3 d2 else Inr d2) = Inr data"
  shows "calculate_odds_ratio fit frame pv1 pv2 covariates lr response pv3
     = Inr (data, handle_fit lr
              (try_fit fit (build_formula response covariates (any_nonzero pv3)) data lr))"
proof (cases "any_nonzero pv3")
  case True
  with assms(3) have "df_set ''phe'' pv3 d2 = Inr data" by simp
  with True assms(1,2) show ?thesis
    by (simp add: calculate_odds_ratio_def Let_def split: prod.splits)
next
  case False
  with assms(3) have "d2 = data" by simp
  with False assms(1,2) show ?thesis
    by (simp add: calculate_odds_ratio_def Let_def split: prod.splits)
qed

lemma try_fit_ordinary:
  "try_fit fit f data 0
     = (case fit (Smf_logit_fit f data) of Inl e \<Rightarrow> Inl e | Inr st \<Rightarrow> make_od st)"
  by (simp add: try_fit_def)

lemma try_fit_regularized:
  assumes "2 \<le> length (py_split f '' ~ '')"
    and "df_get data (py_strip (py_split f '' ~ '' ! 0)) = Inr endog"
    and "df_get_list data
           (py_split (filter (\<lambda>c. c \<noteq> CHR '' '') (py_split f '' ~ '' ! 1)) ''+'') = Inr exog"
  shows "try_fit fit f data 1
     = (case fit (Sm_Logit_fit_regularized endog exog 0.1) of
          Inl e \<Rightarrow> Inl e | Inr st \<Rightarrow> make_od st)"
  using assms by (simp add: try_fit_def Let_def)

lemma phewas_loop_step:
  "phewas_loop fit tables inds fm covariates response (index # rest)
       (genotypes, out, regressions)
     = (case phewas_res fit inds fm genotypes covariates response index of
          Inl e \<Rightarrow> Inl e
        | Inr (genotypes1, out1, res) \<Rightarrow>
            (case get_phewas_info tables index of
               Inl e \<Rightarrow> Inl e
             | Inr info \<Rightarrow>
                 phewas_loop fit tables inds fm covariates response rest
                   (genotypes1, out @ out1,
                    regressions @
                      [\<lparr>PheWAS_Code = info ! 0, PheWAS_Name = info ! 1,
                        stat_info = fst (snd (snd res)),
                        ICD_9 = info ! 2, ICD_10 = info ! 3\<rparr>])))"
  by simp

text \<open>
  A response that ends in a blank: the formula is \<open>"status ~ y + genotype"\<close>, both pieces
  of the split are found in the frame, and the result of the regularized path is whatever
  the library makes of the call \<^verbatim>\<open>sm.Logit(data['status'], data[['y', 'genotype']])\<close>
  with penalty 0.1.
\<close>

lemma trailing_blank_response_calls_library:
  "calculate_odds_ratio fit
     [(''id'', StrCol [''a'', ''b'', ''c'', ''d'', ''e'', ''f'', ''g'', ''h'', ''i'', ''j'',
                       ''k'', ''l'']),
      (''genotype'', NumCol [0, 0, 0, 0, 1, 1, 1, 1, 1, 1, 0, 0]),
      (''status'', NumCol [1, 1, 1, 0, 0, 0, 0, 1, 1, 0, 1, 0])]
     [1, 1, 1, 1, 0, 0, 0, 0, 1, 1, 0, 0]
     [40, 41, 42, 43, 44, 45, 46, 47, 48, 49, 50, 51] [] 1 ''status ''
     [0, 0, 0, 0, 0, 0, 0, 0, 0, 0, 0, 0]
   = Inr ([(''id'', StrCol [''a'', ''b'', ''c'', ''d'', ''e'', ''f'', ''g'', ''h'', ''i'', ''j'',
                            ''k'', ''l'']),
           (''genotype'', NumCol [0, 0, 0, 0, 1, 1, 1, 1, 1, 1, 0, 0]),
           (''status'', NumCol [1, 1, 1, 0, 0, 0, 0, 1, 1, 0, 1, 0]),
           (''y'', NumCol [1, 1, 1, 1, 0, 0, 0, 0, 1, 1, 0, 0]),
           (''MaxAgeAtICD'', NumCol [40, 41, 42, 43, 44, 45, 46, 47, 48, 49, 50, 51])],
          handle_fit 1
            (case fit (Sm_Logit_fit_regularized
                         (NumCol [1, 1, 1, 0, 0, 0, 0, 1, 1, 0, 1, 0])
                         [(''y'', NumCol [1, 1, 1, 1, 0, 0, 0, 0, 1, 1, 0, 0]),
                          (''genotype'', NumCol [0, 0, 0, 0, 1, 1, 1, 1, 1, 1, 0, 0])] 0.1) of
               Inl e \<Rightarrow> Inl e | Inr st \<Rightarrow> make_od st))"
proof -
  have f: "build_formula ''status '' [] False = ''status ~ y + genotype''"
    by (simp add: build_formula_def)
  have s: "py_split ''status ~ y + genotype'' '' ~ '' = [''status'', ''y + genotype'']"
    by (simp add: py_split_def)
  have s2: "py_split ''y+genotype'' ''+'' = [''y'', ''genotype'']"
    by (simp add: py_split_def)
  have st: "py_strip ''status'' = ''status''"
    by (simp add: py_strip_def py_isspace_def)
  show ?thesis
    by (simp add: calculate_odds_ratio_def df_set_def any_nonzero_def f try_fit_def s s2 st
        df_get_def split: prod.splits)
qed

subsection \<open>Claims about the regression\<close>

text \<open>
  Claim C9, as amended. The claim reads: for every non-empty custom response that does
  not contain \<open>" ~ "\<close>, the regularized path returns the \<open>nan\<close> result. A response that
  ends in a blank makes the formula \<open>response @ "~ y + genotype"\<close> contain \<open>" ~ "\<close>, so the
  split yields two pieces and the fit is run. Amended: when the response is non-empty,
  does not contain \<open>" ~ "\<close> and does not end in a blank, and the covariate string does
  not contain \<open>" ~ "\<close>, the formula has no \<open>" ~ "\<close>, \<^verbatim>\<open>f1[1]\<close> raises \<open>IndexError\<close>,
  the generic handler prints it and the \<open>nan\<close> result is returned, whatever the library
  would do.
\<close>

theorem regularized_custom_response_yields_nan:
  assumes "response \<noteq> []" and "\<not> sublist '' ~ '' response"
    and "last response \<noteq> CHR '' ''" and "\<not> sublist '' ~ '' covariates"
    and "\<forall>c\<in>snd ` set genotypes. col_len c = length phen_vector1"
    and "length phen_vector2 = length phen_vector1"
    and "length phen_vector3 = length phen_vector1"
  shows "\<exists>data. calculate_odds_ratio fit genotypes phen_vector1 phen_vector2 covariates 1
            response phen_vector3
          = Inr (data, [Print_exception IndexError], nan_result)"
proof -
  have "try_fit fit (build_formula response covariates (any_nonzero phen_vector3)) data 1
          = Inl IndexError" for data
    using assms(1-4) by (intro try_fit_regularized_no_sep build_formula_no_sep)
  with calculate_odds_ratio_returns [OF assms(5-7), of fit covariates 1 response]
  show ?thesis by simp
qed

theorem regularized_custom_response_yields_nan_witness:
  "calculate_odds_ratio
     (constant_fitter \<lparr>pvalues_y = Fin 1, params_y = Fin 2, conf_int_y = (Fin 1, Fin 3), bse_y = Fin 0.5\<rparr>)
     [(''id'', StrCol [''a'', ''b'']), (''genotype'', NumCol [1, 0]), (''age'', NumCol [50, 60])]
     [1, 0] [40, 60] ''sex'' 1 ''age'' [0, 0]
   = Inr ([(''id'', StrCol [''a'', ''b'']), (''genotype'', NumCol [1, 0]),
           (''age'', NumCol [50, 60]), (''y'', NumCol [1, 0]), (''MaxAgeAtICD'', NumCol [40, 60])],
          [Print_exception IndexError], nan_result)"
proof -
  have "\<exists>data. calculate_odds_ratio
     (constant_fitter \<lparr>pvalues_y = Fin 1, params_y = Fin 2, conf_int_y = (Fin 1, Fin 3), bse_y = Fin 0.5\<rparr>)
     [(''id'', StrCol [''a'', ''b'']), (''genotype'', NumCol [1, 0]), (''age'', NumCol [50, 60])]
     [1, 0] [40, 60] ''sex'' 1 ''age'' [0, 0]
     = Inr (data, [Print_exception IndexError], nan_result)"
    by (rule regularized_custom_response_yields_nan) (simp_all add: sublist_code)
  then show ?thesis
    by (auto simp: calculate_odds_ratio_def df_set_def any_nonzero_def split: prod.splits)
qed

text \<open>
  The claim C9 as stated fails for the response \<open>"status "\<close> and a frame whose column
  \<open>status\<close> is binary: the formula is \<open>"status ~ y + genotype"\<close>, the columns \<open>status\<close>,
  \<open>y\<close> and \<open>genotype\<close> are found, and the regularized fit is run on a response in the unit
  interval, here neither constant nor separated by \<open>y\<close> or \<open>genotype\<close>; its statistics
  are returned, not the \<open>nan\<close> result. The library is one that makes \<^verbatim>\<open>Logit\<close>'s check
  of the response: on the frame with the response column \<open>age = [50, 60]\<close> the same call
  raises \<open>ValueError\<close> and the \<open>nan\<close> result is returned, so it is the binary response
  that makes the difference.
\<close>

theorem regularized_custom_response_trailing_blank:
  "''status '' \<noteq> [] \<and> \<not> sublist '' ~ '' ''status '' \<and>
   calculate_odds_ratio
     (selective_fitter endog_in_unit_interval
        (ValueError ''endog must be in the unit interval.'')
        \<lparr>pvalues_y = Fin 0.1, params_y = Fin 2, conf_int_y = (Fin 1, Fin 3), bse_y = Fin 0.5\<rparr>)
     [(''id'', StrCol [''a'', ''b'', ''c'', ''d'', ''e'', ''f'', ''g'', ''h'', ''i'', ''j'',
                       ''k'', ''l'']),
      (''genotype'', NumCol [0, 0, 0, 0, 1, 1, 1, 1, 1, 1, 0, 0]),
      (''status'', NumCol [1, 1, 1, 0, 0, 0, 0, 1, 1, 0, 1, 0])]
     [1, 1, 1, 1, 0, 0, 0, 0, 1, 1, 0, 0]
     [40, 41, 42, 43, 44, 45, 46, 47, 48, 49, 50, 51] [] 1 ''status ''
     [0, 0, 0, 0, 0, 0, 0, 0, 0, 0, 0, 0]
   = Inr ([(''id'', StrCol [''a'', ''b'', ''c'', ''d'', ''e'', ''f'', ''g'', ''h'', ''i'', ''j'',
                            ''k'', ''l'']),
           (''genotype'', NumCol [0, 0, 0, 0, 1, 1, 1, 1, 1, 1, 0, 0]),
           (''status'', NumCol [1, 1, 1, 0, 0, 0, 0, 1, 1, 0, 1, 0]),
           (''y'', NumCol [1, 1, 1, 1, 0, 0, 0, 0, 1, 1, 0, 0]),
           (''MaxAgeAtICD'', NumCol [40, 41, 42, 43, 44, 45, 46, 47, 48, 49, 50, 51])],
          [],
          (0, Fin 0.1,
           \<lparr>neg_log_p = Fin 1, od_p = Fin 0.1, od_beta = Fin 2, od_conf = Some (Fin 1, Fin 3),
            od_stderr = Fin 0.5\<rparr>,
           Fin 0.5)) \<and>
   (0, Fin 0.1,
           \<lparr>neg_log_p = Fin 1, od_p = Fin 0.1, od_beta = Fin 2, od_conf = Some (Fin 1, Fin 3),
            od_stderr = Fin 0.5\<rparr>,
           Fin 0.5) \<noteq> nan_result \<and>
   calculate_odds_ratio
     (selective_fitter endog_in_unit_interval
        (ValueError ''endog must be in the unit interval.'')
        \<lparr>pvalues_y = Fin 0.1, params_y = Fin 2, conf_int_y = (Fin 1, Fin 3), bse_y = Fin 0.5\<rparr>)
     [(''id'', StrCol [''a'', ''b'']), (''genotype'', NumCol [1, 0]), (''age'', NumCol [50, 60])]
     [1, 0] [40, 60] [] 1 ''age '' [0, 0]
   = Inr ([(''id'', StrCol [''a'', ''b'']), (''genotype'', NumCol [1, 0]),
           (''age'', NumCol [50, 60]), (''y'', NumCol [1, 0]), (''MaxAgeAtICD'', NumCol [40, 60])],
          [Print_exception (ValueError ''endog must be in the unit interval.''), Print_lr 1],
          nan_result)"
proof -
  have f: "build_formula ''age '' [] False = ''age ~ y + genotype''"
    by (simp add: build_formula_def)
  have s: "py_split ''age ~ y + genotype'' '' ~ '' = [''age'', ''y + genotype'']"
    by (simp add: py_split_def)
  have s2: "py_split ''y+genotype'' ''+'' = [''y'', ''genotype'']"
    by (simp add: py_split_def)
  have st: "py_strip ''age'' = ''age''"
    by (simp add: py_strip_def py_isspace_def)
  show ?thesis
    unfolding trailing_blank_response_calls_library
    by (simp add: calculate_odds_ratio_def df_set_def any_nonzero_def f try_fit_def s s2 st
        df_get_def selective_fitter_def make_od_def nan_result_def sublist_code log_divide)
qed

text \<open>
  Claim C8. The claim reads: for every exception the fit raises, the function prints a
  diagnostic that includes the attempted mode and returns the \<open>nan\<close> result. Both
  handlers return the \<open>nan\<close> result, but only the \<open>ValueError\<close> handler prints the
  mode (\<^verbatim>\<open>print('lr = % d' %lr)\<close>); the handler of every other exception prints the
  exception alone. Evaluated for a fit that raises an exception other than
  \<open>ValueError\<close>, and for one that raises \<open>ValueError\<close>.
\<close>
theorem generic_handler_omits_mode:
  "calculate_odds_ratio
     (raising_fitter (OtherException ''Perfect separation detected, results not available''))
     [(''id'', StrCol [''a'', ''b'']), (''genotype'', NumCol [1, 0])]
     [1, 0] [40, 60] [] 0 [] [0, 0]
   = Inr ([(''id'', StrCol [''a'', ''b'']), (''genotype'', NumCol [1, 0]),
           (''y'', NumCol [1, 0]), (''MaxAgeAtICD'', NumCol [40, 60])],
          [Print_exception (OtherException ''Perfect separation detected, results not available'')],
          nan_result) \<and>
   calculate_odds_ratio
     (raising_fitter (ValueError ''Singular matrix''))
     [(''id'', StrCol [''a'', ''b'']), (''genotype'', NumCol [1, 0])]
     [1, 0] [40, 60] [] 0 [] [0, 0]
   = Inr ([(''id'', StrCol [''a'', ''b'']), (''genotype'', NumCol [1, 0]),
           (''y'', NumCol [1, 0]), (''MaxAgeAtICD'', NumCol [40, 60])],
          [Print_exception (ValueError ''Singular matrix''), Print_lr 0],
          nan_result)"
  by (simp add: calculate_odds_ratio_def df_set_def any_nonzero_def try_fit_def
      raising_fitter_def)

text \<open>
  Claim C3. In the loop of \<^verbatim>\<open>run_phewas\<close>, an iteration on a phenotype column with
  fewer than 6 strictly positive entries in layer 0 (so with exactly 5) makes no fit: the
  frame and the printed output are unchanged, and the row that is appended to the table
  holds the \<open>nan\<close> result. An iteration on a column with 6 or more calls
  \<^verbatim>\<open>calculate_odds_ratio\<close>, with \<open>lr = 1\<close> for a column in \<open>inds\<close> and \<open>lr = 0\<close> otherwise,
  and the loop goes on with the frame, the output and the statistics that the call
  returns; for a column that is not in \<open>inds\<close> the statistics are those of the library's
  ordinary fit of the formula on the frame, or the \<open>nan\<close> result when that fit raises.
\<close>
theorem phewas_skip_rule:
  "(length (filter (\<lambda>x. x > 0) (column_of (layer0 fm) index)) < 6 \<longrightarrow>
      phewas_route inds (column_of (layer0 fm) index) index = None \<and>
      phewas_res fit inds fm genotypes covariates response index
        = Inr (genotypes, [], nan_result) \<and>
      phewas_loop fit tables inds fm covariates response (index # rest)
          (genotypes, out, regressions)
        = (case get_phewas_info tables index of
             Inl e \<Rightarrow> Inl e
           | Inr info \<Rightarrow>
               phewas_loop fit tables inds fm covariates response rest
                 (genotypes, out,
                  regressions @
                    [\<lparr>PheWAS_Code = info ! 0, PheWAS_Name = info ! 1,
                      stat_info = \<lparr>neg_log_p = NaN, od_p = NaN, od_beta = NaN,
                                   od_conf = None, od_stderr = NaN\<rparr>,
                      ICD_9 = info ! 2, ICD_10 = info ! 3\<rparr>]))) \<and>
   (6 \<le> length (filter (\<lambda>x. x > 0) (column_of (layer0 fm) index)) \<longrightarrow>
      phewas_route inds (column_of (layer0 fm) index) index
        = Some (if index \<in> set inds then 1 else 0) \<and>
      phewas_res fit inds fm genotypes covariates response index
        = calculate_odds_ratio fit genotypes (column_of (layer0 fm) index)
            (column_of (layer1 fm) index) covariates (if index \<in> set inds then 1 else 0)
            response (column_of (layer2 fm) index) \<and>
      phewas_loop fit tables inds fm covariates response (index # rest)
          (genotypes, out, regressions)
        = (case calculate_odds_ratio fit genotypes (column_of (layer0 fm) index)
                  (column_of (layer1 fm) index) covariates
                  (if index \<in> set inds then 1 else 0) response
                  (column_of (layer2 fm) index) of
             Inl e \<Rightarrow> Inl e
           | Inr (genotypes1, out1, res) \<Rightarrow>
               (case get_phewas_info tables index of
                  Inl e \<Rightarrow> Inl e
                | Inr info \<Rightarrow>
                    phewas_loop fit tables inds fm covariates response rest
                      (genotypes1, out @ out1,
                       regressions @
                         [\<lparr>PheWAS_Code = info ! 0, PheWAS_Name = info ! 1,
                           stat_info = fst (snd (snd res)),
                           ICD_9 = info ! 2, ICD_10 = info ! 3\<rparr>]))) \<and>
      (\<forall>d1 d2 data.
         df_set ''y'' (column_of (layer0 fm) index) genotypes = Inr d1 \<longrightarrow>
         df_set ''MaxAgeAtICD'' (column_of (layer1 fm) index) d1 = Inr d2 \<longrightarrow>
         (if any_nonzero (column_of (layer2 fm) index)
          then df_set ''phe'' (column_of (layer2 fm) index) d2 else Inr d2) = Inr data \<longrightarrow>
         index \<notin> set inds \<longrightarrow>
           phewas_res fit inds fm genotypes covariates response index
             = Inr (data, handle_fit 0
                 (case fit (Smf_logit_fit
                              (build_formula response covariates
                                 (any_nonzero (column_of (layer2 fm) index))) data) of
                    Inl e \<Rightarrow> Inl e
                  | Inr st \<Rightarrow> make_od st))))"
proof (intro conjI impI allI)
  assume a: "length (filter (\<lambda>x. x > 0) (column_of (layer0 fm) index)) < 6"
  then show r: "phewas_route inds (column_of (layer0 fm) index) index = None"
    by (simp add: phewas_route_def)
  then show s: "phewas_res fit inds fm genotypes covariates response index
        = Inr (genotypes, [], nan_result)"
    by (simp add: phewas_res_def Let_def)
  show "phewas_loop fit tables inds fm covariates response (index # rest)
          (genotypes, out, regressions)
        = (case get_phewas_info tables index of
             Inl e \<Rightarrow> Inl e
           | Inr info \<Rightarrow>
               phewas_loop fit tables inds fm covariates response rest
                 (genotypes, out,
                  regressions @
                    [\<lparr>PheWAS_Code = info ! 0, PheWAS_Name = info ! 1,
                      stat_info = \<lparr>neg_log_p = NaN, od_p = NaN, od_beta = NaN,
                                   od_conf = None, od_stderr = NaN\<rparr>,
                      ICD_9 = info ! 2, ICD_10 = info ! 3\<rparr>]))"
    unfolding phewas_loop_step s by (simp add: nan_result_def split: sum.splits)
next
  assume a: "6 \<le> length (filter (\<lambda>x. x > 0) (column_of (layer0 fm) index))"
  then show r: "phewas_route inds (column_of (layer0 fm) index) index
        = Some (if index \<in> set inds then 1 else 0)"
    by (simp add: phewas_route_def)
  then show s: "phewas_res fit inds fm genotypes covariates response index
        = calculate_odds_ratio fit genotypes (column_of (layer0 fm) index)
            (column_of (layer1 fm) index) covariates (if index \<in> set inds then 1 else 0)
            response (column_of (layer2 fm) index)"
    by (simp add: phewas_res_def Let_def)
  show "phewas_loop fit tables inds fm covariates response (index # rest)
          (genotypes, out, regressions)
        = (case calculate_odds_ratio fit genotypes (column_of (layer0 fm) index)
                  (column_of (layer1 fm) index) covariates
                  (if index \<in> set inds then 1 else 0) response
                  (column_of (layer2 fm) index) of
             Inl e \<Rightarrow> Inl e
           | Inr (genotypes1, out1, res) \<Rightarrow>
               (case get_phewas_info tables index of
                  Inl e \<Rightarrow> Inl e
                | Inr info \<Rightarrow>
                    phewas_loop fit tables inds fm covariates response rest
                      (genotypes1, out @ out1,
                       regressions @
                         [\<lparr>PheWAS_Code = info ! 0, PheWAS_Name = info ! 1,
                           stat_info = fst (snd (snd res)),
                           ICD_9 = info ! 2, ICD_10 = info ! 3\<rparr>])))"
    unfolding phewas_loop_step s ..
  fix d1 d2 data
  assume d: "df_set ''y'' (column_of (layer0 fm) index) genotypes = Inr d1"
    "df_set ''MaxAgeAtICD'' (column_of (layer1 fm) index) d1 = Inr d2"
    "(if any_nonzero (column_of (layer2 fm) index)
          then df_set ''phe'' (column_of (layer2 fm) index) d2 else Inr d2) = Inr data"
    and ni: "index \<notin> set inds"
  from ni s have "phewas_res fit inds fm genotypes covariates response index
        = calculate_odds_ratio fit genotypes (column_of (layer0 fm) index)
            (column_of (layer1 fm) index) covariates 0
            response (column_of (layer2 fm) index)" by simp
  also have "\<dots> = Inr (data, handle_fit 0
      (try_fit fit (build_formula response covariates
         (any_nonzero (column_of (layer2 fm) index))) data 0))"
    using d by (rule calculate_odds_ratio_eq)
  finally show "phewas_res fit inds fm genotypes covariates response index
             = Inr (data, handle_fit 0
                 (case fit (Smf_logit_fit
                              (build_formula response covariates
                                 (any_nonzero (column_of (layer2 fm) index))) data) of
                    Inl e \<Rightarrow> Inl e
                  | Inr st \<Rightarrow> make_od st))"
    by (simp only: try_fit_ordinary)
qed

theorem phewas_skip_rule_witness:
  "length (filter (\<lambda>x. x > 0)
      (column_of (layer0 \<lparr>layer0 = [[1], [2], [1], [0], [3], [1], [-1]],
                          layer1 = [[9], [9], [9], [9], [9], [9], [9]],
                          layer2 = [[0], [0], [0], [0], [0], [0], [0]]\<rparr>) 0)) = 5 \<and>
   phewas_loop
      (selective_fitter is_ordinary_call (OtherException ''call not accepted'')
         \<lparr>pvalues_y = Fin 0.1, params_y = Fin 2, conf_int_y = (Fin 1, Fin 3), bse_y = Fin 0.5\<rparr>)
      \<lparr>phewas_codes = [(''250'', ''Diabetes'')], prowas_codes = [],
       icd9_codes = [(''250.0'', ''250'')], icd10_codes = []\<rparr>
      []
      \<lparr>layer0 = [[1], [2], [1], [0], [3], [1], [-1]],
       layer1 = [[9], [9], [9], [9], [9], [9], [9]],
       layer2 = [[0], [0], [0], [0], [0], [0], [0]]\<rparr>
      [] [] [0]
      ([(''genotype'', NumCol [1, 0, 1, 0, 1, 0, 1])], [], [])
     = Inr ([(''genotype'', NumCol [1, 0, 1, 0, 1, 0, 1])], [],
            [\<lparr>PheWAS_Code = ''250'', PheWAS_Name = ''Diabetes'',
              stat_info = \<lparr>neg_log_p = NaN, od_p = NaN, od_beta = NaN, od_conf = None,
                           od_stderr = NaN\<rparr>,
              ICD_9 = ''250.0'', ICD_10 = []\<rparr>]) \<and>
   length (filter (\<lambda>x. x > 0)
      (column_of (layer0 \<lparr>layer0 = [[1], [2], [1], [4], [3], [1], [-1]],
                          layer1 = [[9], [9], [9], [9], [9], [9], [9]],
                          layer2 = [[0], [0], [0], [0], [0], [0], [0]]\<rparr>) 0)) = 6 \<and>
   phewas_loop
      (selective_fitter is_ordinary_call (OtherException ''call not accepted'')
         \<lparr>pvalues_y = Fin 0.1, params_y = Fin 2, conf_int_y = (Fin 1, Fin 3), bse_y = Fin 0.5\<rparr>)
      \<lparr>phewas_codes = [(''250'', ''Diabetes'')], prowas_codes = [],
       icd9_codes = [(''250.0'', ''250'')], icd10_codes = []\<rparr>
      []
      \<lparr>layer0 = [[1], [2], [1], [4], [3], [1], [-1]],
       layer1 = [[9], [9], [9], [9], [9], [9], [9]],
       layer2 = [[0], [0], [0], [0], [0], [0], [0]]\<rparr>
      [] [] [0]
      ([(''genotype'', NumCol [1, 0, 1, 0, 1, 0, 1])], [], [])
     = Inr ([(''genotype'', NumCol [1, 0, 1, 0, 1, 0, 1]),
             (''y'', NumCol [1, 2, 1, 4, 3, 1, -1]),
             (''MaxAgeAtICD'', NumCol [9, 9, 9, 9, 9, 9, 9])], [],
            [\<lparr>PheWAS_Code = ''250'', PheWAS_Name = ''Diabetes'',
              stat_info = \<lparr>neg_log_p = Fin 1, od_p = Fin 0.1, od_beta = Fin 2,
                           od_conf = Some (Fin 1, Fin 3), od_stderr = Fin 0.5\<rparr>,
              ICD_9 = ''250.0'', ICD_10 = []\<rparr>])"
proof -
  let ?fit = "selective_fitter is_ordinary_call (OtherException ''call not accepted'')
         \<lparr>pvalues_y = Fin 0.1, params_y = Fin 2, conf_int_y = (Fin 1, Fin 3), bse_y = Fin 0.5\<rparr>"
  let ?T = "\<lparr>phewas_codes = [(''250'', ''Diabetes'')], prowas_codes = [],
       icd9_codes = [(''250.0'', ''250'')], icd10_codes = []\<rparr>"
  let ?fm5 = "\<lparr>layer0 = [[1], [2], [1], [0], [3], [1], [-1::real]],
                layer1 = [[9], [9], [9], [9], [9], [9], [9::real]],
                layer2 = [[0], [0], [0], [0], [0], [0], [0::real]]\<rparr>"
  let ?fm6 = "\<lparr>layer0 = [[1], [2], [1], [4], [3], [1], [-1::real]],
                layer1 = [[9], [9], [9], [9], [9], [9], [9::real]],
                layer2 = [[0], [0], [0], [0], [0], [0], [0::real]]\<rparr>"
  let ?g = "[(''genotype'', NumCol [1, 0, 1, 0, 1, 0, 1])]"
  have h5: "length (filter (\<lambda>x. x > 0) (column_of (layer0 ?fm5) 0)) = 5"
    by (simp add: column_of_def)
  have h6: "length (filter (\<lambda>x. x > 0) (column_of (layer0 ?fm6) 0)) = 6"
    by (simp add: column_of_def)
  from h5 have l5: "length (filter (\<lambda>x. x > 0) (column_of (layer0 ?fm5) 0)) < 6" by simp
  from h6 have l6: "6 \<le> length (filter (\<lambda>x. x > 0) (column_of (layer0 ?fm6) 0))" by simp
  have info: "get_phewas_info ?T 0 = Inr [''250'', ''Diabetes'', ''250.0'', []]"
    by (simp add: get_phewas_info_def)
  note a = phewas_skip_rule [of ?fm5 0 "[]" ?fit ?g "[]" "[]" ?T "[]" "[]" "[]",
      THEN conjunct1, THEN mp, OF l5, THEN conjunct2, THEN conjunct2]
  note b = phewas_skip_rule [of ?fm6 0 "[]" ?fit ?g "[]" "[]" ?T "[]" "[]" "[]",
      THEN conjunct2, THEN mp, OF l6, THEN conjunct2, THEN conjunct2, THEN conjunct1]
  have a': "phewas_loop ?fit ?T [] ?fm5 [] [] [0] (?g, [], [])
     = Inr (?g, [],
            [\<lparr>PheWAS_Code = ''250'', PheWAS_Name = ''Diabetes'',
              stat_info = \<lparr>neg_log_p = NaN, od_p = NaN, od_beta = NaN, od_conf = None,
                           od_stderr = NaN\<rparr>,
              ICD_9 = ''250.0'', ICD_10 = []\<rparr>])"
    unfolding a by (simp add: info)
  have b': "phewas_loop ?fit ?T [] ?fm6 [] [] [0] (?g, [], [])
     = Inr ([(''genotype'', NumCol [1, 0, 1, 0, 1, 0, 1]),
             (''y'', NumCol [1, 2, 1, 4, 3, 1, -1]),
             (''MaxAgeAtICD'', NumCol [9, 9, 9, 9, 9, 9, 9])], [],
            [\<lparr>PheWAS_Code = ''250'', PheWAS_Name = ''Diabetes'',
              stat_info = \<lparr>neg_log_p = Fin 1, od_p = Fin 0.1, od_beta = Fin 2,
                           od_conf = Some (Fin 1, Fin 3), od_stderr = Fin 0.5\<rparr>,
              ICD_9 = ''250.0'', ICD_10 = []\<rparr>])"
    unfolding b
    by (simp add: info calculate_odds_ratio_def column_of_def df_set_def any_nonzero_def
        try_fit_def selective_fitter_def make_od_def build_formula_def log_divide)
  from h5 a' h6 b' show ?thesis by blast
qed

text \<open>
  Claim C4, as amended. With every exposure label 0 or 1, the columns in \<open>inds\<close> are
  exactly those whose set of subjects with a non-zero layer-0 value is non-empty and
  lies within one exposure group. A column with at most 5 strictly positive entries is
  skipped, flagged or not: no fit is made and its result is the \<open>nan\<close> result. A column
  with more than 5 goes to \<^verbatim>\<open>calculate_odds_ratio\<close> with \<open>lr = 1\<close> when it is in \<open>inds\<close>
  and with \<open>lr = 0\<close> when it is not. Once the three column assignments have succeeded,
  the result of \<^verbatim>\<open>calculate_odds_ratio\<close> is that of the \<^verbatim>\<open>try\<close> block under the two
  handlers; with \<open>lr = 1\<close> and a formula whose two sides are columns of the frame, the
  \<^verbatim>\<open>try\<close> block is the library's L1-regularized fit with penalty 0.1 of these columns,
  and with \<open>lr = 0\<close> it is the library's ordinary fit of the formula.
\<close>
theorem separation_routing:
  assumes "map_of genotypes ''genotype'' = Some (NumCol gs)"
    and "length gs = length (layer0 fm)"
    and "\<forall>g\<in>set gs. g = 0 \<or> g = 1"
  shows "\<exists>inds. find_inds fm genotypes P = Inr inds \<and>
     (\<forall>j. j \<in> set inds \<longleftrightarrow>
        j < P \<and> {i. i < length gs \<and> layer0 fm ! i ! j \<noteq> 0} \<noteq> {} \<and>
        ({i. i < length gs \<and> layer0 fm ! i ! j \<noteq> 0} \<subseteq> {i. gs ! i = 1} \<or>
         {i. i < length gs \<and> layer0 fm ! i ! j \<noteq> 0} \<subseteq> {i. gs ! i = 0})) \<and>
     (\<forall>j fit frame covariates response.
        (length (filter (\<lambda>x. x > 0) (column_of (layer0 fm) j)) \<le> 5 \<longrightarrow>
           phewas_route inds (column_of (layer0 fm) j) j = None \<and>
           phewas_res fit inds fm frame covariates response j
             = Inr (frame, [], nan_result)) \<and>
        (5 < length (filter (\<lambda>x. x > 0) (column_of (layer0 fm) j)) \<and> j \<in> set inds \<longrightarrow>
           phewas_route inds (column_of (layer0 fm) j) j = Some 1 \<and>
           phewas_res fit inds fm frame covariates response j
             = calculate_odds_ratio fit frame (column_of (layer0 fm) j)
                 (column_of (layer1 fm) j) covariates 1 response
                 (column_of (layer2 fm) j)) \<and>
        (5 < length (filter (\<lambda>x. x > 0) (column_of (layer0 fm) j)) \<and> j \<notin> set inds \<longrightarrow>
           phewas_route inds (column_of (layer0 fm) j) j = Some 0 \<and>
           phewas_res fit inds fm frame covariates response j
             = calculate_odds_ratio fit frame (column_of (layer0 fm) j)
                 (column_of (layer1 fm) j) covariates 0 response
                 (column_of (layer2 fm) j))) \<and>
     (\<forall>fit frame pv1 pv2 pv3 covariates response lr d1 d2 data.
        df_set ''y'' pv1 frame = Inr d1 \<longrightarrow>
        df_set ''MaxAgeAtICD'' pv2 d1 = Inr d2 \<longrightarrow>
        (if any_nonzero pv3 then df_set ''phe'' pv3 d2 else Inr d2) = Inr data \<longrightarrow>
          calculate_odds_ratio fit frame pv1 pv2 covariates lr response pv3
            = Inr (data, handle_fit lr
                (try_fit fit (build_formula response covariates (any_nonzero pv3)) data lr))) \<and>
     (\<forall>fit f data endog exog.
        2 \<le> length (py_split f '' ~ '') \<longrightarrow>
        df_get data (py_strip (py_split f '' ~ '' ! 0)) = Inr endog \<longrightarrow>
        df_get_list data
          (py_split (filter (\<lambda>c. c \<noteq> CHR '' '') (py_split f '' ~ '' ! 1)) ''+'') = Inr exog \<longrightarrow>
          try_fit fit f data 1
            = (case fit (Sm_Logit_fit_regularized endog exog 0.1) of
                 Inl e \<Rightarrow> Inl e | Inr st \<Rightarrow> make_od st)) \<and>
     (\<forall>fit f data.
        try_fit fit f data 0
          = (case fit (Smf_logit_fit f data) of Inl e \<Rightarrow> Inl e | Inr st \<Rightarrow> make_od st))"
proof -
  from find_inds_Inr [OF assms(1,2)] obtain inds where
    inds: "find_inds fm genotypes P = Inr inds" by blast
  have a: "\<forall>j. j \<in> set inds \<longleftrightarrow>
        j < P \<and> {i. i < length gs \<and> layer0 fm ! i ! j \<noteq> 0} \<noteq> {} \<and>
        ({i. i < length gs \<and> layer0 fm ! i ! j \<noteq> 0} \<subseteq> {i. gs ! i = 1} \<or>
         {i. i < length gs \<and> layer0 fm ! i ! j \<noteq> 0} \<subseteq> {i. gs ! i = 0})"
  proof
    fix j
    show "j \<in> set inds \<longleftrightarrow>
        j < P \<and> {i. i < length gs \<and> layer0 fm ! i ! j \<noteq> 0} \<noteq> {} \<and>
        ({i. i < length gs \<and> layer0 fm ! i ! j \<noteq> 0} \<subseteq> {i. gs ! i = 1} \<or>
         {i. i < length gs \<and> layer0 fm ! i ! j \<noteq> 0} \<subseteq> {i. gs ! i = 0})"
      unfolding find_inds_iff [OF assms(1,2) inds]
        one_group_iff [OF assms(3), of "\<lambda>i. layer0 fm ! i ! j \<noteq> 0"] ..
  qed
  have b: "\<forall>j fit frame covariates response.
        (length (filter (\<lambda>x. x > 0) (column_of (layer0 fm) j)) \<le> 5 \<longrightarrow>
           phewas_route inds (column_of (layer0 fm) j) j = None \<and>
           phewas_res fit inds fm frame covariates response j
             = Inr (frame, [], nan_result)) \<and>
        (5 < length (filter (\<lambda>x. x > 0) (column_of (layer0 fm) j)) \<and> j \<in> set inds \<longrightarrow>
           phewas_route inds (column_of (layer0 fm) j) j = Some 1 \<and>
           phewas_res fit inds fm frame covariates response j
             = calculate_odds_ratio fit frame (column_of (layer0 fm) j)
                 (column_of (layer1 fm) j) covariates 1 response
                 (column_of (layer2 fm) j)) \<and>
        (5 < length (filter (\<lambda>x. x > 0) (column_of (layer0 fm) j)) \<and> j \<notin> set inds \<longrightarrow>
           phewas_route inds (column_of (layer0 fm) j) j = Some 0 \<and>
           phewas_res fit inds fm frame covariates response j
             = calculate_odds_ratio fit frame (column_of (layer0 fm) j)
                 (column_of (layer1 fm) j) covariates 0 response
                 (column_of (layer2 fm) j))"
    by (simp add: phewas_route_def phewas_res_def Let_def)
  have c: "\<forall>fit frame pv1 pv2 pv3 covariates response lr d1 d2 data.
        df_set ''y'' pv1 frame = Inr d1 \<longrightarrow>
        df_set ''MaxAgeAtICD'' pv2 d1 = Inr d2 \<longrightarrow>
        (if any_nonzero pv3 then df_set ''phe'' pv3 d2 else Inr d2) = Inr data \<longrightarrow>
          calculate_odds_ratio fit frame pv1 pv2 covariates lr response pv3
            = Inr (data, handle_fit lr
                (try_fit fit (build_formula response covariates (any_nonzero pv3)) data lr))"
    by (intro allI impI calculate_odds_ratio_eq)
  have d: "\<forall>fit f data endog exog.
        2 \<le> length (py_split f '' ~ '') \<longrightarrow>
        df_get data (py_strip (py_split f '' ~ '' ! 0)) = Inr endog \<longrightarrow>
        df_get_list data
          (py_split (filter (\<lambda>c. c \<noteq> CHR '' '') (py_split f '' ~ '' ! 1)) ''+'') = Inr exog \<longrightarrow>
          try_fit fit f data 1
            = (case fit (Sm_Logit_fit_regularized endog exog 0.1) of
                 Inl e \<Rightarrow> Inl e | Inr st \<Rightarrow> make_od st)"
    by (intro allI impI try_fit_regularized)
  have e: "\<forall>fit f data.
        try_fit fit f data 0
          = (case fit (Smf_logit_fit f data) of Inl e \<Rightarrow> Inl e | Inr st \<Rightarrow> make_od st)"
    by (intro allI try_fit_ordinary)
  from inds a b c d e show ?thesis by (intro exI [of _ inds] conjI)
qed

theorem separation_routing_witness:
  "map_of [(''id'', StrCol [''a'', ''b'', ''c'', ''d'', ''e'', ''f'', ''g'']),
           (''genotype'', NumCol [1, 1, 1, 1, 1, 1, 0])] ''genotype''
     = Some (NumCol [1, 1, 1, 1, 1, 1, 0]) \<and>
   find_inds
     \<lparr>layer0 = [[1, 1], [1, 1], [1, 1], [1, 1], [1, 1], [1, 0], [0, 1]],
      layer1 = [[5, 5], [5, 5], [5, 5], [5, 5], [5, 5], [5, 6], [7, 5]],
      layer2 = [[0, 0], [0, 0], [0, 0], [0, 0], [0, 0], [0, 0], [0, 0]]\<rparr>
     [(''id'', StrCol [''a'', ''b'', ''c'', ''d'', ''e'', ''f'', ''g'']),
      (''genotype'', NumCol [1, 1, 1, 1, 1, 1, 0])] 2 = Inr [0] \<and>
   phewas_res
     (selective_fitter (is_regularized_call 0.1) (OtherException ''call not accepted'')
        \<lparr>pvalues_y = Fin 0.1, params_y = Fin 2, conf_int_y = (Fin 1, Fin 3), bse_y = Fin 0.5\<rparr>)
     [0]
     \<lparr>layer0 = [[1, 1], [1, 1], [1, 1], [1, 1], [1, 1], [1, 0], [0, 1]],
      layer1 = [[5, 5], [5, 5], [5, 5], [5, 5], [5, 5], [5, 6], [7, 5]],
      layer2 = [[0, 0], [0, 0], [0, 0], [0, 0], [0, 0], [0, 0], [0, 0]]\<rparr>
     [(''id'', StrCol [''a'', ''b'', ''c'', ''d'', ''e'', ''f'', ''g'']),
      (''genotype'', NumCol [1, 1, 1, 1, 1, 1, 0])] [] [] 0
   = Inr ([(''id'', StrCol [''a'', ''b'', ''c'', ''d'', ''e'', ''f'', ''g'']),
           (''genotype'', NumCol [1, 1, 1, 1, 1, 1, 0]),
           (''y'', NumCol [1, 1, 1, 1, 1, 1, 0]),
           (''MaxAgeAtICD'', NumCol [5, 5, 5, 5, 5, 5, 7])],
          [],
          (0, Fin 0.1,
           \<lparr>neg_log_p = Fin 1, od_p = Fin 0.1, od_beta = Fin 2,
            od_conf = Some (Fin 1, Fin 3), od_stderr = Fin 0.5\<rparr>,
           Fin 0.5)) \<and>
   phewas_res
     (selective_fitter (is_regularized_call 0.2) (OtherException ''call not accepted'')
        \<lparr>pvalues_y = Fin 0.1, params_y = Fin 2, conf_int_y = (Fin 1, Fin 3), bse_y = Fin 0.5\<rparr>)
     [0]
     \<lparr>layer0 = [[1, 1], [1, 1], [1, 1], [1, 1], [1, 1], [1, 0], [0, 1]],
      layer1 = [[5, 5], [5, 5], [5, 5], [5, 5], [5, 5], [5, 6], [7, 5]],
      layer2 = [[0, 0], [0, 0], [0, 0], [0, 0], [0, 0], [0, 0], [0, 0]]\<rparr>
     [(''id'', StrCol [''a'', ''b'', ''c'', ''d'', ''e'', ''f'', ''g'']),
      (''genotype'', NumCol [1, 1, 1, 1, 1, 1, 0])] [] [] 0
   = Inr ([(''id'', StrCol [''a'', ''b'', ''c'', ''d'', ''e'', ''f'', ''g'']),
           (''genotype'', NumCol [1, 1, 1, 1, 1, 1, 0]),
           (''y'', NumCol [1, 1, 1, 1, 1, 1, 0]),
           (''MaxAgeAtICD'', NumCol [5, 5, 5, 5, 5, 5, 7])],
          [Print_exception (OtherException ''call not accepted'')],
          nan_result) \<and>
   phewas_res
     (selective_fitter (is_regularized_call 0.1) (OtherException ''call not accepted'')
        \<lparr>pvalues_y = Fin 0.1, params_y = Fin 2, conf_int_y = (Fin 1, Fin 3), bse_y = Fin 0.5\<rparr>)
     [0]
     \<lparr>layer0 = [[1, 1], [1, 1], [1, 1], [1, 1], [1, 1], [1, 0], [0, 1]],
      layer1 = [[5, 5], [5, 5], [5, 5], [5, 5], [5, 5], [5, 6], [7, 5]],
      layer2 = [[0, 0], [0, 0], [0, 0], [0, 0], [0, 0], [0, 0], [0, 0]]\<rparr>
     [(''id'', StrCol [''a'', ''b'', ''c'', ''d'', ''e'', ''f'', ''g'']),
      (''genotype'', NumCol [1, 1, 1, 1, 1, 1, 0])] [] [] 1
   = Inr ([(''id'', StrCol [''a'', ''b'', ''c'', ''d'', ''e'', ''f'', ''g'']),
           (''genotype'', NumCol [1, 1, 1, 1, 1, 1, 0]),
           (''y'', NumCol [1, 1, 1, 1, 1, 0, 1]),
           (''MaxAgeAtICD'', NumCol [5, 5, 5, 5, 5, 6, 5])],
          [Print_exception (OtherException ''call not accepted'')],
          nan_result) \<and>
   phewas_res
     (selective_fitter is_ordinary_call (OtherException ''call not accepted'')
        \<lparr>pvalues_y = Fin 0.1, params_y = Fin 2, conf_int_y = (Fin 1, Fin 3), bse_y = Fin 0.5\<rparr>)
     [0]
     \<lparr>layer0 = [[1, 1], [1, 1], [1, 1], [1, 1], [1, 1], [1, 0], [0, 1]],
      layer1 = [[5, 5], [5, 5], [5, 5], [5, 5], [5, 5], [5, 6], [7, 5]],
      layer2 = [[0, 0], [0, 0], [0, 0], [0, 0], [0, 0], [0, 0], [0, 0]]\<rparr>
     [(''id'', StrCol [''a'', ''b'', ''c'', ''d'', ''e'', ''f'', ''g'']),
      (''genotype'', NumCol [1, 1, 1, 1, 1, 1, 0])] [] [] 1
   = Inr ([(''id'', StrCol [''a'', ''b'', ''c'', ''d'', ''e'', ''f'', ''g'']),
           (''genotype'', NumCol [1, 1, 1, 1, 1, 1, 0]),
           (''y'', NumCol [1, 1, 1, 1, 1, 0, 1]),
           (''MaxAgeAtICD'', NumCol [5, 5, 5, 5, 5, 6, 5])],
          [],
          (0, Fin 0.1,
           \<lparr>neg_log_p = Fin 1, od_p = Fin 0.1, od_beta = Fin 2,
            od_conf = Some (Fin 1, Fin 3), od_stderr = Fin 0.5\<rparr>,
           Fin 0.5))"
proof -
  let ?fm = "\<lparr>layer0 = [[1, 1], [1, 1], [1, 1], [1, 1], [1, 1], [1, 0], [0, 1::real]],
      layer1 = [[5, 5], [5, 5], [5, 5], [5, 5], [5, 5], [5, 6], [7, 5::real]],
      layer2 = [[0, 0], [0, 0], [0, 0], [0, 0], [0, 0], [0, 0], [0, 0::real]]\<rparr>"
  let ?g = "[(''id'', StrCol [''a'', ''b'', ''c'', ''d'', ''e'', ''f'', ''g'']),
      (''genotype'', NumCol [1, 1, 1, 1, 1, 1, 0])]"
  let ?st = "\<lparr>pvalues_y = Fin 0.1, params_y = Fin 2, conf_int_y = (Fin 1, Fin 3),
              bse_y = Fin 0.5\<rparr>"
  let ?e = "OtherException ''call not accepted''"
  have h1: "map_of ?g ''genotype'' = Some (NumCol [1, 1, 1, 1, 1, 1, 0])" by simp
  have h2: "length [1, 1, 1, 1, 1, 1, 0 :: real] = length (layer0 ?fm)" by simp
  have h3: "\<forall>g\<in>set [1, 1, 1, 1, 1, 1, 0 :: real]. g = 0 \<or> g = 1" by simp
  have e: "find_inds ?fm ?g 2 = Inr [0]"
    by (simp add: find_inds_def genotype_eq_def mask_rows_def separated_inds_def
        any_axis0_def upt_rec [of 0 2] upt_rec [of "Suc 0" 2] numeral_2_eq_2)
  have n0: "5 < length (filter (\<lambda>x. x > 0) (column_of (layer0 ?fm) 0))"
    by (simp add: column_of_def)
  have n1: "5 < length (filter (\<lambda>x. x > 0) (column_of (layer0 ?fm) 1))"
    by (simp add: column_of_def)
  from separation_routing [OF h1 h2 h3, of 2] obtain inds where
    i: "find_inds ?fm ?g 2 = Inr inds"
    and r: "\<forall>j fit frame covariates response.
        (length (filter (\<lambda>x. x > 0) (column_of (layer0 ?fm) j)) \<le> 5 \<longrightarrow>
           phewas_route inds (column_of (layer0 ?fm) j) j = None \<and>
           phewas_res fit inds ?fm frame covariates response j
             = Inr (frame, [], nan_result)) \<and>
        (5 < length (filter (\<lambda>x. x > 0) (column_of (layer0 ?fm) j)) \<and> j \<in> set inds \<longrightarrow>
           phewas_route inds (column_of (layer0 ?fm) j) j = Some 1 \<and>
           phewas_res fit inds ?fm frame covariates response j
             = calculate_odds_ratio fit frame (column_of (layer0 ?fm) j)
                 (column_of (layer1 ?fm) j) covariates 1 response
                 (column_of (layer2 ?fm) j)) \<and>
        (5 < length (filter (\<lambda>x. x > 0) (column_of (layer0 ?fm) j)) \<and> j \<notin> set inds \<longrightarrow>
           phewas_route inds (column_of (layer0 ?fm) j) j = Some 0 \<and>
           phewas_res fit inds ?fm frame covariates response j
             = calculate_odds_ratio fit frame (column_of (layer0 ?fm) j)
                 (column_of (layer1 ?fm) j) covariates 0 response
                 (column_of (layer2 ?fm) j))"
    by (elim exE conjE) (rule that)
  have r1: "phewas_res fit inds ?fm frame covariates response j
             = calculate_odds_ratio fit frame (column_of (layer0 ?fm) j)
                 (column_of (layer1 ?fm) j) covariates 1 response
                 (column_of (layer2 ?fm) j)"
    if "5 < length (filter (\<lambda>x. x > 0) (column_of (layer0 ?fm) j)) \<and> j \<in> set inds"
    for j fit frame covariates response
    using r [THEN spec, THEN spec, THEN spec, THEN spec, THEN spec, THEN conjunct2,
      THEN conjunct1, THEN mp, OF that, THEN conjunct2] .
  have r0: "phewas_res fit inds ?fm frame covariates response j
             = calculate_odds_ratio fit frame (column_of (layer0 ?fm) j)
                 (column_of (layer1 ?fm) j) covariates 0 response
                 (column_of (layer2 ?fm) j)"
    if "5 < length (filter (\<lambda>x. x > 0) (column_of (layer0 ?fm) j)) \<and> j \<notin> set inds"
    for j fit frame covariates response
    using r [THEN spec, THEN spec, THEN spec, THEN spec, THEN spec, THEN conjunct2,
      THEN conjunct2, THEN mp, OF that, THEN conjunct2] .
  from i e have inds: "inds = [0]" by simp
  have sp: "py_split ''genotype ~ y'' '' ~ '' = [''genotype'', ''y'']"
    by (simp add: py_split_def)
  have sp2: "py_split ''y'' ''+'' = [''y'']" by (simp add: py_split_def)
  have st: "py_strip ''genotype'' = ''genotype''" by (simp add: py_strip_def py_isspace_def)
  note ev = calculate_odds_ratio_def column_of_def df_set_def any_nonzero_def try_fit_def
    selective_fitter_def make_od_def build_formula_def log_divide sp sp2 st df_get_def
  have a: "phewas_res (selective_fitter (is_regularized_call 0.1) ?e ?st) [0] ?fm ?g [] [] 0
     = Inr ([(''id'', StrCol [''a'', ''b'', ''c'', ''d'', ''e'', ''f'', ''g'']),
           (''genotype'', NumCol [1, 1, 1, 1, 1, 1, 0]),
           (''y'', NumCol [1, 1, 1, 1, 1, 1, 0]),
           (''MaxAgeAtICD'', NumCol [5, 5, 5, 5, 5, 5, 7])],
          [],
          (0, Fin 0.1,
           \<lparr>neg_log_p = Fin 1, od_p = Fin 0.1, od_beta = Fin 2,
            od_conf = Some (Fin 1, Fin 3), od_stderr = Fin 0.5\<rparr>,
           Fin 0.5))"
    using r1 [of 0 "selective_fitter (is_regularized_call 0.1) ?e ?st" ?g "[]" "[]"] n0
    unfolding inds by (simp add: ev)
  have b: "phewas_res (selective_fitter (is_regularized_call 0.2) ?e ?st) [0] ?fm ?g [] [] 0
     = Inr ([(''id'', StrCol [''a'', ''b'', ''c'', ''d'', ''e'', ''f'', ''g'']),
           (''genotype'', NumCol [1, 1, 1, 1, 1, 1, 0]),
           (''y'', NumCol [1, 1, 1, 1, 1, 1, 0]),
           (''MaxAgeAtICD'', NumCol [5, 5, 5, 5, 5, 5, 7])],
          [Print_exception ?e], nan_result)"
    using r1 [of 0 "selective_fitter (is_regularized_call 0.2) ?e ?st" ?g "[]" "[]"] n0
    unfolding inds by (simp add: ev)
  have c: "phewas_res (selective_fitter (is_regularized_call 0.1) ?e ?st) [0] ?fm ?g [] [] 1
     = Inr ([(''id'', StrCol [''a'', ''b'', ''c'', ''d'', ''e'', ''f'', ''g'']),
           (''genotype'', NumCol [1, 1, 1, 1, 1, 1, 0]),
           (''y'', NumCol [1, 1, 1, 1, 1, 0, 1]),
           (''MaxAgeAtICD'', NumCol [5, 5, 5, 5, 5, 6, 5])],
          [Print_exception ?e], nan_result)"
    using r0 [of 1 "selective_fitter (is_regularized_call 0.1) ?e ?st" ?g "[]" "[]"] n1
    unfolding inds by (simp add: ev)
  have d: "phewas_res (selective_fitter is_ordinary_call ?e ?st) [0] ?fm ?g [] [] 1
     = Inr ([(''id'', StrCol [''a'', ''b'', ''c'', ''d'', ''e'', ''f'', ''g'']),
           (''genotype'', NumCol [1, 1, 1, 1, 1, 1, 0]),
           (''y'', NumCol [1, 1, 1, 1, 1, 0, 1]),
           (''MaxAgeAtICD'', NumCol [5, 5, 5, 5, 5, 6, 5])],
          [],
          (0, Fin 0.1,
           \<lparr>neg_log_p = Fin 1, od_p = Fin 0.1, od_beta = Fin 2,
            od_conf = Some (Fin 1, Fin 3), od_stderr = Fin 0.5\<rparr>,
           Fin 0.5))"
    using r0 [of 1 "selective_fitter is_ordinary_call ?e ?st" ?g "[]" "[]"] n1
    unfolding inds by (simp add: ev)
  from h1 e a b c d show ?thesis by blast
qed

text \<open>
  The claim C4 as stated fails: column 0 below is present among the exposed only, so it
  is in \<open>inds\<close>, but with one positive entry it is skipped and gets the \<open>nan\<close> result,
  not the regularized fit.
\<close>

theorem flagged_column_skipped:
  "find_inds \<lparr>layer0 = [[1, 2], [0, 3]], layer1 = [[5, 5], [6, 6]], layer2 = [[0, 0], [0, 0]]\<rparr>
     [(''id'', StrCol [''a'', ''b'']), (''genotype'', NumCol [1, 0])] 2 = Inr [0] \<and>
   phewas_route [0] (column_of (layer0 \<lparr>layer0 = [[1, 2], [0, 3]],
       layer1 = [[5, 5], [6, 6]], layer2 = [[0, 0], [0, 0]]\<rparr>) 0) 0 = None \<and>
   phewas_res
     (constant_fitter \<lparr>pvalues_y = Fin 1, params_y = Fin 2, conf_int_y = (Fin 1, Fin 3), bse_y = Fin 0.5\<rparr>)
     [0]
     \<lparr>layer0 = [[1, 2], [0, 3]], layer1 = [[5, 5], [6, 6]], layer2 = [[0, 0], [0, 0]]\<rparr>
     [(''id'', StrCol [''a'', ''b'']), (''genotype'', NumCol [1, 0])] [] [] 0
   = Inr ([(''id'', StrCol [''a'', ''b'']), (''genotype'', NumCol [1, 0])], [], nan_result)"
  by (simp add: find_inds_def genotype_eq_def mask_rows_def separated_inds_def
        any_axis0_def upt_rec [of 0 2] upt_rec [of "Suc 0" 2] numeral_2_eq_2
        phewas_route_def phewas_res_def column_of_def)

subsection \<open>Events of subjects that are not in the group table\<close>

lemma new_subject_exclude:
  "new_subject G dict c (s\<lparr>exclude := x\<rparr>)
     = map_sum id (\<lambda>t. t\<lparr>exclude := x\<rparr>) (new_subject G dict c s)"
  by (simp add: new_subject_def split: sum.splits prod.splits option.splits)

lemma new_subject_keeps_exclude:
  "new_subject G dict c s = Inr t \<Longrightarrow> exclude t = exclude s"
  by (auto simp: new_subject_def split: sum.splits prod.splits option.splits)

lemma process_event_absent:
  "dict (event_id ev) = None \<Longrightarrow>
     process_event G dict npi rt pc ev s
       = Inr (if event_id ev \<in> set (exclude s) then s
              else s\<lparr>exclude := exclude s @ [event_id ev]\<rparr>)"
  by (simp add: process_event_def)

lemma process_event_present_exclude:
  assumes "dict (event_id ev) \<noteq> None"
  shows "process_event G dict npi rt pc ev (s\<lparr>exclude := x\<rparr>)
     = map_sum id (\<lambda>t. t\<lparr>exclude := x\<rparr>) (process_event G dict npi rt pc ev s)"
proof -
  from assms obtain subj where d: "dict (event_id ev) = Some subj" by blast
  show ?thesis
  proof (cases "last_id s \<noteq> event_id ev")
    case True
    then show ?thesis
      by (cases "new_subject G dict (event_id ev) s")
         (simp_all add: process_event_def Let_def d new_subject_exclude
            split: sum.splits option.splits)
  next
    case False
    then show ?thesis
      by (simp add: process_event_def Let_def d split: sum.splits option.splits)
  qed
qed

lemma process_event_present_keeps_exclude:
  assumes "dict (event_id ev) \<noteq> None" and "process_event G dict npi rt pc ev s = Inr t"
  shows "exclude t = exclude s"
proof -
  from assms obtain subj where d: "dict (event_id ev) = Some subj" by blast
  from assms(2) show ?thesis
    by (auto simp: process_event_def Let_def d dest: new_subject_keeps_exclude
        split: sum.splits option.splits if_splits)
qed

lemma process_events_filter:
  "map_sum id fmat (snd (process_events G dict npi rt pc evs (s\<lparr>exclude := x\<rparr>)))
     = map_sum id fmat
         (snd (process_events G dict npi rt pc (filter (\<lambda>ev. dict (event_id ev) \<noteq> None) evs) s))"
proof (induction evs arbitrary: s x)
  case Nil
  show ?case by simp
next
  case (Cons ev evs)
  show ?case
  proof (cases "dict (event_id ev) = None")
    case True
    have "process_event G dict npi rt pc ev (s\<lparr>exclude := x\<rparr>)
            = Inr (s\<lparr>exclude := (if event_id ev \<in> set x then x else x @ [event_id ev])\<rparr>)"
      using True by (simp add: process_event_absent)
    with True Cons.IH show ?thesis by simp
  next
    case False
    have pe: "process_event G dict npi rt pc ev (s\<lparr>exclude := x\<rparr>)
       = map_sum id (\<lambda>t. t\<lparr>exclude := x\<rparr>) (process_event G dict npi rt pc ev s)"
      using False by (rule process_event_present_exclude)
    show ?thesis
    proof (cases "process_event G dict npi rt pc ev s")
      case (Inl e)
      with False pe show ?thesis by simp
    next
      case (Inr t)
      with False pe Cons.IH [where s = t and x = x] show ?thesis by simp
    qed
  qed
qed

lemma process_events_log:
  assumes "distinct (exclude s)"
  shows "distinct (fst (process_events G dict npi rt pc evs s)) \<and>
         set (fst (process_events G dict npi rt pc evs s))
           \<subseteq> set (exclude s) \<union> {event_id ev |ev. ev \<in> set evs \<and> dict (event_id ev) = None} \<and>
         ((\<exists>t. snd (process_events G dict npi rt pc evs s) = Inr t) \<longrightarrow>
            set (fst (process_events G dict npi rt pc evs s))
              = set (exclude s) \<union> {event_id ev |ev. ev \<in> set evs \<and> dict (event_id ev) = None})"
  using assms
proof (induction evs arbitrary: s)
  case Nil
  then show ?case by simp
next
  case (Cons ev evs)
  show ?case
  proof (cases "process_event G dict npi rt pc ev s")
    case (Inl e)
    with Cons.prems show ?thesis by auto
  next
    case (Inr t)
    have t: "distinct (exclude t) \<and>
       set (exclude t) = set (exclude s) \<union> (if dict (event_id ev) = None then {event_id ev} else {})"
    proof (cases "dict (event_id ev) = None")
      case True
      with Inr Cons.prems show ?thesis by (auto simp: process_event_absent split: if_splits)
    next
      case False
      have "exclude t = exclude s"
        using False Inr by (rule process_event_present_keeps_exclude)
      with Cons.prems False show ?thesis by auto
    qed
    from Cons.IH [of t] t have ih:
      "distinct (fst (process_events G dict npi rt pc evs t))"
      "set (fst (process_events G dict npi rt pc evs t))
           \<subseteq> set (exclude t) \<union> {event_id ev |ev. ev \<in> set evs \<and> dict (event_id ev) = None}"
      "(\<exists>u. snd (process_events G dict npi rt pc evs t) = Inr u) \<longrightarrow>
            set (fst (process_events G dict npi rt pc evs t))
              = set (exclude t) \<union> {event_id ev |ev. ev \<in> set evs \<and> dict (event_id ev) = None}"
      by blast+
    have eq: "process_events G dict npi rt pc (ev # evs) s = process_events G dict npi rt pc evs t"
      using Inr by simp
    have u: "set (exclude t) \<union> {event_id ev |ev. ev \<in> set evs \<and> dict (event_id ev) = None}
        = set (exclude s) \<union> {event_id e |e. e \<in> set (ev # evs) \<and> dict (event_id e) = None}"
      using t by auto
    from ih show ?thesis unfolding eq u by blast
  qed
qed

lemma dom_roster_dict:
  "(map_of (map (\<lambda>subj. (roster_id subj, subj)) G) i \<noteq> None) = (i \<in> roster_id ` set G)"
proof -
  have "(map_of (map (\<lambda>subj. (roster_id subj, subj)) G) i \<noteq> None)
      = (i \<in> fst ` set (map (\<lambda>subj. (roster_id subj, subj)) G))"
    by (simp only: map_of_eq_None_iff) simp
  also have "\<dots> = (i \<in> roster_id ` set G)" by (simp add: image_image)
  finally show ?thesis .
qed

subsection \<open>Writes into a layer, and the loop over the subjects without events\<close>

lemma np_axis_index_nat: "k < n \<Longrightarrow> np_axis_index n (int k) = Inr k"
  by (simp add: np_axis_index_def)

lemma matrix_shape_row: "matrix_shape N P rows \<Longrightarrow> k < N \<Longrightarrow> length (rows ! k) = P"
  by (simp add: matrix_shape_def)

lemma matrix_shape_update:
  "matrix_shape N P rows \<Longrightarrow> length row = P \<Longrightarrow> matrix_shape N P (rows[k := row])"
  by (auto simp: matrix_shape_def dest: subsetD [OF set_update_subset_insert])

lemma matrix_shape_zeros: "matrix_shape N P (replicate N (replicate P 0))"
  by (simp add: matrix_shape_def)

lemma set_row_shape:
  assumes "matrix_shape N P rows" "k < N"
  shows "set_row rows (int k) v = Inr (rows[k := replicate P v])"
    and "matrix_shape N P (rows[k := replicate P v])"
proof -
  from assms have n: "length rows = N" and r: "length (rows ! k) = P"
    by (simp_all add: matrix_shape_def)
  from n r assms(2) show "set_row rows (int k) v = Inr (rows[k := replicate P v])"
    by (simp add: set_row_def np_axis_index_nat)
  from assms(1) show "matrix_shape N P (rows[k := replicate P v])"
    by (rule matrix_shape_update) simp
qed

lemma set_cell_shape:
  assumes "matrix_shape N P rows" "k < N" "j < P"
  shows "set_cell rows (int k) j v = Inr (rows[k := (rows ! k)[j := v]])"
    and "matrix_shape N P (rows[k := (rows ! k)[j := v]])"
proof -
  from assms have n: "length rows = N" and r: "length (rows ! k) = P"
    by (simp_all add: matrix_shape_def)
  from n r assms(2,3) show "set_cell rows (int k) j v = Inr (rows[k := (rows ! k)[j := v]])"
    by (simp add: set_cell_def np_axis_index_nat)
  from assms(1) show "matrix_shape N P (rows[k := (rows ! k)[j := v]])"
    by (rule matrix_shape_update) (simp add: r)
qed

lemma get_cell_shape:
  assumes "matrix_shape N P rows" "k < N" "j < P"
  shows "get_cell rows (int k) j = Inr (rows ! k ! j)"
proof -
  from assms have n: "length rows = N" and r: "length (rows ! k) = P"
    by (simp_all add: matrix_shape_def)
  from n r assms(2,3) show ?thesis
    by (simp add: get_cell_def np_axis_index_nat)
qed

lemma skip_empty_reaches:
  assumes "c \<le> k" and "k < length G" and "roster_id (G ! k) = cid"
    and "\<forall>m. c \<le> m \<and> m < k \<longrightarrow> roster_id (G ! m) \<noteq> cid"
    and "\<forall>m<length G. dict (roster_id (G ! m)) = Some (G ! m)"
    and "matrix_shape (length G) P l1"
  shows "\<exists>l1a. skip_empty G dict cid (int c) l1 = Inr (int k, l1a) \<and>
           matrix_shape (length G) P l1a \<and> (\<forall>m<c. l1a ! m = l1 ! m)"
  using assms
proof (induction "k - c" arbitrary: c l1)
  case 0
  then have "c = k" by simp
  with 0 show ?case by (subst skip_empty.simps) simp
next
  case (Suc d)
  then have ck: "c < k" and cn: "c < length G" by simp_all
  from Suc.prems(4) ck have ne: "roster_id (G ! c) \<noteq> cid" by simp
  from Suc.prems(5) cn have dc: "dict (roster_id (G ! c)) = Some (G ! c)" by simp
  let ?l = "l1[c := replicate P (MaxAgeAtVisit (G ! c))]"
  from set_row_shape [OF Suc.prems(6) cn]
  have sr: "set_row l1 (int c) (MaxAgeAtVisit (G ! c)) = Inr ?l"
    and sh: "matrix_shape (length G) P ?l" by simp_all
  have step: "skip_empty G dict cid (int c) l1 = skip_empty G dict cid (int (Suc c)) ?l"
    using cn ne dc sr by (subst skip_empty.simps) (simp add: Let_def add.commute)
  have "\<exists>l1a. skip_empty G dict cid (int (Suc c)) ?l = Inr (int k, l1a) \<and>
           matrix_shape (length G) P l1a \<and> (\<forall>m<Suc c. l1a ! m = ?l ! m)"
  proof (rule Suc.hyps(1))
    show "d = k - Suc c" using Suc.hyps(2) by simp
    show "Suc c \<le> k" using ck by simp
    show "\<forall>m. Suc c \<le> m \<and> m < k \<longrightarrow> roster_id (G ! m) \<noteq> cid" using Suc.prems(4) by simp
  qed (use Suc.prems sh in simp_all)
  then obtain l1a where l: "skip_empty G dict cid (int (Suc c)) ?l = Inr (int k, l1a)"
    "matrix_shape (length G) P l1a" "\<forall>m<Suc c. l1a ! m = ?l ! m" by blast
  have "\<forall>m<c. l1a ! m = l1 ! m"
  proof (intro allI impI)
    fix m assume "m < c"
    with l(3) have "l1a ! m = ?l ! m" by simp
    with \<open>m < c\<close> show "l1a ! m = l1 ! m" by simp
  qed
  with l step show ?case by simp
qed

lemma strict_sorted_ids_index:
  assumes "sorted_wrt (<) (map roster_id G)" "a < length G" "b < length G"
  shows "roster_id (G ! a) = roster_id (G ! b) \<longleftrightarrow> a = b"
    and "roster_id (G ! a) < roster_id (G ! b) \<longleftrightarrow> a < b"
proof -
  have lt: "roster_id (G ! x) < roster_id (G ! y)" if "x < y" "y < length G" for x y
    using sorted_wrt_nth_less [OF assms(1), of x y] that by simp
  show "roster_id (G ! a) = roster_id (G ! b) \<longleftrightarrow> a = b"
    using lt [of a b] lt [of b a] assms(2,3) by (cases a b rule: linorder_cases) auto
  show "roster_id (G ! a) < roster_id (G ! b) \<longleftrightarrow> a < b"
    using lt [of a b] lt [of b a] assms(2,3) by (cases a b rule: linorder_cases) auto
qed

lemma loop_inv_count: "loop_inv G P s \<Longrightarrow> - 1 \<le> count s \<and> count s < int (length G)"
  by (auto simp: loop_inv_def)

lemma new_subject_step:
  assumes inv: "loop_inv G P s" and k: "k < length G" and cid: "roster_id (G ! k) = cid"
    and lt: "count s < int k"
    and dict: "\<forall>m<length G. dict (roster_id (G ! m)) = Some (G ! m)"
    and srt: "sorted_wrt (<) (map roster_id G)"
  shows "\<exists>l1a. new_subject G dict cid s
            = Inr (s\<lparr>fmat := (fmat s)\<lparr>layer1 := l1a\<rparr>, last_id := cid, count := int k\<rparr>) \<and>
           matrix_shape (length G) P l1a \<and>
           (\<forall>m. int m \<le> count s \<longrightarrow> l1a ! m = layer1 (fmat s) ! m)"
proof -
  from loop_inv_count [OF inv] have c: "- 1 \<le> count s" by simp
  define c0 where "c0 = nat (count s + 1)"
  from c have c0: "int c0 = count s + 1" by (simp add: c0_def)
  from c0 lt have ck: "c0 \<le> k" by linarith
  have ne: "\<forall>m. c0 \<le> m \<and> m < k \<longrightarrow> roster_id (G ! m) \<noteq> cid"
  proof (intro allI impI)
    fix m assume m: "c0 \<le> m \<and> m < k"
    with k have "m < length G" by simp
    from strict_sorted_ids_index(1) [OF srt this k] m cid show "roster_id (G ! m) \<noteq> cid" by auto
  qed
  from inv have sh: "matrix_shape (length G) P (layer1 (fmat s))" by (simp add: loop_inv_def)
  from skip_empty_reaches [OF ck k cid ne dict sh] obtain l1a where
    l: "skip_empty G dict cid (int c0) (layer1 (fmat s)) = Inr (int k, l1a)"
    "matrix_shape (length G) P l1a" "\<forall>m<c0. l1a ! m = layer1 (fmat s) ! m" by blast
  from dict k cid have d: "dict cid = Some (G ! k)" by auto
  let ?l = "l1a[k := replicate P (MaxAgeAtVisit (G ! k))]"
  from set_row_shape [OF l(2) k]
  have sr: "set_row l1a (int k) (MaxAgeAtVisit (G ! k)) = Inr ?l"
    and sh2: "matrix_shape (length G) P ?l" by simp_all
  have "new_subject G dict cid s
      = Inr (s\<lparr>fmat := (fmat s)\<lparr>layer1 := ?l\<rparr>, last_id := cid, count := int k\<rparr>)"
    using l(1) d sr by (simp add: new_subject_def c0)
  moreover have "\<forall>m. int m \<le> count s \<longrightarrow> ?l ! m = layer1 (fmat s) ! m"
  proof (intro allI impI)
    fix m assume "int m \<le> count s"
    with c0 lt have "m < c0" "m \<noteq> k" by linarith+
    with l(3) show "?l ! m = layer1 (fmat s) ! m" by simp
  qed
  ultimately show ?thesis using sh2 by blast
qed

subsection \<open>One event of a subject of the group table\<close>

lemma aggregate_step:
  assumes sh: "matrix_shape N P l0" and k: "k < N" and j: "j < P"
    and dur: "rt \<noteq> 0 \<and> rt \<noteq> 1 \<longrightarrow> duration ev = Some d"
  shows "\<exists>v. aggregate rt l0 (int k) j ev = Inr (l0[k := (l0 ! k)[j := v]]) \<and>
             (rt \<noteq> 0 \<and> rt \<noteq> 1 \<longrightarrow> v = d)"
  using set_cell_shape(1) [OF sh k j] get_cell_shape [OF sh k j] dur
  by (auto simp: aggregate_def)

lemma nth_cell_update:
  assumes "matrix_shape N P rows" "k < N" "j < P"
  shows "rows[k := (rows ! k)[j := v]] ! k ! j = v"
    and "(m, j') \<noteq> (k, j) \<Longrightarrow> rows[k := (rows ! k)[j := v]] ! m ! j' = rows ! m ! j'"
proof -
  from assms have n: "length rows = N" and r: "length (rows ! k) = P"
    by (simp_all add: matrix_shape_def)
  from n r assms(2,3) show "rows[k := (rows ! k)[j := v]] ! k ! j = v" by simp
  assume "(m, j') \<noteq> (k, j)"
  with n assms(2) show "rows[k := (rows ! k)[j := v]] ! m ! j' = rows ! m ! j'"
    by (cases "m = k") (auto simp: nth_list_update)
qed

lemma process_event_cells:
  assumes inv: "loop_inv G P s1" and k: "k < length G" and c: "count s1 = int k"
    and npi: "npi (PheCode ev) = Some j" and j: "j < P"
    and dur: "rt \<noteq> 0 \<and> rt \<noteq> 1 \<longrightarrow> duration ev = Some d"
    and d: "dict (event_id ev) \<noteq> None" and same: "last_id s1 = event_id ev"
  shows "\<exists>s'. process_event G dict npi rt pc ev s1 = Inr s' \<and> loop_inv G P s' \<and>
           count s' = int k \<and> last_id s' = last_id s1 \<and>
           layer1 (fmat s') ! k ! j = MaxAgeAtICD ev \<and>
           (rt \<noteq> 0 \<and> rt \<noteq> 1 \<longrightarrow> layer0 (fmat s') ! k ! j = d) \<and>
           (\<forall>m j'. (m, j') \<noteq> (k, j) \<longrightarrow>
              layer1 (fmat s') ! m ! j' = layer1 (fmat s1) ! m ! j' \<and>
              layer0 (fmat s') ! m ! j' = layer0 (fmat s1) ! m ! j')"
proof -
  from inv have sh0: "matrix_shape (length G) P (layer0 (fmat s1))"
    and sh1: "matrix_shape (length G) P (layer1 (fmat s1))"
    and sh2: "matrix_shape (length G) P (layer2 (fmat s1))"
    and pos: "count s1 = - 1 \<and> last_id s1 = [] \<or>
      0 \<le> count s1 \<and> count s1 < int (length G) \<and> last_id s1 = roster_id (G ! nat (count s1))"
    by (simp_all add: loop_inv_def)
  let ?l1 = "(layer1 (fmat s1))[k := (layer1 (fmat s1) ! k)[j := MaxAgeAtICD ev]]"
  from set_cell_shape [OF sh1 k j, of "MaxAgeAtICD ev"]
  have c1: "set_cell (layer1 (fmat s1)) (int k) j (MaxAgeAtICD ev) = Inr ?l1"
    and s1: "matrix_shape (length G) P ?l1" by simp_all
  obtain l2 where c2: "(if pc = Some (PheCode ev) then set_row (layer2 (fmat s1)) (int k) 1
                        else Inr (layer2 (fmat s1))) = Inr l2"
    and s2: "matrix_shape (length G) P l2"
    using set_row_shape [OF sh2 k, of 1] sh2 by (cases "pc = Some (PheCode ev)") auto
  from aggregate_step [OF sh0 k j dur] obtain v where
    c0: "aggregate rt (layer0 (fmat s1)) (int k) j ev
           = Inr ((layer0 (fmat s1))[k := (layer0 (fmat s1) ! k)[j := v]])"
    and v: "rt \<noteq> 0 \<and> rt \<noteq> 1 \<longrightarrow> v = d" by blast
  let ?l0 = "(layer0 (fmat s1))[k := (layer0 (fmat s1) ! k)[j := v]]"
  from set_cell_shape(2) [OF sh0 k j] have s0: "matrix_shape (length G) P ?l0" .
  let ?s = "s1\<lparr>fmat := \<lparr>layer0 = ?l0, layer1 = ?l1, layer2 = l2\<rparr>\<rparr>"
  from d obtain subj where ds: "dict (event_id ev) = Some subj" by blast
  have pe: "process_event G dict npi rt pc ev s1 = Inr ?s"
  proof (cases "pc = Some (PheCode ev)")
    case True
    with c2 have "set_row (layer2 (fmat s1)) (int k) 1 = Inr l2" by simp
    with True same npi c1 c0 show ?thesis
      by (simp add: process_event_def Let_def ds c)
  next
    case False
    with c2 have "l2 = layer2 (fmat s1)" by simp
    with False same npi c1 c0 show ?thesis
      by (simp add: process_event_def Let_def ds c)
  qed
  have inv': "loop_inv G P ?s"
    using s0 s1 s2 pos by (simp add: loop_inv_def)
  have a: "layer1 (fmat ?s) ! k ! j = MaxAgeAtICD ev"
    using nth_cell_update(1) [OF sh1 k j] by simp
  have b: "rt \<noteq> 0 \<and> rt \<noteq> 1 \<longrightarrow> layer0 (fmat ?s) ! k ! j = d"
    using nth_cell_update(1) [OF sh0 k j] v by simp
  have f: "\<forall>m j'. (m, j') \<noteq> (k, j) \<longrightarrow>
              layer1 (fmat ?s) ! m ! j' = layer1 (fmat s1) ! m ! j' \<and>
              layer0 (fmat ?s) ! m ! j' = layer0 (fmat s1) ! m ! j'"
    using nth_cell_update(2) [OF sh1 k j] nth_cell_update(2) [OF sh0 k j] by simp
  from pe inv' a b f c show ?thesis by (intro exI [of _ ?s]) simp
qed

lemma process_event_after_new_subject:
  assumes "dict (event_id ev) \<noteq> None" and "last_id s \<noteq> event_id ev"
    and "new_subject G dict (event_id ev) s = Inr s1" and "last_id s1 = event_id ev"
  shows "process_event G dict npi rt pc ev s = process_event G dict npi rt pc ev s1"
proof -
  from assms(1) obtain subj where ds: "dict (event_id ev) = Some subj" by blast
  from assms(2-4) show ?thesis by (simp add: process_event_def Let_def ds)
qed

lemma process_event_step:
  assumes inv: "loop_inv G P s" and k: "k < length G"
    and eid: "event_id ev = roster_id (G ! k)"
    and npi: "npi (PheCode ev) = Some j" and j: "j < P"
    and dur: "rt \<noteq> 0 \<and> rt \<noteq> 1 \<longrightarrow> duration ev = Some d"
    and ord: "0 \<le> count s \<longrightarrow> last_id s \<le> event_id ev"
    and ne: "event_id ev \<noteq> []"
    and dict: "\<forall>m<length G. dict (roster_id (G ! m)) = Some (G ! m)"
    and srt: "sorted_wrt (<) (map roster_id G)"
  shows "\<exists>s'. process_event G dict npi rt pc ev s = Inr s' \<and> loop_inv G P s' \<and>
           count s' = int k \<and> last_id s' = event_id ev \<and> count s \<le> count s' \<and>
           layer1 (fmat s') ! k ! j = MaxAgeAtICD ev \<and>
           (rt \<noteq> 0 \<and> rt \<noteq> 1 \<longrightarrow> layer0 (fmat s') ! k ! j = d) \<and>
           (\<forall>m j'. int m \<le> count s \<and> (m, j') \<noteq> (k, j) \<longrightarrow>
              layer1 (fmat s') ! m ! j' = layer1 (fmat s) ! m ! j' \<and>
              layer0 (fmat s') ! m ! j' = layer0 (fmat s) ! m ! j')"
proof -
  from dict k eid have d: "dict (event_id ev) \<noteq> None" by simp
  from inv have pos: "count s = - 1 \<and> last_id s = [] \<or>
      0 \<le> count s \<and> count s < int (length G) \<and> last_id s = roster_id (G ! nat (count s))"
    by (simp add: loop_inv_def)
  show ?thesis
  proof (cases "last_id s = event_id ev")
    case True
    with pos ne have c: "0 \<le> count s" "count s < int (length G)"
      "last_id s = roster_id (G ! nat (count s))" by auto
    from c(2) c(1) have cn: "nat (count s) < length G" by simp
    from strict_sorted_ids_index(1) [OF srt cn k] True c(3) eid have "nat (count s) = k" by simp
    with c(1) have ck: "count s = int k" by simp
    from process_event_cells [where dict = dict and npi = npi and pc = pc, OF inv k ck npi j dur d True] obtain s' where
      "process_event G dict npi rt pc ev s = Inr s'" "loop_inv G P s'"
      "count s' = int k" "last_id s' = last_id s"
      "layer1 (fmat s') ! k ! j = MaxAgeAtICD ev"
      "rt \<noteq> 0 \<and> rt \<noteq> 1 \<longrightarrow> layer0 (fmat s') ! k ! j = d"
      "\<forall>m j'. (m, j') \<noteq> (k, j) \<longrightarrow>
              layer1 (fmat s') ! m ! j' = layer1 (fmat s) ! m ! j' \<and>
              layer0 (fmat s') ! m ! j' = layer0 (fmat s) ! m ! j'" by blast
    with True ck show ?thesis by (intro exI [of _ s']) simp
  next
    case False
    have lt: "count s < int k"
    proof (cases "count s = - 1")
      case True
      then show ?thesis by simp
    next
      case nm: False
      with pos have c: "0 \<le> count s" "count s < int (length G)"
        "last_id s = roster_id (G ! nat (count s))" by auto
      from c(2) c(1) have cn: "nat (count s) < length G" by simp
      from ord c(1) False have "last_id s < event_id ev" by simp
      with c(3) eid have "roster_id (G ! nat (count s)) < roster_id (G ! k)" by simp
      with strict_sorted_ids_index(2) [OF srt cn k] have "nat (count s) < k" by simp
      with c(1) show ?thesis by simp
    qed
    from new_subject_step [where dict = dict, OF inv k eid [symmetric] lt dict srt] obtain l1a where
      ns: "new_subject G dict (event_id ev) s
            = Inr (s\<lparr>fmat := (fmat s)\<lparr>layer1 := l1a\<rparr>, last_id := event_id ev, count := int k\<rparr>)"
      and sh: "matrix_shape (length G) P l1a"
      and fr: "\<forall>m. int m \<le> count s \<longrightarrow> l1a ! m = layer1 (fmat s) ! m" by blast
    let ?s1 = "s\<lparr>fmat := (fmat s)\<lparr>layer1 := l1a\<rparr>, last_id := event_id ev, count := int k\<rparr>"
    have inv1: "loop_inv G P ?s1"
      using inv sh k eid by (simp add: loop_inv_def)
    have pe: "process_event G dict npi rt pc ev s = process_event G dict npi rt pc ev ?s1"
      using d False ns by (rule process_event_after_new_subject) simp
    have ck: "count ?s1 = int k" by simp
    have same: "last_id ?s1 = event_id ev" by simp
    from process_event_cells [where dict = dict and npi = npi and pc = pc, OF inv1 k ck npi j dur d same] obtain s' where
      s': "process_event G dict npi rt pc ev ?s1 = Inr s'" "loop_inv G P s'"
      "count s' = int k" "last_id s' = last_id ?s1"
      "layer1 (fmat s') ! k ! j = MaxAgeAtICD ev"
      "rt \<noteq> 0 \<and> rt \<noteq> 1 \<longrightarrow> layer0 (fmat s') ! k ! j = d"
      and fr2: "\<forall>m j'. (m, j') \<noteq> (k, j) \<longrightarrow>
              layer1 (fmat s') ! m ! j' = layer1 (fmat ?s1) ! m ! j' \<and>
              layer0 (fmat s') ! m ! j' = layer0 (fmat ?s1) ! m ! j'" by blast
    have frame: "\<forall>m j'. int m \<le> count s \<and> (m, j') \<noteq> (k, j) \<longrightarrow>
              layer1 (fmat s') ! m ! j' = layer1 (fmat s) ! m ! j' \<and>
              layer0 (fmat s') ! m ! j' = layer0 (fmat s) ! m ! j'"
    proof (intro allI impI)
      fix m j' assume a: "int m \<le> count s \<and> (m, j') \<noteq> (k, j)"
      with fr2 have "layer1 (fmat s') ! m ! j' = layer1 (fmat ?s1) ! m ! j'"
        "layer0 (fmat s') ! m ! j' = layer0 (fmat ?s1) ! m ! j'" by blast+
      moreover from fr a have "l1a ! m = layer1 (fmat s) ! m" by blast
      ultimately show "layer1 (fmat s') ! m ! j' = layer1 (fmat s) ! m ! j' \<and>
              layer0 (fmat s') ! m ! j' = layer0 (fmat s) ! m ! j'" by simp
    qed
    from s' pe lt frame show ?thesis by (intro exI [of _ s']) simp
  qed
qed

subsection \<open>The loop over the sorted events\<close>

lemma process_events_cells:
  fixes M D :: "string \<Rightarrow> string \<Rightarrow> real"
  assumes dict: "\<forall>m<length G. dict (roster_id (G ! m)) = Some (G ! m)"
    and dom: "\<forall>i. dict i \<noteq> None \<longrightarrow> (\<exists>k<length G. i = roster_id (G ! k))"
    and srt: "sorted_wrt (<) (map roster_id G)"
    and noempty: "\<forall>k<length G. roster_id (G ! k) \<noteq> []"
    and npi1: "\<forall>c j. npi c = Some j \<longrightarrow> j < P \<and> header ! j = c"
    and npi2: "\<forall>j<P. npi (header ! j) = Some j"
    and evsorted: "sorted (map event_id evs)"
    and inv: "loop_inv G P s"
    and ord: "\<forall>ev\<in>set evs. 0 \<le> count s \<longrightarrow> last_id s \<le> event_id ev"
    and codes: "\<forall>ev\<in>set evs. dict (event_id ev) \<noteq> None \<longrightarrow> npi (PheCode ev) \<noteq> None"
    and ages: "\<forall>ev\<in>set evs. MaxAgeAtICD ev = M (event_id ev) (PheCode ev)"
    and durs: "rt \<noteq> 0 \<and> rt \<noteq> 1 \<longrightarrow>
                 (\<forall>ev\<in>set evs. duration ev = Some (D (event_id ev) (PheCode ev)))"
  shows "\<exists>s'. snd (process_events G dict npi rt pc evs s) = Inr s' \<and> loop_inv G P s' \<and>
     count s \<le> count s' \<and>
     (\<forall>k j. k < length G \<and> j < P \<longrightarrow>
        ((\<exists>ev\<in>set evs. event_id ev = roster_id (G ! k) \<and> PheCode ev = header ! j) \<longrightarrow>
            layer1 (fmat s') ! k ! j = M (roster_id (G ! k)) (header ! j) \<and>
            (rt \<noteq> 0 \<and> rt \<noteq> 1 \<longrightarrow>
               layer0 (fmat s') ! k ! j = D (roster_id (G ! k)) (header ! j))) \<and>
        (\<not> (\<exists>ev\<in>set evs. event_id ev = roster_id (G ! k) \<and> PheCode ev = header ! j) \<and>
           int k \<le> count s \<longrightarrow>
            layer1 (fmat s') ! k ! j = layer1 (fmat s) ! k ! j \<and>
            layer0 (fmat s') ! k ! j = layer0 (fmat s) ! k ! j))"
  using evsorted inv ord codes ages durs
proof (induction evs arbitrary: s)
  case Nil
  then show ?case by simp
next
  case (Cons ev evs)
  let ?match = "\<lambda>es k j. \<exists>e\<in>set es. event_id e = roster_id (G ! k) \<and> PheCode e = header ! j"
  from Cons.prems(1) have sorted_tl: "sorted (map event_id evs)"
    and le_tl: "\<forall>e\<in>set evs. event_id ev \<le> event_id e" by simp_all
  from Cons.prems(4) have codes_tl:
    "\<forall>e\<in>set evs. dict (event_id e) \<noteq> None \<longrightarrow> npi (PheCode e) \<noteq> None" by simp
  from Cons.prems(5) have ages_tl: "\<forall>e\<in>set evs. MaxAgeAtICD e = M (event_id e) (PheCode e)"
    by simp
  from Cons.prems(6) have durs_tl: "rt \<noteq> 0 \<and> rt \<noteq> 1 \<longrightarrow>
                 (\<forall>e\<in>set evs. duration e = Some (D (event_id e) (PheCode e)))" by simp
  show ?case
  proof (cases "dict (event_id ev) = None")
    case True
    let ?s1 = "if event_id ev \<in> set (exclude s) then s
               else s\<lparr>exclude := exclude s @ [event_id ev]\<rparr>"
    have pe: "process_event G dict npi rt pc ev s = Inr ?s1"
      using True by (rule process_event_absent)
    have inv1: "loop_inv G P ?s1" using Cons.prems(2) by (simp add: loop_inv_def)
    have same: "count ?s1 = count s" "last_id ?s1 = last_id s" "fmat ?s1 = fmat s" by simp_all
    have ord1: "\<forall>e\<in>set evs. 0 \<le> count ?s1 \<longrightarrow> last_id ?s1 \<le> event_id e"
      using Cons.prems(3) unfolding same by simp
    from Cons.IH [OF sorted_tl inv1 ord1 codes_tl ages_tl durs_tl] obtain s' where
      s': "snd (process_events G dict npi rt pc evs ?s1) = Inr s'" "loop_inv G P s'"
        "count ?s1 \<le> count s'"
      and cells: "\<forall>k j. k < length G \<and> j < P \<longrightarrow>
        (?match evs k j \<longrightarrow>
            layer1 (fmat s') ! k ! j = M (roster_id (G ! k)) (header ! j) \<and>
            (rt \<noteq> 0 \<and> rt \<noteq> 1 \<longrightarrow>
               layer0 (fmat s') ! k ! j = D (roster_id (G ! k)) (header ! j))) \<and>
        (\<not> ?match evs k j \<and> int k \<le> count ?s1 \<longrightarrow>
            layer1 (fmat s') ! k ! j = layer1 (fmat ?s1) ! k ! j \<and>
            layer0 (fmat s') ! k ! j = layer0 (fmat ?s1) ! k ! j)"
      by blast
    have nomatch: "event_id ev \<noteq> roster_id (G ! k)" if "k < length G" for k
      using True dict that by auto
    have m: "?match (ev # evs) k j = ?match evs k j" if "k < length G" for k j
      using nomatch [OF that] by auto
    have run: "snd (process_events G dict npi rt pc (ev # evs) s) = Inr s'"
      using pe s'(1) by simp
    show ?thesis
    proof (intro exI [of _ s'] conjI allI impI)
      show "snd (process_events G dict npi rt pc (ev # evs) s) = Inr s'" by (rule run)
      show "loop_inv G P s'" by (rule s'(2))
      show "count s \<le> count s'" using s'(3) unfolding same(1) .
    next
      fix k j assume kj: "k < length G \<and> j < P" and "?match (ev # evs) k j"
      then have "?match evs k j" using m by blast
      with cells kj show "layer1 (fmat s') ! k ! j = M (roster_id (G ! k)) (header ! j)"
        by blast
    next
      fix k j assume kj: "k < length G \<and> j < P" and "?match (ev # evs) k j"
        and "rt \<noteq> 0 \<and> rt \<noteq> 1"
      then have "?match evs k j" using m by blast
      with cells kj \<open>rt \<noteq> 0 \<and> rt \<noteq> 1\<close>
      show "layer0 (fmat s') ! k ! j = D (roster_id (G ! k)) (header ! j)" by blast
    next
      fix k j assume kj: "k < length G \<and> j < P"
        and a: "\<not> ?match (ev # evs) k j \<and> int k \<le> count s"
      then have "\<not> ?match evs k j \<and> int k \<le> count ?s1" using m same by auto
      with cells kj have "layer1 (fmat s') ! k ! j = layer1 (fmat ?s1) ! k ! j \<and>
            layer0 (fmat s') ! k ! j = layer0 (fmat ?s1) ! k ! j" by blast
      then show "layer1 (fmat s') ! k ! j = layer1 (fmat s) ! k ! j"
        and "layer0 (fmat s') ! k ! j = layer0 (fmat s) ! k ! j"
        unfolding same by simp_all
    qed
  next
    case False
    with dom obtain k0 where k0: "k0 < length G" "event_id ev = roster_id (G ! k0)" by blast
    from False Cons.prems(4) npi1 obtain j0 where
      j0: "npi (PheCode ev) = Some j0" "j0 < P" "header ! j0 = PheCode ev" by fastforce
    from noempty k0 have ne: "event_id ev \<noteq> []" by simp
    from Cons.prems(3) have ord0: "0 \<le> count s \<longrightarrow> last_id s \<le> event_id ev" by simp
    from Cons.prems(6) have dur0:
      "rt \<noteq> 0 \<and> rt \<noteq> 1 \<longrightarrow> duration ev = Some (D (event_id ev) (PheCode ev))" by simp
    from process_event_step [where dict = dict and npi = npi and pc = pc,
        OF Cons.prems(2) k0 j0(1,2) dur0 ord0 ne dict srt]
    obtain s1 where
      s1: "process_event G dict npi rt pc ev s = Inr s1" "loop_inv G P s1"
        "count s1 = int k0" "last_id s1 = event_id ev" "count s \<le> count s1"
        "layer1 (fmat s1) ! k0 ! j0 = MaxAgeAtICD ev"
        "rt \<noteq> 0 \<and> rt \<noteq> 1 \<longrightarrow> layer0 (fmat s1) ! k0 ! j0 = D (event_id ev) (PheCode ev)"
      and fr1: "\<forall>m j'. int m \<le> count s \<and> (m, j') \<noteq> (k0, j0) \<longrightarrow>
              layer1 (fmat s1) ! m ! j' = layer1 (fmat s) ! m ! j' \<and>
              layer0 (fmat s1) ! m ! j' = layer0 (fmat s) ! m ! j'"
      by blast
    have ord1: "\<forall>e\<in>set evs. 0 \<le> count s1 \<longrightarrow> last_id s1 \<le> event_id e"
      using le_tl s1(4) by simp
    from Cons.IH [OF sorted_tl s1(2) ord1 codes_tl ages_tl durs_tl] obtain s' where
      s': "snd (process_events G dict npi rt pc evs s1) = Inr s'" "loop_inv G P s'"
        "count s1 \<le> count s'"
      and cells: "\<forall>k j. k < length G \<and> j < P \<longrightarrow>
        (?match evs k j \<longrightarrow>
            layer1 (fmat s') ! k ! j = M (roster_id (G ! k)) (header ! j) \<and>
            (rt \<noteq> 0 \<and> rt \<noteq> 1 \<longrightarrow>
               layer0 (fmat s') ! k ! j = D (roster_id (G ! k)) (header ! j))) \<and>
        (\<not> ?match evs k j \<and> int k \<le> count s1 \<longrightarrow>
            layer1 (fmat s') ! k ! j = layer1 (fmat s1) ! k ! j \<and>
            layer0 (fmat s') ! k ! j = layer0 (fmat s1) ! k ! j)"
      by blast
    have run: "snd (process_events G dict npi rt pc (ev # evs) s) = Inr s'"
      using s1(1) s'(1) by simp
    have ev_match: "(event_id ev = roster_id (G ! k) \<and> PheCode ev = header ! j)
        = (k = k0 \<and> j = j0)" if "k < length G" "j < P" for k j
    proof
      assume a: "event_id ev = roster_id (G ! k) \<and> PheCode ev = header ! j"
      with k0 strict_sorted_ids_index(1) [OF srt that(1) k0(1)] have "k = k0" by simp
      moreover from a npi2 that(2) j0(1) have "j = j0" by auto
      ultimately show "k = k0 \<and> j = j0" by simp
    next
      assume "k = k0 \<and> j = j0"
      with k0 j0 show "event_id ev = roster_id (G ! k) \<and> PheCode ev = header ! j" by simp
    qed
    have val: "layer1 (fmat s') ! k ! j = M (roster_id (G ! k)) (header ! j) \<and>
            (rt \<noteq> 0 \<and> rt \<noteq> 1 \<longrightarrow>
               layer0 (fmat s') ! k ! j = D (roster_id (G ! k)) (header ! j))"
      if kj: "k < length G \<and> j < P" and mt: "?match (ev # evs) k j" for k j
    proof (cases "?match evs k j")
      case True
      with cells kj show ?thesis by blast
    next
      case nm: False
      with mt have "event_id ev = roster_id (G ! k) \<and> PheCode ev = header ! j" by auto
      with ev_match [of k j] kj have e: "k = k0" "j = j0" by blast+
      from nm cells kj s1(3) e have "layer1 (fmat s') ! k ! j = layer1 (fmat s1) ! k ! j \<and>
            layer0 (fmat s') ! k ! j = layer0 (fmat s1) ! k ! j" by simp
      with s1(6,7) e Cons.prems(5) k0(2) j0(3) show ?thesis by simp
    qed
    have frame: "layer1 (fmat s') ! k ! j = layer1 (fmat s) ! k ! j \<and>
            layer0 (fmat s') ! k ! j = layer0 (fmat s) ! k ! j"
      if kj: "k < length G \<and> j < P"
        and a: "\<not> ?match (ev # evs) k j \<and> int k \<le> count s" for k j
    proof -
      from a have nm: "\<not> ?match evs k j" and
        ne: "\<not> (event_id ev = roster_id (G ! k) \<and> PheCode ev = header ! j)" by auto
      from ne ev_match [of k j] kj have "(k, j) \<noteq> (k0, j0)" by blast
      with fr1 a have "layer1 (fmat s1) ! k ! j = layer1 (fmat s) ! k ! j \<and>
              layer0 (fmat s1) ! k ! j = layer0 (fmat s) ! k ! j" by blast
      moreover from a s1(5) have "int k \<le> count s1" by simp
      with nm cells kj have "layer1 (fmat s') ! k ! j = layer1 (fmat s1) ! k ! j \<and>
            layer0 (fmat s') ! k ! j = layer0 (fmat s1) ! k ! j" by blast
      ultimately show ?thesis by simp
    qed
    from run s'(2) s1(5) s'(3) val frame show ?thesis
      by (intro exI [of _ s']) (simp only: , auto)
  qed
qed

subsection \<open>The sorted group table, the dictionaries and the phenotype table\<close>

lemma set_insort_key_image: "f ` set (insort_key f x xs) = insert (f x) (f ` set xs)"
  by (simp add: set_insort_key)

lemma distinct_map_insort_key:
  "distinct (map f (insort_key f x xs)) = (f x \<notin> f ` set xs \<and> distinct (map f xs))"
  by (induction xs) (auto simp: set_insort_key)

lemma distinct_map_sort_key: "distinct (map f (sort_key f xs)) = distinct (map f xs)"
  by (induction xs) (simp_all add: distinct_map_insort_key)

lemma strict_sorted_roster:
  assumes "distinct (map roster_id g)"
  shows "sorted_wrt (<) (map roster_id (sort_key roster_id g))"
proof -
  have "sorted (map roster_id (sort_key roster_id g))" by (rule sorted_sort_key)
  moreover have "distinct (map roster_id (sort_key roster_id g))"
    using assms by (simp add: distinct_map_sort_key)
  ultimately show ?thesis by (simp add: strict_sorted_iff)
qed

lemma roster_dict_nth:
  assumes "distinct (map roster_id G)" and "m < length G"
  shows "map_of (map (\<lambda>subj. (roster_id subj, subj)) G) (roster_id (G ! m)) = Some (G ! m)"
proof -
  have "distinct (map fst (map (\<lambda>subj. (roster_id subj, subj)) G))"
    using assms(1) by (simp add: comp_def)
  moreover have "(roster_id (G ! m), G ! m) \<in> set (map (\<lambda>subj. (roster_id subj, subj)) G)"
    using assms(2) by auto
  ultimately show ?thesis by (rule map_of_is_SomeI)
qed

lemma roster_dict_dom:
  assumes "map_of (map (\<lambda>subj. (roster_id subj, subj)) G) i \<noteq> None"
  shows "\<exists>k<length G. i = roster_id (G ! k)"
proof -
  from assms have "i \<in> roster_id ` set G" by (simp only: dom_roster_dict)
  then show ?thesis by (auto simp: in_set_conv_nth)
qed

lemma make_np_index_Some:
  assumes "distinct header"
  shows "make_np_index header c = Some j \<longleftrightarrow> j < length header \<and> header ! j = c"
proof -
  let ?al = "rev (zip header [0..<length header])"
  have d: "distinct (map fst ?al)"
    using assms by (simp add: rev_map [symmetric])
  have "make_np_index header c = Some j \<longleftrightarrow> (c, j) \<in> set ?al"
    unfolding make_np_index_def using d by simp
  also have "\<dots> \<longleftrightarrow> j < length header \<and> header ! j = c"
    by (auto simp: set_zip)
  finally show ?thesis .
qed

lemma get_icd_codes_event:
  assumes "ev \<in> set (get_icd_codes rt raw)"
  shows "\<exists>r\<in>set raw. event_id ev = event_id r \<and> PheCode ev = PheCode r"
    and "MaxAgeAtICD ev = Max (set (group_ages raw (event_id ev) (PheCode ev)))"
    and "rt = 2 \<Longrightarrow> duration ev = Some (Max (set (group_ages raw (event_id ev) (PheCode ev)))
            - Min (set (group_ages raw (event_id ev) (PheCode ev))) + 1)"
  using assms by (auto simp: get_icd_codes_def Let_def)

lemma get_icd_codes_row:
  assumes "r \<in> set raw"
  shows "\<exists>ev\<in>set (get_icd_codes rt raw). event_id ev = event_id r \<and> PheCode ev = PheCode r"
  using assms by (force simp: get_icd_codes_def Let_def)

lemma group_ages_nonempty:
  "group_ages raw i c \<noteq> [] \<longleftrightarrow> (\<exists>r\<in>set raw. event_id r = i \<and> PheCode r = c)"
  by (auto simp: group_ages_def filter_empty_conv)

subsection \<open>Claims about the feature matrix\<close>

text \<open>
  Claim C7. The events whose id is not in the group table have no effect on the result
  of the build: the matrix, or the exception that leaves the build, is the one of the
  build without these events, so no layer holds anything of them and they never make
  the build fail. The ids printed are pairwise distinct and are ids of such events; when
  the build returns, every such id has been printed (once).
\<close>

theorem unknown_ids_excluded_once:
  "snd (generate_feature_matrix tables genotypes_df phenotype reg_type code_type pheno_cov)
     = snd (generate_feature_matrix tables genotypes_df
              (filter (\<lambda>ev. event_id ev \<in> roster_id ` set genotypes_df) phenotype)
              reg_type code_type pheno_cov) \<and>
   distinct (fst (generate_feature_matrix tables genotypes_df phenotype reg_type code_type
                    pheno_cov)) \<and>
   set (fst (generate_feature_matrix tables genotypes_df phenotype reg_type code_type pheno_cov))
     \<subseteq> {event_id ev |ev. ev \<in> set phenotype \<and> event_id ev \<notin> roster_id ` set genotypes_df} \<and>
   ((\<exists>r. snd (generate_feature_matrix tables genotypes_df phenotype reg_type code_type
                 pheno_cov) = Inr r) \<longrightarrow>
      set (fst (generate_feature_matrix tables genotypes_df phenotype reg_type code_type
                  pheno_cov))
        = {event_id ev |ev. ev \<in> set phenotype \<and> event_id ev \<notin> roster_id ` set genotypes_df})"
proof (cases "distinct (map roster_id (sort_key roster_id genotypes_df))")
  case False
  then show ?thesis by (simp add: generate_feature_matrix_def Let_def)
next
  case True
  let ?G = "sort_key roster_id genotypes_df"
  let ?dict = "map_of (map (\<lambda>subj. (roster_id subj, subj)) ?G)"
  let ?header = "phecode_header tables code_type"
  let ?npi = "make_np_index ?header"
  let ?z = "replicate (length ?G) (replicate (length ?header) (0::real))"
  let ?s0 = "\<lparr>fmat = \<lparr>layer0 = ?z, layer1 = ?z, layer2 = ?z\<rparr>, exclude = [], last_id = [],
              count = - 1\<rparr>"
  let ?P = "\<lambda>ev. event_id ev \<in> roster_id ` set genotypes_df"
  let ?run = "\<lambda>evs. process_events ?G ?dict ?npi reg_type pheno_cov evs ?s0"
  have present: "(?dict (event_id ev) \<noteq> None) = ?P ev" for ev
    by (simp only: dom_roster_dict) simp
  have g: "generate_feature_matrix tables genotypes_df evs reg_type code_type pheno_cov
      = (fst (?run (sort_key event_id evs)),
         map_sum id (\<lambda>s. (fmat s, ?header)) (snd (?run (sort_key event_id evs))))" for evs
    using True
    by (cases "?run (sort_key event_id evs)"; cases "snd (?run (sort_key event_id evs))")
       (simp_all add: generate_feature_matrix_def Let_def)
  have fs: "sort_key event_id (filter ?P phenotype) = filter ?P (sort_key event_id phenotype)"
    by (simp only: filter_sort)
  have "map_sum id fmat (snd (process_events ?G ?dict ?npi reg_type pheno_cov
            (sort_key event_id phenotype) (?s0\<lparr>exclude := []\<rparr>)))
      = map_sum id fmat (snd (process_events ?G ?dict ?npi reg_type pheno_cov
            (filter (\<lambda>ev. ?dict (event_id ev) \<noteq> None) (sort_key event_id phenotype)) ?s0))"
    by (rule process_events_filter)
  then have m: "map_sum id fmat (snd (?run (sort_key event_id phenotype)))
      = map_sum id fmat (snd (?run (sort_key event_id (filter ?P phenotype))))"
    unfolding fs present by simp
  have same: "map_sum id (\<lambda>s. (fmat s, ?header)) (snd (?run (sort_key event_id phenotype)))
      = map_sum id (\<lambda>s. (fmat s, ?header)) (snd (?run (sort_key event_id (filter ?P phenotype))))"
  proof -
    have "map_sum id (\<lambda>s. (fmat s, ?header)) r = map_sum id (\<lambda>m. (m, ?header)) (map_sum id fmat r)"
      for r :: "py_error + loop_state" by (cases r) simp_all
    with m show ?thesis by simp
  qed
  have absent: "(?dict (event_id ev) = None) = (\<not> ?P ev)" for ev
    using present [of ev] by blast
  have A: "set (exclude ?s0) \<union> {event_id ev |ev. ev \<in> set (sort_key event_id phenotype) \<and>
             ?dict (event_id ev) = None}
      = {event_id ev |ev. ev \<in> set phenotype \<and> \<not> ?P ev}"
    unfolding absent by simp
  have d0: "distinct (exclude ?s0)" by simp
  note l = process_events_log [OF d0, of ?G ?dict ?npi reg_type pheno_cov
      "sort_key event_id phenotype", unfolded A]
  from l have log: "distinct (fst (?run (sort_key event_id phenotype)))"
    "set (fst (?run (sort_key event_id phenotype)))
       \<subseteq> {event_id ev |ev. ev \<in> set phenotype \<and> \<not> ?P ev}"
    "(\<exists>t. snd (?run (sort_key event_id phenotype)) = Inr t) \<longrightarrow>
       set (fst (?run (sort_key event_id phenotype)))
         = {event_id ev |ev. ev \<in> set phenotype \<and> \<not> ?P ev}"
    by blast+
  have ex: "(\<exists>r. map_sum id (\<lambda>s. (fmat s, ?header)) x = Inr r) = (\<exists>t. x = Inr t)"
    for x :: "py_error + loop_state" by (cases x) simp_all
  show ?thesis unfolding g fst_conv snd_conv ex using same log by blast
qed

theorem unknown_ids_excluded_once_witness:
  "generate_feature_matrix
     \<lparr>phewas_codes = [(''250'', ''Diabetes'')], prowas_codes = [], icd9_codes = [], icd10_codes = []\<rparr>
     [\<lparr>roster_id = ''a'', MaxAgeAtVisit = 50\<rparr>]
     [\<lparr>event_id = ''z'', PheCode = ''250'', AgeAtICD = 41, MaxAgeAtICD = 41, duration = None\<rparr>,
      \<lparr>event_id = ''a'', PheCode = ''250'', AgeAtICD = 40, MaxAgeAtICD = 40, duration = None\<rparr>,
      \<lparr>event_id = ''z'', PheCode = ''999'', AgeAtICD = 30, MaxAgeAtICD = 30, duration = None\<rparr>]
     1 ''ICD'' None
   = ([''z''], Inr (\<lparr>layer0 = [[1]], layer1 = [[40]], layer2 = [[0]]\<rparr>, [''250''])) \<and>
   snd (generate_feature_matrix
     \<lparr>phewas_codes = [(''250'', ''Diabetes'')], prowas_codes = [], icd9_codes = [], icd10_codes = []\<rparr>
     [\<lparr>roster_id = ''a'', MaxAgeAtVisit = 50\<rparr>]
     (filter (\<lambda>ev. event_id ev \<in> roster_id ` set [\<lparr>roster_id = ''a'', MaxAgeAtVisit = 50\<rparr>])
       [\<lparr>event_id = ''z'', PheCode = ''250'', AgeAtICD = 41, MaxAgeAtICD = 41, duration = None\<rparr>,
        \<lparr>event_id = ''a'', PheCode = ''250'', AgeAtICD = 40, MaxAgeAtICD = 40, duration = None\<rparr>,
        \<lparr>event_id = ''z'', PheCode = ''999'', AgeAtICD = 30, MaxAgeAtICD = 30, duration = None\<rparr>])
     1 ''ICD'' None)
   = Inr (\<lparr>layer0 = [[1]], layer1 = [[40]], layer2 = [[0]]\<rparr>, [''250''])"
proof -
  let ?T = "\<lparr>phewas_codes = [(''250'', ''Diabetes'')], prowas_codes = [], icd9_codes = [],
            icd10_codes = []\<rparr>"
  let ?G = "[\<lparr>roster_id = ''a'', MaxAgeAtVisit = 50\<rparr>]"
  let ?E = "[\<lparr>event_id = ''z'', PheCode = ''250'', AgeAtICD = 41, MaxAgeAtICD = 41, duration = None\<rparr>,
      \<lparr>event_id = ''a'', PheCode = ''250'', AgeAtICD = 40, MaxAgeAtICD = 40, duration = None\<rparr>,
      \<lparr>event_id = ''z'', PheCode = ''999'', AgeAtICD = 30, MaxAgeAtICD = 30, duration = None\<rparr>]"
  have e: "generate_feature_matrix ?T ?G ?E 1 ''ICD'' None
     = ([''z''], Inr (\<lparr>layer0 = [[1]], layer1 = [[40]], layer2 = [[0]]\<rparr>, [''250'']))"
    by code_simp
  from unknown_ids_excluded_once [of ?T ?G ?E 1 "''ICD''" None]
  have "snd (generate_feature_matrix ?T ?G ?E 1 ''ICD'' None)
     = snd (generate_feature_matrix ?T ?G
              (filter (\<lambda>ev. event_id ev \<in> roster_id ` set ?G) ?E) 1 ''ICD'' None)"
    by (rule conjunct1)
  with e show ?thesis by simp
qed

text \<open>
  Claim C2. The claim reads: every subject without events has its row of layer 1 filled
  with its own \<open>MaxAgeAtVisit\<close>, also when its id sorts after the last id that has
  events. The rows of subjects without events are filled by the \<^verbatim>\<open>while\<close> loop that
  runs when a later subject with events is met; nothing fills the rows after the last
  such subject. Below, subject \<open>b\<close> (between two subjects with events) gets its row
  filled with 60, and subject \<open>d\<close> (after the last one) keeps a row of zeros in
  layer 1 instead of 80.
\<close>
theorem trailing_subject_row_left_zero:
  "generate_feature_matrix
     \<lparr>phewas_codes = [(''250'', ''Diabetes''), (''008'', ''Infection'')], prowas_codes = [],
      icd9_codes = [], icd10_codes = []\<rparr>
     [\<lparr>roster_id = ''a'', MaxAgeAtVisit = 50\<rparr>, \<lparr>roster_id = ''b'', MaxAgeAtVisit = 60\<rparr>,
      \<lparr>roster_id = ''c'', MaxAgeAtVisit = 70\<rparr>, \<lparr>roster_id = ''d'', MaxAgeAtVisit = 80\<rparr>]
     (get_icd_codes 0
        [\<lparr>event_id = ''a'', PheCode = ''250'', AgeAtICD = 40\<rparr>,
         \<lparr>event_id = ''c'', PheCode = ''250'', AgeAtICD = 45\<rparr>])
     0 ''ICD'' None
   = ([], Inr (\<lparr>layer0 = [[0, 1], [0, 0], [0, 1], [0, 0]],
                 layer1 = [[50, 40], [60, 60], [70, 45], [0, 0]],
                 layer2 = [[0, 0], [0, 0], [0, 0], [0, 0]]\<rparr>,
               [''008'', ''250'']))"
  by code_simp

text \<open>
  Claim C5. The group table has pairwise distinct, non-empty ids, the header has no code
  twice, every event of a subject of the group table has its code in the header, and
  \<open>reg_type\<close> is 0, 1 or 2. Then the build returns, and for every subject (row \<open>k\<close> of
  the sorted group table) and every phenotype (column \<open>j\<close> of the header) with at least
  one event, layer 1 holds the maximum age over the events of the pair; for
  \<open>reg_type = 2\<close>, layer 0 holds that maximum minus the minimum age plus 1, whatever the
  number of events of the pair.
\<close>
theorem feature_matrix_max_age_and_duration:
  assumes ids: "distinct (map roster_id genotypes_df)"
    and noempty: "[] \<notin> roster_id ` set genotypes_df"
    and hdr: "distinct (phecode_header tables code_type)"
    and known: "\<forall>r\<in>set phenotypes. event_id r \<in> roster_id ` set genotypes_df \<longrightarrow>
                  PheCode r \<in> set (phecode_header tables code_type)"
    and rt: "reg_type = 0 \<or> reg_type = 1 \<or> reg_type = 2"
  shows "\<exists>out m.
     generate_feature_matrix tables genotypes_df (get_icd_codes reg_type phenotypes) reg_type
         code_type pheno_cov
       = (out, Inr (m, phecode_header tables code_type)) \<and>
     (\<forall>k<length genotypes_df. \<forall>j<length (phecode_header tables code_type).
        group_ages phenotypes (roster_id (sort_key roster_id genotypes_df ! k))
            (phecode_header tables code_type ! j) \<noteq> [] \<longrightarrow>
          layer1 m ! k ! j
            = Max (set (group_ages phenotypes (roster_id (sort_key roster_id genotypes_df ! k))
                          (phecode_header tables code_type ! j))) \<and>
          (reg_type = 2 \<longrightarrow>
             layer0 m ! k ! j
               = Max (set (group_ages phenotypes
                             (roster_id (sort_key roster_id genotypes_df ! k))
                             (phecode_header tables code_type ! j)))
                 - Min (set (group_ages phenotypes
                               (roster_id (sort_key roster_id genotypes_df ! k))
                               (phecode_header tables code_type ! j))) + 1))"
proof -
  let ?G = "sort_key roster_id genotypes_df"
  let ?dict = "map_of (map (\<lambda>subj. (roster_id subj, subj)) ?G)"
  let ?header = "phecode_header tables code_type"
  let ?P = "length ?header"
  let ?npi = "make_np_index ?header"
  let ?z = "replicate (length ?G) (replicate ?P (0::real))"
  let ?s0 = "\<lparr>fmat = \<lparr>layer0 = ?z, layer1 = ?z, layer2 = ?z\<rparr>, exclude = [], last_id = [],
              count = - 1\<rparr>"
  let ?evs = "sort_key event_id (get_icd_codes reg_type phenotypes)"
  let ?M = "\<lambda>i c. Max (set (group_ages phenotypes i c))"
  let ?D = "\<lambda>i c. Max (set (group_ages phenotypes i c)) - Min (set (group_ages phenotypes i c)) + 1"
  have dG: "distinct (map roster_id ?G)" using ids by (simp add: distinct_map_sort_key)
  have dict: "\<forall>m<length ?G. ?dict (roster_id (?G ! m)) = Some (?G ! m)"
    using roster_dict_nth [OF dG] by blast
  have dom: "\<forall>i. ?dict i \<noteq> None \<longrightarrow> (\<exists>k<length ?G. i = roster_id (?G ! k))"
    using roster_dict_dom by blast
  have srt: "sorted_wrt (<) (map roster_id ?G)" using ids by (rule strict_sorted_roster)
  have ne: "\<forall>k<length ?G. roster_id (?G ! k) \<noteq> []"
  proof (intro allI impI)
    fix k assume "k < length ?G"
    then have "roster_id (?G ! k) \<in> roster_id ` set ?G" by (intro imageI nth_mem)
    with noempty show "roster_id (?G ! k) \<noteq> []" by auto
  qed
  have npi1: "\<forall>c j. ?npi c = Some j \<longrightarrow> j < ?P \<and> ?header ! j = c"
    using make_np_index_Some [OF hdr] by blast
  have npi2: "\<forall>j<?P. ?npi (?header ! j) = Some j"
    using make_np_index_Some [OF hdr] by blast
  have evsorted: "sorted (map event_id ?evs)" by (rule sorted_sort_key)
  have inv: "loop_inv ?G ?P ?s0" by (simp add: loop_inv_def matrix_shape_def)
  have ord: "\<forall>ev\<in>set ?evs. 0 \<le> count ?s0 \<longrightarrow> last_id ?s0 \<le> event_id ev" by simp
  have codes: "\<forall>ev\<in>set ?evs. ?dict (event_id ev) \<noteq> None \<longrightarrow> ?npi (PheCode ev) \<noteq> None"
  proof (intro ballI impI)
    fix ev assume ev: "ev \<in> set ?evs" and d: "?dict (event_id ev) \<noteq> None"
    from ev have "ev \<in> set (get_icd_codes reg_type phenotypes)" by simp
    from get_icd_codes_event(1) [OF this] obtain r where
      r: "r \<in> set phenotypes" "event_id ev = event_id r" "PheCode ev = PheCode r" by blast
    from d have "event_id ev \<in> roster_id ` set ?G" by (simp only: dom_roster_dict)
    with r known have "PheCode ev \<in> set ?header" by simp
    then obtain j where "j < ?P" "?header ! j = PheCode ev" by (auto simp: in_set_conv_nth)
    with npi2 show "?npi (PheCode ev) \<noteq> None" by auto
  qed
  have ages: "\<forall>ev\<in>set ?evs. MaxAgeAtICD ev = ?M (event_id ev) (PheCode ev)"
    using get_icd_codes_event(2) by simp
  have durs: "reg_type \<noteq> 0 \<and> reg_type \<noteq> 1 \<longrightarrow>
      (\<forall>ev\<in>set ?evs. duration ev = Some (?D (event_id ev) (PheCode ev)))"
    using get_icd_codes_event(3) rt by auto
  from process_events_cells [where dict = "?dict" and npi = "?npi" and pc = pheno_cov
      and M = "?M" and D = "?D" and header = "?header",
      OF dict dom srt ne npi1 npi2 evsorted inv ord codes ages durs]
  obtain s' where run: "snd (process_events ?G ?dict ?npi reg_type pheno_cov ?evs ?s0) = Inr s'"
    and cells: "\<forall>k j. k < length ?G \<and> j < ?P \<longrightarrow>
        ((\<exists>ev\<in>set ?evs. event_id ev = roster_id (?G ! k) \<and> PheCode ev = ?header ! j) \<longrightarrow>
            layer1 (fmat s') ! k ! j = ?M (roster_id (?G ! k)) (?header ! j) \<and>
            (reg_type \<noteq> 0 \<and> reg_type \<noteq> 1 \<longrightarrow>
               layer0 (fmat s') ! k ! j = ?D (roster_id (?G ! k)) (?header ! j)))"
    by blast
  obtain out where full: "process_events ?G ?dict ?npi reg_type pheno_cov ?evs ?s0 = (out, Inr s')"
    using run by (cases "process_events ?G ?dict ?npi reg_type pheno_cov ?evs ?s0") simp
  have g: "generate_feature_matrix tables genotypes_df (get_icd_codes reg_type phenotypes)
             reg_type code_type pheno_cov = (out, Inr (fmat s', ?header))"
    using dG full by (simp add: generate_feature_matrix_def Let_def)
  have cellp: "layer1 (fmat s') ! k ! j = ?M (roster_id (?G ! k)) (?header ! j) \<and>
          (reg_type = 2 \<longrightarrow> layer0 (fmat s') ! k ! j = ?D (roster_id (?G ! k)) (?header ! j))"
    if k: "k < length genotypes_df" and j: "j < ?P"
      and grp: "group_ages phenotypes (roster_id (?G ! k)) (?header ! j) \<noteq> []" for k j
  proof -
    from grp obtain r where r: "r \<in> set phenotypes" "event_id r = roster_id (?G ! k)"
      "PheCode r = ?header ! j" by (auto simp: group_ages_nonempty)
    from get_icd_codes_row [OF r(1), of reg_type] r(2,3)
    have m: "\<exists>ev\<in>set ?evs. event_id ev = roster_id (?G ! k) \<and> PheCode ev = ?header ! j"
      by simp
    from k j have kj: "k < length ?G \<and> j < ?P" by simp
    from cells kj m have "layer1 (fmat s') ! k ! j = ?M (roster_id (?G ! k)) (?header ! j) \<and>
            (reg_type \<noteq> 0 \<and> reg_type \<noteq> 1 \<longrightarrow>
               layer0 (fmat s') ! k ! j = ?D (roster_id (?G ! k)) (?header ! j))" by blast
    then show ?thesis by auto
  qed
  from g cellp show ?thesis by (intro exI [of _ out] exI [of _ "fmat s'"]) blast
qed

theorem feature_matrix_max_age_and_duration_witness:
  "generate_feature_matrix
     \<lparr>phewas_codes = [(''250'', ''Diabetes''), (''008'', ''Infection'')], prowas_codes = [],
      icd9_codes = [], icd10_codes = []\<rparr>
     [\<lparr>roster_id = ''c'', MaxAgeAtVisit = 70\<rparr>, \<lparr>roster_id = ''a'', MaxAgeAtVisit = 50\<rparr>,
      \<lparr>roster_id = ''b'', MaxAgeAtVisit = 60\<rparr>]
     (get_icd_codes 2
        [\<lparr>event_id = ''b'', PheCode = ''250'', AgeAtICD = 40\<rparr>,
         \<lparr>event_id = ''z'', PheCode = ''250'', AgeAtICD = 41\<rparr>,
         \<lparr>event_id = ''b'', PheCode = ''250'', AgeAtICD = 45\<rparr>,
         \<lparr>event_id = ''b'', PheCode = ''008'', AgeAtICD = 30\<rparr>,
         \<lparr>event_id = ''c'', PheCode = ''250'', AgeAtICD = 55\<rparr>,
         \<lparr>event_id = ''b'', PheCode = ''250'', AgeAtICD = 42\<rparr>])
     2 ''ICD'' None
   = ([''z''],
      Inr (\<lparr>layer0 = [[0, 0], [1, 6], [0, 1]],
            layer1 = [[50, 50], [30, 45], [70, 55]],
            layer2 = [[0, 0], [0, 0], [0, 0]]\<rparr>,
           [''008'', ''250''])) \<and>
   group_ages
        [\<lparr>event_id = ''b'', PheCode = ''250'', AgeAtICD = 40\<rparr>,
         \<lparr>event_id = ''z'', PheCode = ''250'', AgeAtICD = 41\<rparr>,
         \<lparr>event_id = ''b'', PheCode = ''250'', AgeAtICD = 45\<rparr>,
         \<lparr>event_id = ''b'', PheCode = ''008'', AgeAtICD = 30\<rparr>,
         \<lparr>event_id = ''c'', PheCode = ''250'', AgeAtICD = 55\<rparr>,
         \<lparr>event_id = ''b'', PheCode = ''250'', AgeAtICD = 42\<rparr>] ''b'' ''250'' = [40, 45, 42] \<and>
   layer1 \<lparr>layer0 = [[0, 0], [1, 6], [0, 1]],
           layer1 = [[50, 50], [30, 45], [70, 55]],
           layer2 = [[0, 0], [0, 0], [0, 0]]\<rparr> ! 1 ! 1 = Max (set [40, 45, 42]) \<and>
   layer0 \<lparr>layer0 = [[0, 0], [1, 6], [0, 1]],
           layer1 = [[50, 50], [30, 45], [70, 55]],
           layer2 = [[0, 0], [0, 0], [0, 0]]\<rparr> ! 1 ! 1
     = Max (set [40, 45, 42]) - Min (set [40, 45, 42]) + 1"
proof -
  let ?T = "\<lparr>phewas_codes = [(''250'', ''Diabetes''), (''008'', ''Infection'')], prowas_codes = [],
      icd9_codes = [], icd10_codes = []\<rparr>"
  let ?G = "[\<lparr>roster_id = ''c'', MaxAgeAtVisit = 70\<rparr>, \<lparr>roster_id = ''a'', MaxAgeAtVisit = 50\<rparr>,
      \<lparr>roster_id = ''b'', MaxAgeAtVisit = 60\<rparr>]"
  let ?R = "[\<lparr>event_id = ''b'', PheCode = ''250'', AgeAtICD = 40\<rparr>,
         \<lparr>event_id = ''z'', PheCode = ''250'', AgeAtICD = 41\<rparr>,
         \<lparr>event_id = ''b'', PheCode = ''250'', AgeAtICD = 45\<rparr>,
         \<lparr>event_id = ''b'', PheCode = ''008'', AgeAtICD = 30\<rparr>,
         \<lparr>event_id = ''c'', PheCode = ''250'', AgeAtICD = 55\<rparr>,
         \<lparr>event_id = ''b'', PheCode = ''250'', AgeAtICD = 42\<rparr>]"
  let ?m = "\<lparr>layer0 = [[0, 0], [1, 6], [0, 1::real]],
            layer1 = [[50, 50], [30, 45], [70, 55::real]],
            layer2 = [[0, 0], [0, 0], [0, 0::real]]\<rparr>"
  have h1: "distinct (map roster_id ?G)" by simp
  have h2: "[] \<notin> roster_id ` set ?G" by simp
  have hd: "phecode_header ?T ''ICD'' = [''008'', ''250'']" by code_simp
  have h3: "distinct (phecode_header ?T ''ICD'')" unfolding hd by simp
  have h4: "\<forall>r\<in>set ?R. event_id r \<in> roster_id ` set ?G \<longrightarrow>
                PheCode r \<in> set (phecode_header ?T ''ICD'')" unfolding hd by simp
  have h5: "(2::int) = 0 \<or> (2::int) = 1 \<or> (2::int) = 2" by simp
  have e: "generate_feature_matrix ?T ?G (get_icd_codes 2 ?R) 2 ''ICD'' None
      = ([''z''], Inr (?m, [''008'', ''250'']))"
    by code_simp
  have sg: "sort_key roster_id ?G ! 1 = \<lparr>roster_id = ''b'', MaxAgeAtVisit = 60\<rparr>" by code_simp
  have ga: "group_ages ?R ''b'' ''250'' = [40, 45, 42]" by (simp add: group_ages_def)
  from feature_matrix_max_age_and_duration [OF h1 h2 h3 h4 h5, of None] obtain out m where
    g: "generate_feature_matrix ?T ?G (get_icd_codes 2 ?R) 2 ''ICD'' None
          = (out, Inr (m, phecode_header ?T ''ICD''))"
    and c: "\<forall>k<length ?G. \<forall>j<length (phecode_header ?T ''ICD'').
        group_ages ?R (roster_id (sort_key roster_id ?G ! k)) (phecode_header ?T ''ICD'' ! j) \<noteq> [] \<longrightarrow>
          layer1 m ! k ! j
            = Max (set (group_ages ?R (roster_id (sort_key roster_id ?G ! k))
                          (phecode_header ?T ''ICD'' ! j))) \<and>
          ((2::int) = 2 \<longrightarrow>
             layer0 m ! k ! j
               = Max (set (group_ages ?R (roster_id (sort_key roster_id ?G ! k))
                             (phecode_header ?T ''ICD'' ! j)))
                 - Min (set (group_ages ?R (roster_id (sort_key roster_id ?G ! k))
                               (phecode_header ?T ''ICD'' ! j))) + 1)"
    by blast
  from g e have m: "m = ?m" by simp
  have k1: "(1::nat) < length ?G" "(1::nat) < length (phecode_header ?T ''ICD'')"
    unfolding hd by simp_all
  have grp: "group_ages ?R (roster_id (sort_key roster_id ?G ! 1)) (phecode_header ?T ''ICD'' ! 1)
      = [40, 45, 42]"
    unfolding sg hd using ga by simp
  from c k1 grp have "layer1 m ! 1 ! 1 = Max (set [40, 45, 42]) \<and>
     layer0 m ! 1 ! 1 = Max (set [40, 45, 42]) - Min (set [40, 45, 42]) + 1"
    by (metis list.distinct(1))
  with e ga show ?thesis unfolding m by blast
qed

subsection \<open>Claims about the threshold calculators\<close>

text \<open>
  Claim C1. The claim reads: the returned threshold is the p-value at the last rank whose
  sorted p-value is at most its critical value. The functions return the p-value at the
  rank where the loop is left, which after a \<^verbatim>\<open>break\<close> is the first p-value that
  exceeds its critical value. For the p-values 0.001 and 0.5 at level 0.05 the last rank
  that passes holds 0.001, and both functions return 0.5.
\<close>
theorem stepup_returns_first_failing_value:
  "get_fdr_thresh [Fin 0.001, Fin 0.5] 0.05 = Inr 0.5 \<and>
   spec_stepup_thresh (fdr_crit 0.05 2) (finite_sorted [Fin 0.001, Fin 0.5]) = Some 0.001 \<and>
   get_bhy_thresh [Fin 0.001, Fin 0.5] 0.05 = Inr 0.5 \<and>
   spec_stepup_thresh (bhy_crit 0.05 2) (finite_sorted [Fin 0.001, Fin 0.5]) = Some 0.001"
proof -
  have fs: "finite_sorted [Fin 0.001, Fin 0.5] = [0.001, 0.5]"
    by (simp add: finite_sorted_def np_sort_def less_eq_prod_def)
  have up: "[0..<2] = [0, Suc 0]" by (simp add: upt_rec)
  have a: "get_fdr_thresh [Fin 0.001, Fin 0.5] 0.05 = Inr 0.5"
    unfolding get_fdr_thresh_def fs Let_def
    by (simp add: stepup_thresh_def stepup_scan.simps fdr_crit_def)
  have b: "get_bhy_thresh [Fin 0.001, Fin 0.5] 0.05 = Inr 0.5"
    unfolding get_bhy_thresh_def fs Let_def
    by (simp add: stepup_thresh_def stepup_scan.simps bhy_crit_def)
  have c: "spec_stepup_thresh (fdr_crit 0.05 2) [0.001, 0.5] = Some 0.001"
    by (simp add: spec_stepup_thresh_def up fdr_crit_def)
  have d: "spec_stepup_thresh (bhy_crit 0.05 2) [0.001, 0.5] = Some 0.001"
    by (simp add: spec_stepup_thresh_def up bhy_crit_def)
  from a b c d show ?thesis unfolding fs by blast
qed

text \<open>
  Claim C6. Whenever the vector has a finite entry, \<^verbatim>\<open>get_bon_thresh\<close> returns the
  level divided by the number of finite entries; for the p-values 0.01, 0.02, nan, 0.5
  and the level 0.05 it returns 0.05 / 3.
\<close>
theorem get_bon_thresh_divides_by_finite_count:
  "(filter isfinite p_values \<noteq> [] \<longrightarrow>
      get_bon_thresh p_values alpha
        = Inr (Fin (alpha / real (length (filter isfinite p_values))))) \<and>
   get_bon_thresh [Fin 0.01, Fin 0.02, NaN, Fin 0.5] 0.05 = Inr (Fin (0.05 / 3))"
proof (intro conjI impI)
  assume "filter isfinite p_values \<noteq> []"
  then have "p_values \<noteq> []" "length (filter isfinite p_values) \<noteq> 0" by auto
  then show "get_bon_thresh p_values alpha
        = Inr (Fin (alpha / real (length (filter isfinite p_values))))"
    by (simp add: get_bon_thresh_def Let_def)
next
  show "get_bon_thresh [Fin 0.01, Fin 0.02, NaN, Fin 0.5] 0.05 = Inr (Fin (0.05 / 3))"
    by (simp add: get_bon_thresh_def)
qed

theorem get_bon_thresh_divides_by_finite_count_witness:
  "filter isfinite [Fin 0.04, PInf, Fin 0.2] \<noteq> [] \<and>
   get_bon_thresh [Fin 0.04, PInf, Fin 0.2] 0.05 = Inr (Fin 0.025)"
  using get_bon_thresh_divides_by_finite_count [of "[Fin 0.04, PInf, Fin 0.2]" "0.05"]
  by simp

lemma stepup_thresh_in_set:
  "sn \<noteq> [] \<Longrightarrow> \<exists>r. stepup_thresh c sn = Inr r \<and> r \<in> set sn"
  using stepup_scan_less [of 0 sn c] by (simp add: stepup_thresh_def)

lemma stepup_thresh_all_pass:
  assumes "sn \<noteq> []" "sorted sn" "\<forall>i<length sn. sn ! i \<le> c i"
  shows "stepup_thresh c sn = Inr (Max (set sn))"
proof -
  from assms have "stepup_scan c sn 0 = length sn - 1"
    by (intro stepup_scan_all_pass) auto
  with assms sorted_last_Max [of sn] show ?thesis by (simp add: stepup_thresh_def)
qed

lemma finite_sorted_nonempty: "(finite_sorted ps \<noteq> []) = (\<exists>p\<in>set ps. isfinite p)"
proof -
  have "(finite_sorted ps \<noteq> []) = (set (finite_sorted ps) \<noteq> {})" by simp
  also have "\<dots> = (\<exists>r. Fin r \<in> set ps)" by (auto simp: set_finite_sorted)
  also have "\<dots> = (\<exists>p\<in>set ps. isfinite p)"
    by (metis isfinite.simps(1) isfinite_Fin_conv)
  finally show ?thesis .
qed

text \<open>
  Claim C10. For a vector with a finite entry, \<^verbatim>\<open>get_fdr_thresh\<close> and
  \<^verbatim>\<open>get_bhy_thresh\<close> return an element of the vector; when every sorted finite p-value
  is at most its critical value they return the largest finite p-value; for a vector
  with no finite entry they raise (the loop variable is unbound at the \<^verbatim>\<open>return\<close>).
\<close>

theorem stepup_thresh_is_input_element:
  "((\<exists>p\<in>set ps. isfinite p) \<longrightarrow>
      (\<exists>r. get_fdr_thresh ps alpha = Inr r \<and> Fin r \<in> set ps) \<and>
      (\<exists>r. get_bhy_thresh ps alpha = Inr r \<and> Fin r \<in> set ps) \<and>
      ((\<forall>i<length (finite_sorted ps).
          finite_sorted ps ! i \<le> fdr_crit alpha (length (finite_sorted ps)) i) \<longrightarrow>
        get_fdr_thresh ps alpha = Inr (Max {r. Fin r \<in> set ps})) \<and>
      ((\<forall>i<length (finite_sorted ps).
          finite_sorted ps ! i \<le> bhy_crit alpha (length (finite_sorted ps)) i) \<longrightarrow>
        get_bhy_thresh ps alpha = Inr (Max {r. Fin r \<in> set ps}))) \<and>
   ((\<forall>p\<in>set ps. \<not> isfinite p) \<longrightarrow>
      get_fdr_thresh ps alpha = Inl UnboundLocalError \<and>
      get_bhy_thresh ps alpha = Inl UnboundLocalError)"
proof (intro conjI impI)
  assume "\<exists>p\<in>set ps. isfinite p"
  then have ne: "finite_sorted ps \<noteq> []" by (simp add: finite_sorted_nonempty)
  from stepup_thresh_in_set [OF ne]
  show "\<exists>r. get_fdr_thresh ps alpha = Inr r \<and> Fin r \<in> set ps"
    by (simp add: get_fdr_thresh_def Let_def set_finite_sorted)
  from stepup_thresh_in_set [OF ne]
  show "\<exists>r. get_bhy_thresh ps alpha = Inr r \<and> Fin r \<in> set ps"
    by (simp add: get_bhy_thresh_def Let_def set_finite_sorted)
  {
    assume "\<forall>i<length (finite_sorted ps).
          finite_sorted ps ! i \<le> fdr_crit alpha (length (finite_sorted ps)) i"
    from stepup_thresh_all_pass [OF ne sorted_finite_sorted this]
    show "get_fdr_thresh ps alpha = Inr (Max {r. Fin r \<in> set ps})"
      by (simp add: get_fdr_thresh_def Let_def set_finite_sorted)
  }
  {
    assume "\<forall>i<length (finite_sorted ps).
          finite_sorted ps ! i \<le> bhy_crit alpha (length (finite_sorted ps)) i"
    from stepup_thresh_all_pass [OF ne sorted_finite_sorted this]
    show "get_bhy_thresh ps alpha = Inr (Max {r. Fin r \<in> set ps})"
      by (simp add: get_bhy_thresh_def Let_def set_finite_sorted)
  }
next
  assume "\<forall>p\<in>set ps. \<not> isfinite p"
  then have e: "finite_sorted ps = []" using finite_sorted_nonempty [of ps] by blast
  show "get_fdr_thresh ps alpha = Inl UnboundLocalError"
    by (simp add: get_fdr_thresh_def e stepup_thresh_def)
  show "get_bhy_thresh ps alpha = Inl UnboundLocalError"
    by (simp add: get_bhy_thresh_def e stepup_thresh_def)
qed

theorem stepup_thresh_is_input_element_witness:
  "(\<exists>p\<in>set [Fin 0.002, NaN, Fin 0.001]. isfinite p) \<and>
   finite_sorted [Fin 0.002, NaN, Fin 0.001] = [0.001, 0.002] \<and>
   0.001 \<le> fdr_crit 0.05 2 0 \<and> 0.002 \<le> fdr_crit 0.05 2 1 \<and>
   0.001 \<le> bhy_crit 0.05 2 0 \<and> 0.002 \<le> bhy_crit 0.05 2 1 \<and>
   get_fdr_thresh [Fin 0.002, NaN, Fin 0.001] 0.05 = Inr 0.002 \<and>
   get_bhy_thresh [Fin 0.002, NaN, Fin 0.001] 0.05 = Inr 0.002 \<and>
   \<not> isfinite NaN \<and> \<not> isfinite PInf \<and>
   get_fdr_thresh [NaN, PInf] 0.05 = Inl UnboundLocalError \<and>
   get_bhy_thresh [NaN, PInf] 0.05 = Inl UnboundLocalError"
proof -
  have fs: "finite_sorted [Fin 0.002, NaN, Fin 0.001] = [0.001, 0.002]"
    by (simp add: finite_sorted_def np_sort_def less_eq_prod_def)
  have h1: "\<exists>p\<in>set [Fin 0.002, NaN, Fin 0.001]. isfinite p" by simp
  have h2: "\<forall>i<length (finite_sorted [Fin 0.002, NaN, Fin 0.001]).
      finite_sorted [Fin 0.002, NaN, Fin 0.001] ! i
        \<le> fdr_crit 0.05 (length (finite_sorted [Fin 0.002, NaN, Fin 0.001])) i"
    unfolding fs by (simp add: fdr_crit_def less_Suc_eq numeral_2_eq_2)
  have h3: "\<forall>i<length (finite_sorted [Fin 0.002, NaN, Fin 0.001]).
      finite_sorted [Fin 0.002, NaN, Fin 0.001] ! i
        \<le> bhy_crit 0.05 (length (finite_sorted [Fin 0.002, NaN, Fin 0.001])) i"
    unfolding fs by (simp add: bhy_crit_def less_Suc_eq numeral_2_eq_2)
  have m: "Max {r. Fin r \<in> set [Fin 0.002, NaN, Fin (0.001::real)]} = 0.002"
  proof -
    have "{r. Fin r \<in> set [Fin 0.002, NaN, Fin (0.001::real)]} = {0.002, 0.001}" by auto
    then show ?thesis by simp
  qed
  have h4: "\<forall>p\<in>set [NaN, PInf]. \<not> isfinite p" by simp
  note t1 = stepup_thresh_is_input_element [of "[Fin 0.002, NaN, Fin 0.001]" "0.05"]
  note t2 = stepup_thresh_is_input_element [of "[NaN, PInf]" "0.05"]
  from t1 h1 h2 have a: "get_fdr_thresh [Fin 0.002, NaN, Fin 0.001] 0.05 = Inr 0.002"
    unfolding m by blast
  from t1 h1 h3 have b: "get_bhy_thresh [Fin 0.002, NaN, Fin 0.001] 0.05 = Inr 0.002"
    unfolding m by blast
  from t2 h4 have c: "get_fdr_thresh [NaN, PInf] 0.05 = Inl UnboundLocalError"
     "get_bhy_thresh [NaN, PInf] 0.05 = Inl UnboundLocalError" by blast+
  have k: "0.001 \<le> fdr_crit 0.05 2 0" "0.002 \<le> fdr_crit 0.05 2 1"
    "0.001 \<le> bhy_crit 0.05 2 0" "0.002 \<le> bhy_crit 0.05 2 1"
    by (simp_all add: fdr_crit_def bhy_crit_def)
  have n: "\<not> isfinite NaN" "\<not> isfinite PInf" by simp_all
  from h1 fs k a b n c show ?thesis by blast
qed

end
